(* ===== verification/Prelude.thy ===== *)
theory Prelude
  imports Main "HOL-Library.Signed_Division"
begin

text \<open>
  Shared vocabulary of the development: the JavaScript operations the player's
  sources use on arrays, strings and numbers, written as HOL functions with the
  JavaScript behaviour made explicit (\<open>undefined\<close> as \<open>None\<close>, \<open>-1\<close> from
  \<open>findIndex\<close>, truncated \<open>%\<close>, truthiness of strings and numbers), the error
  values a handler can throw, and the lemmas on them that the component theories
  share.  The collection \<open>js_simps\<close> gathers the rewrite rules that evaluate these
  operations.
\<close>

named_theorems js_simps "rewrite rules evaluating the JavaScript primitives"

subsection \<open>Errors\<close>

text \<open>
  A handler that throws is modelled as returning \<open>Inl\<close> of one of these.
  \<open>TypeError\<close> is what the engine raises on a property read of \<open>undefined\<close>
  (\<open>undefined.filter\<close>, \<open>undefined.uri\<close>); \<open>Rejected\<close> carries the message of an
  error returned by a remote service and rethrown by the code.
\<close>

datatype js_error = TypeError | Rejected string

type_synonym 'a js_result = "js_error + 'a"

subsection \<open>Truthiness\<close>

text \<open>
  A value that is a string or \<open>null\<close>/\<open>undefined\<close> is \<open>string option\<close>; it is
  truthy when present and not the empty string.
\<close>

definition js_truthy_str :: "string option \<Rightarrow> bool" where
  "js_truthy_str v = (case v of None \<Rightarrow> False | Some s \<Rightarrow> s \<noteq> [])"

text \<open>\<open>a || b\<close> on numbers: \<open>0\<close> is the only falsy integer, so \<open>-1 || 0\<close> is \<open>-1\<close>.\<close>

definition js_or_int :: "int \<Rightarrow> int \<Rightarrow> int" where
  "js_or_int a b = (if a = 0 then b else a)"

subsection \<open>Array access and search\<close>

text \<open>\<open>arr[i]\<close>: \<open>undefined\<close> (here \<open>None\<close>) outside \<open>0 \<le> i < arr.length\<close>.\<close>

definition js_at :: "'a list \<Rightarrow> int \<Rightarrow> 'a option" where
  "js_at xs i = (if 0 \<le> i \<and> i < int (length xs) then Some (xs ! nat i) else None)"

text \<open>\<open>arr.findIndex(p)\<close>: the first index satisfying \<open>p\<close>, or \<open>-1\<close>.\<close>

fun js_findIndex :: "('a \<Rightarrow> bool) \<Rightarrow> 'a list \<Rightarrow> int" where
  "js_findIndex p [] = -1"
| "js_findIndex p (x # xs) =
     (if p x then 0 else (let i = js_findIndex p xs in if i < 0 then -1 else i + 1))"

text \<open>\<open>arr.some(p)\<close> and \<open>arr.filter(p)\<close> are \<open>list_ex\<close> and \<open>filter\<close>.\<close>

subsection \<open>Strings\<close>

text \<open>
  \<open>String.prototype.trim\<close> strips the white space and line terminators of
  ECMA-262 from both ends: tab, line feed, vertical tab, form feed, carriage
  return, space, and the Unicode spaces U+00A0, U+1680, U+2000 to U+200A, U+2028,
  U+2029, U+202F, U+205F, U+3000 and U+FEFF.  On the byte strings of the model
  these are their UTF-8 encodings, listed in \<open>js_ws\<close>.  \<open>strip_ws ws s\<close>
  removes from the front of \<open>s\<close> every prefix in \<open>ws\<close>, one after another;
  the end of the string is stripped the same way on the reversed string with the
  reversed sequences.  Each round removes at least one byte, which is the
  termination measure.
\<close>

definition js_ws :: "string list" where
  "js_ws =
     map (\<lambda>c. [c]) [CHR 0x09, CHR 0x0A, CHR 0x0B, CHR 0x0C, CHR 0x0D, CHR '' ''] @
     [[CHR 0xC2, CHR 0xA0], [CHR 0xE1, CHR 0x9A, CHR 0x80]] @
     map (\<lambda>n. [CHR 0xE2, CHR 0x80, char_of n]) [0x80::nat ..< 0x8B] @
     [[CHR 0xE2, CHR 0x80, CHR 0xA8], [CHR 0xE2, CHR 0x80, CHR 0xA9], [CHR 0xE2, CHR 0x80, CHR 0xAF],
      [CHR 0xE2, CHR 0x81, CHR 0x9F], [CHR 0xE3, CHR 0x80, CHR 0x80], [CHR 0xEF, CHR 0xBB, CHR 0xBF]]"

function strip_ws :: "string list \<Rightarrow> string \<Rightarrow> string" where
  "strip_ws ws s =
     (case find (\<lambda>w. w \<noteq> [] \<and> take (length w) s = w) ws of
        None \<Rightarrow> s
      | Some w \<Rightarrow> strip_ws ws (drop (length w) s))"
  by pat_completeness auto
termination
proof (relation "measure (\<lambda>(ws, s). length s)", simp)
  fix ws s w
  assume "find (\<lambda>w. w \<noteq> [] \<and> take (length w) s = w) ws = Some w"
  then have "w \<noteq> []" "take (length w) s = w" by (auto simp: find_Some_iff)
  then have "0 < length w" "length w \<le> length s" by (auto dest: arg_cong [of _ _ length])
  then have "length s - length w < length s" by linarith
  then show "((ws, drop (length w) s), ws, s) \<in> measure (\<lambda>(ws, s). length s)" by simp
qed

declare strip_ws.simps [simp del]

definition js_trim :: "string \<Rightarrow> string" where
  "js_trim s = rev (strip_ws (map rev js_ws) (rev (strip_ws js_ws s)))"

text \<open>
  \<open>Number.prototype.toString\<close> on integers (decimal digits, a minus sign for
  negatives) and \<open>padStart(2, "0")\<close>.
\<close>

definition digit_char :: "nat \<Rightarrow> char" where
  "digit_char d = char_of (48 + d)"

fun nat_str :: "nat \<Rightarrow> string" where
  "nat_str n = (if n < 10 then [digit_char n] else nat_str (n div 10) @ [digit_char (n mod 10)])"

definition int_str :: "int \<Rightarrow> string" where
  "int_str i = (if i < 0 then CHR ''-'' # nat_str (nat (- i)) else nat_str (nat i))"

definition pad_start2 :: "string \<Rightarrow> string" where
  "pad_start2 s = replicate (2 - length s) (CHR ''0'') @ s"

text \<open>Reading decimal digits back, the inverse used to state round trips.\<close>

definition dec_digit :: "char \<Rightarrow> bool" where
  "dec_digit c = ((48::nat) \<le> of_char c \<and> of_char c < (58::nat))"

definition digit_val :: "char \<Rightarrow> nat" where
  "digit_val c = of_char c - 48"

definition parse_nat :: "string \<Rightarrow> nat option" where
  "parse_nat s =
     (if s \<noteq> [] \<and> list_all dec_digit s then Some (foldl (\<lambda>acc c. 10 * acc + digit_val c) 0 s)
      else None)"

text \<open>\<open>str.split(c)\<close> and \<open>arr.join(c)\<close> for a one-character separator.\<close>

text \<open>\<open>split\<close> never returns an empty array: \<open>"".split(c)\<close> is \<open>[""]\<close>.\<close>

fun js_split :: "char \<Rightarrow> string \<Rightarrow> string list" where
  "js_split c [] = [[]]"
| "js_split c (x # xs) =
     (if x = c then [] # js_split c xs
      else (let r = js_split c xs in (x # hd r) # tl r))"

text \<open>\<open>arr.join(c)\<close>.\<close>

fun js_join :: "char \<Rightarrow> string list \<Rightarrow> string" where
  "js_join c [] = []"
| "js_join c [w] = w"
| "js_join c (w # ws) = w @ c # js_join c ws"

subsection \<open>Lemmas\<close>

lemma js_truthy_str_simps [simp, js_simps]:
  "js_truthy_str None = False"
  "js_truthy_str (Some s) = (s \<noteq> [])"
  by (simp_all add: js_truthy_str_def)

lemma js_or_int_simps [simp, js_simps]:
  "js_or_int 0 b = b"
  "a \<noteq> 0 \<Longrightarrow> js_or_int a b = a"
  by (simp_all add: js_or_int_def)

lemma js_at_Some_iff [js_simps]:
  "js_at xs i = Some x \<longleftrightarrow> 0 \<le> i \<and> i < int (length xs) \<and> xs ! nat i = x"
  by (auto simp: js_at_def)

lemma js_at_None_iff [js_simps]:
  "js_at xs i = None \<longleftrightarrow> \<not> (0 \<le> i \<and> i < int (length xs))"
  by (simp add: js_at_def)

lemma js_at_Nil [simp, js_simps]: "js_at [] i = None"
  by (simp add: js_at_def)

lemma js_at_Cons_0 [simp, js_simps]: "js_at (x # xs) 0 = Some x"
  by (simp add: js_at_def)

lemma js_findIndex_range: "-1 \<le> js_findIndex p xs \<and> js_findIndex p xs < int (length xs)"
  by (induction xs) (auto simp: Let_def)

lemma js_findIndex_neg_iff: "js_findIndex p xs < 0 \<longleftrightarrow> \<not> list_ex p xs"
  by (induction xs) (auto simp: Let_def)

lemma js_findIndex_minus_one_iff: "js_findIndex p xs = -1 \<longleftrightarrow> \<not> list_ex p xs"
  using js_findIndex_range [of p xs] js_findIndex_neg_iff [of p xs] by linarith

lemma js_findIndex_found:
  "0 \<le> js_findIndex p xs \<Longrightarrow> p (xs ! nat (js_findIndex p xs))"
proof (induction xs)
  case Nil
  then show ?case by simp
next
  case (Cons x xs)
  show ?case
  proof (cases "p x")
    case True
    then show ?thesis by simp
  next
    case False
    with Cons.prems have "0 \<le> js_findIndex p xs"
      by (auto simp: Let_def split: if_splits)
    with Cons.IH False show ?thesis
      by (simp add: Let_def nat_add_distrib)
  qed
qed

lemma js_findIndex_first:
  "0 \<le> j \<Longrightarrow> j < js_findIndex p xs \<Longrightarrow> \<not> p (xs ! nat j)"
proof (induction xs arbitrary: j)
  case Nil
  then show ?case by simp
next
  case (Cons x xs)
  show ?case
  proof (cases "j = 0")
    case True
    with Cons.prems show ?thesis by (auto split: if_splits)
  next
    case False
    with Cons.prems have j1: "0 \<le> j - 1" and j2: "j - 1 < js_findIndex p xs"
      by (auto simp: Let_def split: if_splits)
    have "\<not> p (xs ! nat (j - 1))" using Cons.IH [OF j1 j2] .
    moreover have "nat j = Suc (nat (j - 1))" using False Cons.prems(1) by simp
    ultimately show ?thesis by simp
  qed
qed

lemma js_findIndex_nonneg_iff: "0 \<le> js_findIndex p xs \<longleftrightarrow> list_ex p xs"
  using js_findIndex_neg_iff [of p xs] by linarith

paragraph \<open>Remainder\<close>

text \<open>
  JavaScript's \<open>%\<close> truncates towards zero, so its result takes the sign of the
  dividend: it is \<open>smod\<close> of \<open>HOL-Library.Signed_Division\<close>, not HOL's \<open>mod\<close>.
  The two agree on a non-negative dividend and a positive divisor.
\<close>

lemma smod_nonneg_eq_mod [js_simps]:
  "0 \<le> a \<Longrightarrow> 0 < (b::int) \<Longrightarrow> a smod b = a mod b"
  by (cases "a = 0") (simp_all add: smod_int_alt_def)

lemma smod_neg_one_example: "(-1::int) smod 3 = -1"
  by (simp add: smod_int_alt_def)


paragraph \<open>Decimal strings\<close>

declare nat_str.simps [simp del]

lemma digit_char_props [simp]:
  "d < 10 \<Longrightarrow> dec_digit (digit_char d)"
  "d < 10 \<Longrightarrow> digit_val (digit_char d) = d"
  by (simp_all add: digit_char_def dec_digit_def digit_val_def)

lemma nat_str_digits: "nat_str n \<noteq> [] \<and> list_all dec_digit (nat_str n)"
proof (induction n rule: nat_str.induct)
  case (1 n)
  show ?case
  proof (cases "n < 10")
    case True
    then show ?thesis by (simp add: nat_str.simps [of n])
  next
    case False
    with "1.IH" show ?thesis by (simp add: nat_str.simps [of n])
  qed
qed

lemma foldl_digits_nat_str:
  "foldl (\<lambda>acc c. 10 * acc + digit_val c) 0 (nat_str n) = n"
proof (induction n rule: nat_str.induct)
  case (1 n)
  show ?case
  proof (cases "n < 10")
    case True
    then show ?thesis by (subst nat_str.simps) simp
  next
    case False
    with "1.IH" show ?thesis by (subst nat_str.simps) simp
  qed
qed

lemma parse_nat_str [simp]: "parse_nat (nat_str n) = Some n"
  using nat_str_digits [of n] by (simp add: parse_nat_def foldl_digits_nat_str)

lemma nat_str_length_one: "n < 10 \<Longrightarrow> nat_str n = [digit_char n]"
  by (subst nat_str.simps) simp

lemma nat_str_length_ge2: "10 \<le> n \<Longrightarrow> 2 \<le> length (nat_str n)"
  using nat_str_digits [of "n div 10"] by (subst nat_str.simps) (simp add: not_less Suc_le_eq)

lemma nat_str_length_lt100: "n < 100 \<Longrightarrow> length (nat_str n) \<le> 2"
  by (subst nat_str.simps) (auto simp: nat_str_length_one)

lemma pad_start2_small: "n < 100 \<Longrightarrow> length (pad_start2 (nat_str n)) = 2"
  using nat_str_length_lt100 [of n] by (simp add: pad_start2_def)

lemma foldl_digits_zeros:
  "foldl (\<lambda>acc c. 10 * acc + digit_val c) 0 (replicate k (CHR ''0'') @ s) =
   foldl (\<lambda>acc c. 10 * acc + digit_val c) 0 s"
  by (induction k) (simp_all add: digit_val_def)

lemma parse_nat_zero_prefix:
  assumes "s \<noteq> []"
  shows "parse_nat (replicate k (CHR ''0'') @ s) = parse_nat s"
proof -
  have "list_all dec_digit (replicate k (CHR ''0'') @ s) = list_all dec_digit s"
    by (induction k) (simp_all add: dec_digit_def)
  with assms show ?thesis
    by (simp only: parse_nat_def foldl_digits_zeros) simp
qed

lemma int_str_nonneg: "0 \<le> i \<Longrightarrow> int_str i = nat_str (nat i)"
  by (simp add: int_str_def)

lemma parse_nat_pad_start2 [simp]: "parse_nat (pad_start2 (nat_str n)) = Some n"
  using parse_nat_zero_prefix [of "nat_str n" "2 - length (nat_str n)"] nat_str_digits [of n]
  by (simp add: pad_start2_def)

subsubsection \<open>Trimming\<close>

lemma strip_ws_keep:
  assumes "s \<noteq> []" and "\<forall>w \<in> set ws. w \<noteq> [] \<longrightarrow> hd w \<noteq> hd s"
  shows "strip_ws ws s = s"
proof -
  have "take (length w) s \<noteq> w" if "w \<in> set ws" "w \<noteq> []" for w
  proof
    assume "take (length w) s = w"
    then have "hd w = hd s" using assms(1) that(2) by (metis hd_take length_greater_0_conv)
    with assms(2) that show False by blast
  qed
  then have "find (\<lambda>w. w \<noteq> [] \<and> take (length w) s = w) ws = None" by (auto simp: find_None_iff)
  then show ?thesis by (subst strip_ws.simps) simp
qed

lemma js_ws_ends:
  "w \<in> set js_ws \<Longrightarrow> w \<noteq> [] \<and> \<not> (0x20 < (of_char (hd w) :: nat) \<and> (of_char (hd w) :: nat) < 0x80) \<and>
     \<not> (0x20 < (of_char (last w) :: nat) \<and> (of_char (last w) :: nat) < 0x80)"
  by (auto simp: js_ws_def upt_rec)

text \<open>A string that starts and ends with a printable ASCII character is left as it is.\<close>

lemma js_trim_plain:
  assumes "s \<noteq> []"
    and "0x20 < (of_char (hd s) :: nat)" "(of_char (hd s) :: nat) < 0x80"
    and "0x20 < (of_char (last s) :: nat)" "(of_char (last s) :: nat) < 0x80"
  shows "js_trim s = s"
proof -
  have "strip_ws js_ws s = s"
    using assms(1-3) js_ws_ends by (intro strip_ws_keep) metis+
  moreover have "strip_ws (map rev js_ws) (rev s) = rev s"
  proof (rule strip_ws_keep)
    show "rev s \<noteq> []" using assms(1) by simp
    show "\<forall>w \<in> set (map rev js_ws). w \<noteq> [] \<longrightarrow> hd w \<noteq> hd (rev s)"
      using assms(1,4,5) by (force simp: hd_rev dest: js_ws_ends)
  qed
  ultimately show ?thesis by (simp add: js_trim_def)
qed

subsubsection \<open>Splitting and joining\<close>

lemma js_split_nonempty [simp]: "js_split c s \<noteq> []"
  by (induction s) (auto simp: Let_def)

lemma js_split_no_sep [simp]: "c \<notin> set w \<Longrightarrow> js_split c w = [w]"
  by (induction w) (auto simp: Let_def)

lemma js_split_append_sep:
  "c \<notin> set w \<Longrightarrow> js_split c (w @ c # r) = w # js_split c r"
  by (induction w) (auto simp: Let_def)

lemma js_split_join:
  "ws \<noteq> [] \<Longrightarrow> (\<forall>w \<in> set ws. c \<notin> set w) \<Longrightarrow> js_split c (js_join c ws) = ws"
proof (induction c ws rule: js_join.induct)
  case (1 c)
  then show ?case by simp
next
  case (2 c w)
  then show ?case by simp
next
  case (3 c w v vs)
  then show ?case by (simp add: js_split_append_sep)
qed

end
