(* ===== verification/Track.thy ===== *)
theory Track
  imports Prelude
begin

text \<open>
  The track records of the player (\<open>src/src/App.jsx\<close>, \<open>fetchTracks\<close>): a search
  result item of the Spotify Web API, the normalised track the application keeps,
  and the mapping between them; the identity the store uses (\<open>src\<close>, the
  preview URL) and the one the view uses (\<open>uri\<close>).
\<close>

subsection \<open>Search result items\<close>

text \<open>
  The fields of \<open>response.data.tracks.items[i]\<close> the code reads: \<open>name\<close>, the
  names of \<open>artists\<close> (\<open>artists[0]?.name\<close>), \<open>preview_url\<close> (a string or
  \<open>null\<close>), the image URLs of \<open>album\<close> (\<open>album?.images[0]?.url\<close>; the album
  may be missing) and \<open>uri\<close>.
\<close>

record spotify_item =
  item_name :: string
  item_artists :: "string list"
  item_preview_url :: "string option"
  item_album_images :: "string list option"
  item_uri :: string

subsection \<open>Tracks\<close>

text \<open>The object literal built for each item in \<open>fetchTracks\<close>.\<close>

record track =
  title :: string
  artist :: string
  src :: "string option"
  hasPreview :: bool
  image :: string
  uri :: string

definition unknown_artist :: string where
  "unknown_artist = ''Unknown Artist''"

definition placeholder_image :: string where
  "placeholder_image = ''/music-notes-background-illustration-ai-generative-free-photo.jpg''"

text \<open>\<open>a?.b || d\<close> on an optional string: the default when absent or empty.\<close>

definition js_or_str :: "string option \<Rightarrow> string \<Rightarrow> string" where
  "js_or_str v d = (if js_truthy_str v then the v else d)"

definition to_track :: "spotify_item \<Rightarrow> track" where
  "to_track item =
     \<lparr>title = item_name item,
      artist = js_or_str (case item_artists item of [] \<Rightarrow> None | a # _ \<Rightarrow> Some a) unknown_artist,
      src = item_preview_url item,
      hasPreview = js_truthy_str (item_preview_url item),
      image = js_or_str (case item_album_images item of
                           None \<Rightarrow> None
                         | Some [] \<Rightarrow> None
                         | Some (u # _) \<Rightarrow> Some u) placeholder_image,
      uri = item_uri item\<rparr>"

definition fetched_tracks :: "spotify_item list \<Rightarrow> track list" where
  "fetched_tracks items = map to_track items"

subsection \<open>Identities\<close>

text \<open>
  The store compares tracks by \<open>t.src === track.src\<close>; the favourite button of
  \<open>NowPlaying\<close> by \<open>fav.uri === track.uri\<close>.  With \<open>null\<close> preview URLs the
  first identifies every track that has no preview.  The operations spell these
  comparisons out as the code does.
\<close>

text \<open>A track is playable locally when its preview source is truthy.\<close>

definition has_local_preview :: "track \<Rightarrow> bool" where
  "has_local_preview t = js_truthy_str (src t)"

text \<open>Well-formed tracks: what every track built by \<open>fetchTracks\<close> satisfies.\<close>

definition track_wf :: "track \<Rightarrow> bool" where
  "track_wf t = (hasPreview t = has_local_preview t \<and> artist t \<noteq> [] \<and> image t \<noteq> [])"

subsection \<open>Example tracks\<close>

text \<open>
  Two tracks for the concrete instances of the theorems: \<open>ex_a\<close> has a preview,
  \<open>ex_b\<close> has none (its \<open>preview_url\<close> was \<open>null\<close>); \<open>ex_c\<close> is a
  second track without preview, different from \<open>ex_b\<close>.
\<close>

definition ex_a :: track where
  "ex_a = \<lparr>title = ''A'', artist = ''Artist A'', src = Some ''https://p.scdn.co/a'',
           hasPreview = True, image = placeholder_image, uri = ''spotify:track:a''\<rparr>"

definition ex_b :: track where
  "ex_b = \<lparr>title = ''B'', artist = ''Artist B'', src = None,
           hasPreview = False, image = placeholder_image, uri = ''spotify:track:b''\<rparr>"

definition ex_c :: track where
  "ex_c = \<lparr>title = ''C'', artist = ''Artist C'', src = None,
           hasPreview = False, image = placeholder_image, uri = ''spotify:track:c''\<rparr>"

text \<open>A search result item, as the catalogue of the examples answers.\<close>

definition ex_item :: spotify_item where
  "ex_item = \<lparr>item_name = ''A'', item_artists = [''Artist A''], item_preview_url = None,
              item_album_images = Some [], item_uri = ''spotify:track:a''\<rparr>"

subsection \<open>Lemmas\<close>

lemma js_or_str_nonempty: "d \<noteq> [] \<Longrightarrow> js_or_str v d \<noteq> []"
  by (cases v) (auto simp: js_or_str_def)

lemma to_track_fields [simp]:
  "title (to_track item) = item_name item"
  "src (to_track item) = item_preview_url item"
  "uri (to_track item) = item_uri item"
  by (simp_all add: to_track_def)

text \<open>
  C39: every track \<open>fetchTracks\<close> builds is well formed: \<open>hasPreview\<close> says
  whether its preview source is truthy, and its artist and image are never
  empty (the defaults fill them in).
\<close>

theorem fetched_tracks_wf: "\<forall>t \<in> set (fetched_tracks items). track_wf t"
  by (simp add: fetched_tracks_def track_wf_def to_track_def has_local_preview_def
                js_or_str_nonempty unknown_artist_def placeholder_image_def)

theorem fetched_tracks_wf_witness:
  "track_wf (to_track ex_item) \<and> artist (to_track ex_item) = ''Artist A'' \<and>
   image (to_track ex_item) = placeholder_image \<and> \<not> hasPreview (to_track ex_item)"
  using fetched_tracks_wf [of "[ex_item]"]
  by (simp add: fetched_tracks_def to_track_def ex_item_def js_or_str_def)

end
