(* ===== verification/Store.thy ===== *)
theory Store
  imports Track
begin

text \<open>
  The global store of \<open>src/src/store.jsx\<close> (a zustand store): its state, and the
  favourites and playlist operations (\<open>addToFavorites\<close>, \<open>removeFromFavorites\<close>,
  \<open>createPlaylist\<close>, \<open>addToPlaylist\<close>, \<open>removeFromPlaylist\<close>,
  \<open>setCurrentPlaylist\<close>).  Each \<open>set(fn)\<close> call is a function from the store to
  the store; the one operation that can throw returns a \<open>js_result\<close>.  The
  authentication operations of the same store are in theory \<open>Session\<close>.
\<close>

subsection \<open>State\<close>

text \<open>The authenticated user as the code reads it: only its e-mail is displayed.\<close>

record supa_user =
  user_id :: string
  user_email :: string

text \<open>
  The playlists object \<open>{name: [track, ...]}\<close> is a map from names to track
  lists; \<open>currentPlaylist\<close> is \<open>null\<close>, \<open>"favorites"\<close> or a playlist name.
\<close>

record store =
  favorites :: "track list"
  playlists :: "string \<rightharpoonup> track list"
  currentPlaylist :: "string option"
  user :: "supa_user option"
  isAuthenticated :: bool
  authLoading :: bool
  spotifyToken :: "string option"

definition initial_store :: store where
  "initial_store =
     \<lparr>favorites = [], playlists = Map.empty, currentPlaylist = None, user = None,
      isAuthenticated = False, authLoading = True, spotifyToken = None\<rparr>"

subsection \<open>Favourites\<close>

definition addToFavorites :: "track \<Rightarrow> store \<Rightarrow> store" where
  "addToFavorites t s =
     s\<lparr>favorites := (if list_ex (\<lambda>f. src f = src t) (favorites s) then favorites s
                     else favorites s @ [t])\<rparr>"

definition removeFromFavorites :: "track \<Rightarrow> store \<Rightarrow> store" where
  "removeFromFavorites t s = s\<lparr>favorites := filter (\<lambda>f. src f \<noteq> src t) (favorites s)\<rparr>"

subsection \<open>Playlists\<close>

definition createPlaylist :: "string \<Rightarrow> store \<Rightarrow> store" where
  "createPlaylist name s =
     s\<lparr>playlists := (playlists s)(name \<mapsto> []), currentPlaylist := Some name\<rparr>"

definition addToPlaylist :: "track \<Rightarrow> string \<Rightarrow> store \<Rightarrow> store" where
  "addToPlaylist t name s =
     s\<lparr>playlists := (playlists s)(name \<mapsto>
        (case playlists s name of Some xs \<Rightarrow> xs @ [t] | None \<Rightarrow> [t]))\<rparr>"

text \<open>
  \<open>state.playlists[playlistName].filter(...)\<close> reads \<open>filter\<close> of \<open>undefined\<close>
  when the playlist does not exist: a \<open>TypeError\<close> thrown out of \<open>set\<close>, which
  leaves the store unchanged.
\<close>

definition removeFromPlaylist :: "track \<Rightarrow> string \<Rightarrow> store \<Rightarrow> store js_result" where
  "removeFromPlaylist t name s =
     (case playlists s name of
        None \<Rightarrow> Inl TypeError
      | Some xs \<Rightarrow> Inr (s\<lparr>playlists := (playlists s)(name \<mapsto> filter (\<lambda>f. src f \<noteq> src t) xs)\<rparr>))"

definition setCurrentPlaylist :: "string option \<Rightarrow> store \<Rightarrow> store" where
  "setCurrentPlaylist name s = s\<lparr>currentPlaylist := name\<rparr>"

subsection \<open>The store's library interface\<close>

text \<open>
  The operations the components call on the library part of the store, as one
  datatype with one step function: \<open>NowPlaying\<close> and \<open>Playlist\<close> issue these.
\<close>

datatype store_op =
    AddToFavorites track
  | RemoveFromFavorites track
  | CreatePlaylist string
  | AddToPlaylist track string
  | RemoveFromPlaylist track string
  | SetCurrentPlaylist "string option"

fun store_step :: "store_op \<Rightarrow> store \<Rightarrow> store js_result" where
  "store_step (AddToFavorites t) s = Inr (addToFavorites t s)"
| "store_step (RemoveFromFavorites t) s = Inr (removeFromFavorites t s)"
| "store_step (CreatePlaylist n) s = Inr (createPlaylist n s)"
| "store_step (AddToPlaylist t n) s = Inr (addToPlaylist t n s)"
| "store_step (RemoveFromPlaylist t n) s = removeFromPlaylist t n s"
| "store_step (SetCurrentPlaylist n) s = Inr (setCurrentPlaylist n s)"

text \<open>A sequence of operations; a thrown error stops it, as it would the handler.\<close>

fun store_run :: "store_op list \<Rightarrow> store \<Rightarrow> store js_result" where
  "store_run [] s = Inr s"
| "store_run (op # ops) s = (case store_step op s of Inl e \<Rightarrow> Inl e | Inr s' \<Rightarrow> store_run ops s')"

subsection \<open>Invariant and abstraction\<close>

text \<open>
  The favourites hold each preview identity at most once; the abstraction of the
  favourites is the set of identities they hold.
\<close>

definition favorites_inv :: "store \<Rightarrow> bool" where
  "favorites_inv s = distinct (map src (favorites s))"

definition fav_ids :: "store \<Rightarrow> string option set" where
  "fav_ids s = src ` set (favorites s)"

text \<open>The favourite operations among the store operations.\<close>

fun is_favorites_op :: "store_op \<Rightarrow> bool" where
  "is_favorites_op (AddToFavorites _) = True"
| "is_favorites_op (RemoveFromFavorites _) = True"
| "is_favorites_op _ = False"

text \<open>The playlists as the specification reads them: a missing name is empty.\<close>

definition pl_abs :: "store \<Rightarrow> string \<Rightarrow> track list" where
  "pl_abs s n = (case playlists s n of None \<Rightarrow> [] | Some xs \<Rightarrow> xs)"

subsection \<open>Lemmas\<close>

lemmas store_defs = addToFavorites_def removeFromFavorites_def createPlaylist_def
  addToPlaylist_def setCurrentPlaylist_def

lemma list_ex_src_iff: "list_ex (\<lambda>f. src f = src t) xs \<longleftrightarrow> src t \<in> src ` set xs"
  by (force simp: list_ex_iff)

lemma distinct_map_filter: "distinct (map f xs) \<Longrightarrow> distinct (map f (filter P xs))"
  by (induction xs) auto

lemma removeFromPlaylist_Inr_favorites:
  "removeFromPlaylist t n s = Inr s' \<Longrightarrow> favorites s' = favorites s"
  by (auto simp: removeFromPlaylist_def split: option.splits)

lemma addToFavorites_inv: "favorites_inv s \<Longrightarrow> favorites_inv (addToFavorites t s)"
  by (auto simp: favorites_inv_def addToFavorites_def list_ex_src_iff)

lemma removeFromFavorites_inv: "favorites_inv s \<Longrightarrow> favorites_inv (removeFromFavorites t s)"
  by (simp add: favorites_inv_def removeFromFavorites_def distinct_map_filter)

lemma store_step_favorites_inv:
  assumes "favorites_inv s" and "store_step op s = Inr s'"
  shows "favorites_inv s'"
proof (cases op)
  case (AddToFavorites t)
  with assms show ?thesis by (auto intro: addToFavorites_inv)
next
  case (RemoveFromFavorites t)
  with assms show ?thesis by (auto intro: removeFromFavorites_inv)
qed (use assms in \<open>auto simp: favorites_inv_def store_defs dest: removeFromPlaylist_Inr_favorites\<close>)

lemma initial_store_inv: "favorites_inv initial_store"
  by (simp add: favorites_inv_def initial_store_def)

lemma ex_tracks_src [simp]:
  "src ex_a = Some ''https://p.scdn.co/a''" "src ex_b = None" "src ex_c = None"
  by (simp_all add: ex_a_def ex_b_def ex_c_def)

subsection \<open>Properties of the favourites\<close>

text \<open>
  C4: adding a track to the favourites twice leaves the favourites as adding it
  once does (\<open>addToFavorites\<close> is idempotent).
\<close>

theorem addToFavorites_idem: "addToFavorites t (addToFavorites t s) = addToFavorites t s"
  by (auto simp: addToFavorites_def list_ex_iff)

text \<open>
  C5: removing a track whose identity is not among the favourites changes nothing
  and throws nothing.
\<close>

theorem removeFromFavorites_absent:
  assumes "\<not> list_ex (\<lambda>f. src f = src t) (favorites s)"
  shows "removeFromFavorites t s = s"
proof -
  from assms have "filter (\<lambda>f. src f \<noteq> src t) (favorites s) = favorites s"
    by (simp add: list_ex_iff filter_id_conv)
  then show ?thesis by (simp add: removeFromFavorites_def)
qed

theorem removeFromFavorites_absent_witness:
  "\<not> list_ex (\<lambda>f. src f = src ex_b) (favorites (initial_store\<lparr>favorites := [ex_a]\<rparr>)) \<and>
   removeFromFavorites ex_b (initial_store\<lparr>favorites := [ex_a]\<rparr>) = initial_store\<lparr>favorites := [ex_a]\<rparr>"
  using removeFromFavorites_absent [of ex_b "initial_store\<lparr>favorites := [ex_a]\<rparr>"] by simp

text \<open>
  C7: every sequence of store operations that does not throw keeps the favourites
  free of duplicate identities.
\<close>

theorem store_run_favorites_inv:
  "favorites_inv s \<Longrightarrow> store_run ops s = Inr s' \<Longrightarrow> favorites_inv s'"
  by (induction ops arbitrary: s) (auto split: sum.splits intro: store_step_favorites_inv)

theorem store_run_favorites_inv_witness:
  "favorites_inv initial_store \<and>
   store_run [AddToFavorites ex_a, AddToFavorites ex_a, AddToFavorites ex_b] initial_store =
     Inr (initial_store\<lparr>favorites := [ex_a, ex_b]\<rparr>) \<and>
   favorites_inv (initial_store\<lparr>favorites := [ex_a, ex_b]\<rparr>)"
proof -
  have r: "store_run [AddToFavorites ex_a, AddToFavorites ex_a, AddToFavorites ex_b] initial_store =
     Inr (initial_store\<lparr>favorites := [ex_a, ex_b]\<rparr>)"
    by (simp add: addToFavorites_def initial_store_def)
  show ?thesis using store_run_favorites_inv [OF initial_store_inv r] r initial_store_inv by simp
qed

text \<open>
  C8: the favourites list refines a set of identities: \<open>addToFavorites\<close> inserts
  the track's identity and \<open>removeFromFavorites\<close> deletes it.
\<close>

theorem fav_ids_refine:
  "fav_ids (addToFavorites t s) = insert (src t) (fav_ids s) \<and>
   fav_ids (removeFromFavorites t s) = fav_ids s - {src t}"
proof
  show "fav_ids (addToFavorites t s) = insert (src t) (fav_ids s)"
    by (auto simp: fav_ids_def addToFavorites_def list_ex_src_iff)
  show "fav_ids (removeFromFavorites t s) = fav_ids s - {src t}"
    by (force simp: fav_ids_def removeFromFavorites_def)
qed

text \<open>
  C13: two different tracks without a preview share the identity \<open>null\<close>: once
  one of them is a favourite, adding the other does nothing.
\<close>

theorem no_preview_collision:
  assumes "src a = None" and "src b = None"
  shows "addToFavorites b (addToFavorites a s) = addToFavorites a s"
  using assms by (auto simp: addToFavorites_def list_ex_iff)

theorem no_preview_collision_witness:
  "src ex_b = None \<and> src ex_c = None \<and> ex_b \<noteq> ex_c \<and>
   addToFavorites ex_c (addToFavorites ex_b initial_store) = addToFavorites ex_b initial_store \<and>
   favorites (addToFavorites ex_b initial_store) = [ex_b]"
  using no_preview_collision [of ex_b ex_c initial_store]
  by (simp add: ex_b_def ex_c_def addToFavorites_def initial_store_def)

subsection \<open>Properties of the playlists\<close>

text \<open>
  C6: creating playlist \<open>X\<close>, adding a track to it and removing that track again
  succeeds and leaves an empty playlist at \<open>X\<close>, selected as current, not an
  absent key.
\<close>

theorem playlist_roundtrip:
  "\<exists>s'. store_run [CreatePlaylist x, AddToPlaylist t x, RemoveFromPlaylist t x] s = Inr s' \<and>
        playlists s' x = Some [] \<and> currentPlaylist s' = Some x"
  by (auto simp: store_defs removeFromPlaylist_def)

text \<open>
  C12: removing a track from a playlist that does not exist throws a
  \<open>TypeError\<close>.
\<close>

theorem removeFromPlaylist_missing:
  "playlists s n = None \<Longrightarrow> removeFromPlaylist t n s = Inl TypeError"
  by (simp add: removeFromPlaylist_def)

theorem removeFromPlaylist_missing_witness:
  "playlists initial_store ''mix'' = None \<and> removeFromPlaylist ex_a ''mix'' initial_store = Inl TypeError"
  using removeFromPlaylist_missing [of initial_store "''mix''" ex_a] by (simp add: initial_store_def)

text \<open>
  The store operations touch only their own part of the store: none changes
  the user, the authentication flags or the streaming token; the playlist
  operations leave the favourites alone, and the favourite operations leave the
  playlists and the selection alone.
\<close>

lemma store_ops_frame:
  assumes "store_step op s = Inr s'"
  shows "user s' = user s \<and> isAuthenticated s' = isAuthenticated s \<and>
         authLoading s' = authLoading s \<and> spotifyToken s' = spotifyToken s \<and>
         (is_favorites_op op \<or> favorites s' = favorites s) \<and>
         (is_favorites_op op \<longrightarrow> playlists s' = playlists s \<and> currentPlaylist s' = currentPlaylist s)"
  using assms
  by (cases op) (auto simp: store_defs removeFromPlaylist_def split: option.splits)

text \<open>
  C17: against the specification's view of the playlists as a total map from
  names to sequences (a missing name reads as the empty sequence),
  \<open>addToPlaylist\<close> appends, \<open>createPlaylist\<close> resets to empty, and
  \<open>removeFromPlaylist\<close>, when it does not throw, filters the identity out of
  that one playlist.
\<close>

theorem playlist_refine:
  "pl_abs (addToPlaylist t n s) = (pl_abs s)(n := pl_abs s n @ [t]) \<and>
   pl_abs (createPlaylist n s) = (pl_abs s)(n := []) \<and>
   (removeFromPlaylist t n s = Inr s' \<longrightarrow>
      pl_abs s' = (pl_abs s)(n := filter (\<lambda>f. src f \<noteq> src t) (pl_abs s n)))"
  by (auto simp: pl_abs_def store_defs removeFromPlaylist_def fun_eq_iff split: option.splits)

theorem playlist_refine_witness:
  "removeFromPlaylist ex_b ''mix'' (initial_store\<lparr>playlists := [''mix'' \<mapsto> [ex_a, ex_b]]\<rparr>) =
     Inr (initial_store\<lparr>playlists := [''mix'' \<mapsto> [ex_a]]\<rparr>) \<and>
   pl_abs (initial_store\<lparr>playlists := [''mix'' \<mapsto> [ex_a]]\<rparr>) ''mix'' = [ex_a]"
proof -
  have r: "removeFromPlaylist ex_b ''mix'' (initial_store\<lparr>playlists := [''mix'' \<mapsto> [ex_a, ex_b]]\<rparr>) =
     Inr (initial_store\<lparr>playlists := [''mix'' \<mapsto> [ex_a]]\<rparr>)"
    by (simp add: removeFromPlaylist_def)
  have "pl_abs (initial_store\<lparr>playlists := [''mix'' \<mapsto> [ex_a]]\<rparr>) ''mix'' = [ex_a]"
    using playlist_refine [of ex_b "''mix''" "initial_store\<lparr>playlists := [''mix'' \<mapsto> [ex_a, ex_b]]\<rparr>"] r
    by (simp add: pl_abs_def)
  with r show ?thesis by simp
qed

end
