(* ===== verification/Playback.thy ===== *)
theory Playback
  imports Store
begin

text \<open>
  The playback controller of \<open>src/src/App.jsx\<close>: the React state of \<open>App\<close>
  (\<open>tracks\<close>, \<open>trackIndex\<close>, \<open>isPlaying\<close>, \<open>query\<close>, \<open>loading\<close>, \<open>error\<close>,
  \<open>player\<close>) and its handlers.  A handler reads the store (the streaming token,
  the favourites and playlists) and returns the commands it sends to the Spotify
  Web Playback SDK together with the new state.  Commands to the SDK are requests:
  the state they cause arrives later as a \<open>player_state_changed\<close> notification,
  modelled by \<open>onPlayerStateChanged\<close>.
\<close>

subsection \<open>State and commands\<close>

text \<open>\<open>player\<close> is \<open>null\<close> until the SDK player reports \<open>ready\<close>; it is never reset.\<close>

record app_state =
  tracks :: "track list"
  trackIndex :: int
  isPlaying :: bool
  query :: string
  loading :: bool
  error :: "string option"
  player :: bool

definition initial_app :: app_state where
  "initial_app =
     \<lparr>tracks = [], trackIndex = 0, isPlaying = False, query = ''genre:pop'',
      loading = False, error = None, player = False\<rparr>"

datatype sdk_cmd = SdkTogglePlay | SdkNextTrack | SdkPreviousTrack | SdkPlay "string list"

subsection \<open>Backend selection\<close>

text \<open>\<open>player && spotifyToken\<close>: re-evaluated by every handler.\<close>

definition streaming :: "store \<Rightarrow> app_state \<Rightarrow> bool" where
  "streaming s a = (player a \<and> js_truthy_str (spotifyToken s))"

text \<open>\<open>tracks[i]?.src\<close> is truthy: the track at \<open>i\<close> exists and has a preview.\<close>

definition preview_at :: "track list \<Rightarrow> int \<Rightarrow> bool" where
  "preview_at xs i = (case js_at xs i of None \<Rightarrow> False | Some t \<Rightarrow> js_truthy_str (src t))"

subsection \<open>Transport handlers\<close>

definition togglePlay :: "store \<Rightarrow> app_state \<Rightarrow> sdk_cmd list \<times> app_state" where
  "togglePlay s a =
     (if streaming s a then ([SdkTogglePlay], a)
      else if preview_at (tracks a) (trackIndex a) then ([], a\<lparr>isPlaying := \<not> isPlaying a\<rparr>)
      else ([], a))"

definition nextTrack :: "store \<Rightarrow> app_state \<Rightarrow> sdk_cmd list \<times> app_state" where
  "nextTrack s a =
     (if tracks a = [] then ([], a)
      else if streaming s a then ([SdkNextTrack], a)
      else (let newIndex = (trackIndex a + 1) smod int (length (tracks a))
            in ([], a\<lparr>trackIndex := newIndex, isPlaying := preview_at (tracks a) newIndex\<rparr>)))"

definition prevTrack :: "store \<Rightarrow> app_state \<Rightarrow> sdk_cmd list \<times> app_state" where
  "prevTrack s a =
     (if tracks a = [] then ([], a)
      else if streaming s a then ([SdkPreviousTrack], a)
      else (let newIndex = (trackIndex a - 1 + int (length (tracks a))) smod int (length (tracks a))
            in ([], a\<lparr>trackIndex := newIndex, isPlaying := preview_at (tracks a) newIndex\<rparr>)))"

text \<open>
  \<open>playTrack(index)\<close> indexes the list the \<open>Playlist\<close> view shows: the favourites,
  the current playlist if it exists, else the search results.  For a missing
  entry (\<open>track\<close> is \<open>undefined\<close>) the code throws only where it reads a
  field of it: \<open>track.uri\<close> is read only when \<open>player && spotifyToken\<close>
  holds, and \<open>track.src\<close> only inside the \<open>findIndex\<close> callback, which an
  empty \<open>tracks\<close> never calls; then \<open>globalIndex\<close> is \<open>-1\<close>, the index
  becomes 0 and the playing flag is set.
\<close>

definition tracksToPlay :: "store \<Rightarrow> app_state \<Rightarrow> track list" where
  "tracksToPlay s a =
     (if currentPlaylist s = Some ''favorites'' then favorites s
      else (case currentPlaylist s of
              Some n \<Rightarrow> (if n \<noteq> [] then (case playlists s n of Some xs \<Rightarrow> xs | None \<Rightarrow> tracks a)
                         else tracks a)
            | None \<Rightarrow> tracks a))"

definition playTrack :: "store \<Rightarrow> app_state \<Rightarrow> int \<Rightarrow> (sdk_cmd list \<times> app_state) js_result" where
  "playTrack s a index =
     (case js_at (tracksToPlay s a) index of
        None \<Rightarrow>
          (if streaming s a \<or> tracks a \<noteq> [] then Inl TypeError
           else Inr ([], a\<lparr>trackIndex := 0, isPlaying := True\<rparr>))
      | Some t \<Rightarrow>
          (if streaming s a \<and> uri t \<noteq> [] then Inr ([SdkPlay [uri t]], a)
           else (let globalIndex = js_findIndex (\<lambda>x. src x = src t) (tracks a)
                 in Inr ([], a\<lparr>trackIndex := (if 0 \<le> globalIndex then globalIndex else 0),
                              isPlaying := True\<rparr>))))"

subsection \<open>Notifications of the streaming player\<close>

text \<open>
  The \<open>player_state_changed\<close> listener: \<open>state\<close> is \<open>null\<close> or carries the paused
  flag and the current track's URI.  It searches the \<open>tracks\<close> captured when the
  listener was registered, \<open>listened\<close>, and writes \<open>findIndex(...) || 0\<close>.
\<close>

record player_state =
  paused :: bool
  current_uri :: string

definition onPlayerStateChanged ::
  "track list \<Rightarrow> player_state option \<Rightarrow> app_state \<Rightarrow> app_state" where
  "onPlayerStateChanged listened st a =
     (case st of
        None \<Rightarrow> a
      | Some ps \<Rightarrow> a\<lparr>isPlaying := \<not> paused ps,
                     trackIndex := js_or_int (js_findIndex (\<lambda>t. uri t = current_uri ps) listened) 0\<rparr>)"

subsection \<open>Search\<close>

definition default_query :: string where
  "default_query = ''genre:pop''"

definition handleSearch :: "string \<Rightarrow> app_state \<Rightarrow> app_state" where
  "handleSearch term a =
     a\<lparr>query := (let t = js_trim term in if t = [] then default_query else t)\<rparr>"

text \<open>
  \<open>fetchTracks\<close> in two halves: the synchronous start, and the completion of the
  awaited token and search requests (\<open>Inl\<close> when either rejects).
\<close>

definition fetchTracks_start :: "app_state \<Rightarrow> app_state" where
  "fetchTracks_start a = a\<lparr>loading := True, error := None\<rparr>"

definition load_error_msg :: string where
  "load_error_msg = ''Failed to load tracks. Please try again.''"

definition fetchTracks_done :: "spotify_item list js_result \<Rightarrow> app_state \<Rightarrow> app_state" where
  "fetchTracks_done r a =
     (case r of
        Inr items \<Rightarrow> a\<lparr>tracks := fetched_tracks items, trackIndex := 0, isPlaying := False,
                       loading := False\<rparr>
      | Inl _ \<Rightarrow> a\<lparr>error := Some load_error_msg, tracks := [], loading := False\<rparr>)"

subsection \<open>Invariant\<close>

text \<open>The queue bound of the specification: a non-empty queue has a current track.\<close>

definition index_ok :: "app_state \<Rightarrow> bool" where
  "index_ok a = (tracks a \<noteq> [] \<longrightarrow> 0 \<le> trackIndex a \<and> trackIndex a < int (length (tracks a)))"

text \<open>The local (preview) transport with the SDK out of the picture.\<close>

definition next_local :: "store \<Rightarrow> app_state \<Rightarrow> app_state" where
  "next_local s a = snd (nextTrack s a)"

subsection \<open>Example states\<close>

text \<open>
  The queue of the specification's scenario: \<open>ex_a\<close> (a preview) then
  \<open>ex_b\<close> (no preview); the local store has no streaming token, the streaming
  one a token, and the streaming app a ready player.
\<close>

definition ex_app :: app_state where
  "ex_app = initial_app\<lparr>tracks := [ex_a, ex_b]\<rparr>"

definition ex_stream_store :: store where
  "ex_stream_store = initial_store\<lparr>spotifyToken := Some ''BQDtoken''\<rparr>"

definition ex_stream_app :: app_state where
  "ex_stream_app = ex_app\<lparr>player := True\<rparr>"

subsection \<open>Lemmas\<close>

lemmas playback_defs = togglePlay_def nextTrack_def prevTrack_def playTrack_def
  fetchTracks_done_def fetchTracks_start_def handleSearch_def onPlayerStateChanged_def

lemma ex_states_simps [simp]:
  "tracks ex_app = [ex_a, ex_b]" "trackIndex ex_app = 0" "player ex_app = False"
  "isPlaying ex_app = False"
  "tracks ex_stream_app = [ex_a, ex_b]" "trackIndex ex_stream_app = 0"
  "player ex_stream_app = True" "isPlaying ex_stream_app = False"
  "spotifyToken initial_store = None" "spotifyToken ex_stream_store = Some ''BQDtoken''"
  "currentPlaylist initial_store = None" "currentPlaylist ex_stream_store = None"
  "favorites initial_store = []"
  by (simp_all add: ex_app_def ex_stream_app_def initial_app_def ex_stream_store_def
                    initial_store_def)

lemma streaming_ex [simp]:
  "\<not> streaming initial_store a" "streaming ex_stream_store ex_stream_app"
  by (simp_all add: streaming_def)

lemma index_ok_ex [simp]: "index_ok ex_app" "index_ok ex_stream_app"
  by (simp_all add: index_ok_def)

lemma preview_at_ex [simp]:
  "preview_at [ex_a, ex_b] 0" "\<not> preview_at [ex_a, ex_b] 1"
  by (simp_all add: preview_at_def js_at_def ex_a_def ex_b_def)

lemma next_local_index:
  assumes "\<not> streaming s a" "tracks a \<noteq> []" "0 \<le> trackIndex a"
  shows "next_local s a = a\<lparr>trackIndex := (trackIndex a + 1) mod int (length (tracks a)),
            isPlaying := preview_at (tracks a) ((trackIndex a + 1) mod int (length (tracks a)))\<rparr>"
  using assms by (simp add: next_local_def nextTrack_def Let_def smod_nonneg_eq_mod)

lemma next_local_funpow:
  assumes "\<not> streaming s a" "tracks a \<noteq> []" "0 \<le> trackIndex a" "0 < k"
  shows "(next_local s ^^ k) a = a\<lparr>trackIndex := (trackIndex a + int k) mod int (length (tracks a)),
            isPlaying := preview_at (tracks a) ((trackIndex a + int k) mod int (length (tracks a)))\<rparr>"
  using assms(4)
proof (induction k)
  case 0
  then show ?case by simp
next
  case (Suc k)
  let ?n = "int (length (tracks a))"
  show ?case
  proof (cases "k = 0")
    case True
    then show ?thesis using assms by (simp add: next_local_index)
  next
    case False
    then have IH: "(next_local s ^^ k) a = a\<lparr>trackIndex := (trackIndex a + int k) mod ?n,
            isPlaying := preview_at (tracks a) ((trackIndex a + int k) mod ?n)\<rparr>"
      using Suc.IH by simp
    have "(next_local s ^^ Suc k) a = next_local s ((next_local s ^^ k) a)" by simp
    also have "\<dots> = a\<lparr>trackIndex := ((trackIndex a + int k) mod ?n + 1) mod ?n,
            isPlaying := preview_at (tracks a) (((trackIndex a + int k) mod ?n + 1) mod ?n)\<rparr>"
      using assms by (simp add: IH next_local_index streaming_def)
    also have "((trackIndex a + int k) mod ?n + 1) mod ?n = (trackIndex a + int (Suc k)) mod ?n"
      by (metis mod_add_left_eq add.assoc of_nat_Suc add.commute)
    finally show ?thesis by simp
  qed
qed

lemma togglePlay_index_ok: "index_ok a \<Longrightarrow> index_ok (snd (togglePlay s a))"
  by (simp add: index_ok_def togglePlay_def)

lemma nextTrack_index_ok: "index_ok a \<Longrightarrow> index_ok (snd (nextTrack s a))"
  by (auto simp: index_ok_def nextTrack_def Let_def smod_nonneg_eq_mod)

lemma prevTrack_index_ok: "index_ok a \<Longrightarrow> index_ok (snd (prevTrack s a))"
  by (auto simp: index_ok_def prevTrack_def Let_def smod_nonneg_eq_mod)

lemma playTrack_index_ok:
  assumes "index_ok a" and "playTrack s a i = Inr (cs, a')"
  shows "index_ok a'"
proof (cases "js_at (tracksToPlay s a) i")
  case None
  with assms(2) show ?thesis by (auto simp: playTrack_def index_ok_def split: if_splits)
next
  case (Some t)
  let ?g = "js_findIndex (\<lambda>x. src x = src t) (tracks a)"
  have "?g < int (length (tracks a))" using js_findIndex_range by blast
  with assms Some show ?thesis
    by (auto simp: index_ok_def playTrack_def Let_def split: if_splits)
qed

lemma fetchTracks_done_index_ok: "index_ok (fetchTracks_done r a)"
  by (simp add: index_ok_def fetchTracks_done_def split: sum.splits)

lemma fetchTracks_start_index_ok: "index_ok a \<Longrightarrow> index_ok (fetchTracks_start a)"
  by (simp add: index_ok_def fetchTracks_start_def)

lemma handleSearch_index_ok: "index_ok a \<Longrightarrow> index_ok (handleSearch q a)"
  by (simp add: index_ok_def handleSearch_def)

subsection \<open>Properties of the local transport\<close>

text \<open>
  C1: without a streaming session, pressing next as many times as the queue has
  tracks returns to the track one started from (the index wraps around), and
  playback is then on exactly when that track has a preview.
\<close>

theorem nextTrack_cycle:
  assumes "\<not> streaming s a" and "tracks a \<noteq> []" and "index_ok a"
  shows "(next_local s ^^ length (tracks a)) a = a\<lparr>isPlaying := preview_at (tracks a) (trackIndex a)\<rparr>"
proof -
  from assms have "0 \<le> trackIndex a" "trackIndex a < int (length (tracks a))"
    by (auto simp: index_ok_def)
  moreover have "0 < length (tracks a)" using assms(2) by simp
  ultimately show ?thesis using next_local_funpow [OF assms(1,2)] by simp
qed

theorem nextTrack_cycle_witness:
  "\<not> streaming initial_store ex_app \<and> tracks ex_app \<noteq> [] \<and> index_ok ex_app \<and>
   (next_local initial_store ^^ 2) ex_app = ex_app\<lparr>isPlaying := True\<rparr>"
  using nextTrack_cycle [of initial_store ex_app] by (simp add: numeral_2_eq_2)

text \<open>
  C2: the queue bound (a non-empty queue's index lies in range) is kept by every
  handler of the controller: play/pause, next, previous, playing a listed track
  (when it does not throw), starting a search, submitting a search and either
  outcome of a search.
\<close>

theorem controller_index_ok:
  assumes "index_ok a"
  shows "index_ok (snd (togglePlay s a)) \<and> index_ok (snd (nextTrack s a)) \<and>
         index_ok (snd (prevTrack s a)) \<and>
         (playTrack s a i = Inr (cs, a') \<longrightarrow> index_ok a') \<and>
         index_ok (fetchTracks_start a) \<and> index_ok (handleSearch q a) \<and>
         index_ok (fetchTracks_done r a)"
proof (intro conjI impI)
  show "index_ok (snd (togglePlay s a))" using assms by (rule togglePlay_index_ok)
  show "index_ok (snd (nextTrack s a))" using assms by (rule nextTrack_index_ok)
  show "index_ok (snd (prevTrack s a))" using assms by (rule prevTrack_index_ok)
  show "index_ok a'" if "playTrack s a i = Inr (cs, a')"
    using assms that by (rule playTrack_index_ok)
  show "index_ok (fetchTracks_start a)" using assms by (rule fetchTracks_start_index_ok)
  show "index_ok (handleSearch q a)" using assms by (rule handleSearch_index_ok)
  show "index_ok (fetchTracks_done r a)" by (rule fetchTracks_done_index_ok)
qed

theorem controller_index_ok_witness:
  "index_ok ex_app \<and> index_ok (snd (nextTrack initial_store ex_app)) \<and>
   trackIndex (snd (nextTrack initial_store ex_app)) = 1"
  using controller_index_ok [of ex_app initial_store] by (simp add: nextTrack_def smod_nonneg_eq_mod)

text \<open>
  C11: without a streaming session, previous undoes next on the track index.
\<close>

theorem prev_after_next:
  assumes "\<not> streaming s a" and "index_ok a" and "tracks a \<noteq> []"
  shows "trackIndex (snd (prevTrack s (snd (nextTrack s a)))) = trackIndex a"
proof -
  let ?n = "int (length (tracks a))"
  from assms have i: "0 \<le> trackIndex a" "trackIndex a < ?n" by (auto simp: index_ok_def)
  have "((trackIndex a + 1) mod ?n - 1 + ?n) mod ?n = trackIndex a"
  proof (cases "trackIndex a + 1 = ?n")
    case True
    then have "(trackIndex a + 1) mod ?n = 0" by simp
    moreover have "(0 - 1 + ?n) mod ?n = ?n - 1"
    proof -
      have "0 < ?n" using i by linarith
      then show ?thesis by (simp add: zmod_minus1)
    qed
    ultimately show ?thesis using True by simp
  next
    case False
    then show ?thesis using i by simp
  qed
  moreover have "0 \<le> (trackIndex a + 1) mod ?n - 1 + ?n"
    using i pos_mod_sign [of ?n "trackIndex a + 1"] by linarith
  ultimately show ?thesis using assms i
    by (simp add: nextTrack_def prevTrack_def Let_def smod_nonneg_eq_mod streaming_def)
qed

theorem prev_after_next_witness:
  "\<not> streaming initial_store ex_app \<and> index_ok ex_app \<and> tracks ex_app \<noteq> [] \<and>
   trackIndex (snd (prevTrack initial_store (snd (nextTrack initial_store ex_app)))) = 0"
  using prev_after_next [of initial_store ex_app] by simp

subsection \<open>Properties of the streaming transport\<close>

text \<open>
  C3: with a streaming session, next, previous and play/pause only send their
  command to the player: the index and the playing flag stay as they are until
  the player's notification arrives.
\<close>

theorem streaming_no_optimistic:
  assumes "streaming s a" and "tracks a \<noteq> []"
  shows "nextTrack s a = ([SdkNextTrack], a) \<and> prevTrack s a = ([SdkPreviousTrack], a) \<and>
         togglePlay s a = ([SdkTogglePlay], a)"
  using assms by (simp add: nextTrack_def prevTrack_def togglePlay_def)

theorem streaming_no_optimistic_witness:
  "streaming ex_stream_store ex_stream_app \<and> tracks ex_stream_app \<noteq> [] \<and>
   nextTrack ex_stream_store ex_stream_app = ([SdkNextTrack], ex_stream_app)"
  using streaming_no_optimistic [of ex_stream_store ex_stream_app] by simp

text \<open>
  C9: a notification whose current track is not in the listener's track list sets
  the index to \<open>-1\<close>, not to 0: \<open>findIndex(...) || 0\<close> only replaces a
  result of 0.
\<close>

theorem state_changed_unmatched:
  assumes "\<not> list_ex (\<lambda>t. uri t = u) listened"
  shows "trackIndex (onPlayerStateChanged listened (Some \<lparr>paused = p, current_uri = u\<rparr>) a) = -1 \<and>
         isPlaying (onPlayerStateChanged listened (Some \<lparr>paused = p, current_uri = u\<rparr>) a) = (\<not> p)"
  using assms by (simp add: onPlayerStateChanged_def js_findIndex_minus_one_iff [symmetric])

theorem state_changed_unmatched_witness:
  "\<not> list_ex (\<lambda>t. uri t = ''spotify:track:z'') [ex_a, ex_b] \<and>
   \<not> index_ok (onPlayerStateChanged [ex_a, ex_b] (Some \<lparr>paused = False, current_uri = ''spotify:track:z''\<rparr>) ex_stream_app)"
proof -
  have u: "\<not> list_ex (\<lambda>t. uri t = ''spotify:track:z'') [ex_a, ex_b]"
    by (simp add: ex_a_def ex_b_def)
  have "trackIndex (onPlayerStateChanged [ex_a, ex_b]
          (Some \<lparr>paused = False, current_uri = ''spotify:track:z''\<rparr>) ex_stream_app) = -1"
    using state_changed_unmatched [OF u] by blast
  moreover have "tracks (onPlayerStateChanged [ex_a, ex_b]
          (Some \<lparr>paused = False, current_uri = ''spotify:track:z''\<rparr>) ex_stream_app) = [ex_a, ex_b]"
    by (simp add: onPlayerStateChanged_def)
  ultimately show ?thesis using u by (simp add: index_ok_def)
qed

subsection \<open>Playing a listed track\<close>

text \<open>
  C10: without a streaming session, playing a listed track selects the first
  queue entry with the same preview identity (index 0 if none) and sets the
  playing flag, whether or not the track has a preview.
\<close>

theorem playTrack_local:
  assumes "\<not> streaming s a" and "js_at (tracksToPlay s a) i = Some t"
  shows "playTrack s a i =
           Inr ([], a\<lparr>trackIndex := max 0 (js_findIndex (\<lambda>x. src x = src t) (tracks a)),
                      isPlaying := True\<rparr>)"
  using assms by (simp add: playTrack_def Let_def max_def)

theorem playTrack_local_witness:
  "\<not> streaming initial_store ex_app \<and> js_at (tracksToPlay initial_store ex_app) 1 = Some ex_b \<and>
   \<not> has_local_preview ex_b \<and>
   playTrack initial_store ex_app 1 = Inr ([], ex_app\<lparr>trackIndex := 1, isPlaying := True\<rparr>)"
proof -
  have t: "js_at (tracksToPlay initial_store ex_app) 1 = Some ex_b"
    by (simp add: tracksToPlay_def js_at_def)
  have "js_findIndex (\<lambda>x. src x = src ex_b) (tracks ex_app) = 1"
    by (simp add: ex_a_def)
  then show ?thesis
    using playTrack_local [OF streaming_ex(1) t] t by (simp add: has_local_preview_def)
qed

text \<open>
  C16: playing an index outside the displayed list throws a \<open>TypeError\<close>
  and sends nothing whenever the code reads a field of the missing entry: with
  a streaming session (\<open>track.uri\<close>) or with a non-empty queue (\<open>track.src\<close>
  in \<open>findIndex\<close>).  Otherwise (no session, empty queue) it returns normally,
  selecting index 0 and setting the playing flag with nothing to play.
\<close>

theorem playTrack_out_of_range:
  assumes "\<not> (0 \<le> i \<and> i < int (length (tracksToPlay s a)))"
  shows "playTrack s a i =
           (if streaming s a \<or> tracks a \<noteq> [] then Inl TypeError
            else Inr ([], a\<lparr>trackIndex := 0, isPlaying := True\<rparr>))"
  using assms by (simp add: playTrack_def js_at_None_iff [THEN iffD2])

theorem playTrack_out_of_range_witness:
  "\<not> (0 \<le> (2::int) \<and> 2 < int (length (tracksToPlay initial_store ex_app))) \<and>
   playTrack initial_store ex_app 2 = Inl TypeError \<and>
   \<not> (0 \<le> (0::int) \<and> 0 < int (length (tracksToPlay initial_store (ex_app\<lparr>tracks := []\<rparr>)))) \<and>
   playTrack initial_store (ex_app\<lparr>tracks := []\<rparr>) 0 =
     Inr ([], ex_app\<lparr>tracks := [], trackIndex := 0, isPlaying := True\<rparr>)"
proof -
  have "tracks ex_app \<noteq> []" by (simp add: ex_app_def)
  then show ?thesis
    using playTrack_out_of_range [of 2 initial_store ex_app]
          playTrack_out_of_range [of 0 initial_store "ex_app\<lparr>tracks := []\<rparr>"]
    by (simp add: tracksToPlay_def)
qed

subsection \<open>Search results\<close>

end
