(* ===== verification/Session.thy ===== *)
theory Session
  imports Store
begin

text \<open>
  The authentication half of the store of \<open>src/src/store.jsx\<close>
  (\<open>initializeAuth\<close>, \<open>setUser\<close>, \<open>setSpotifyToken\<close>, \<open>signup\<close>, \<open>login\<close>,
  \<open>logout\<close>) and the auth listener of \<open>src/src/App.jsx\<close>.  Supabase is an
  external service: each operation takes the response of the calls it awaits as
  an argument (\<open>Inl\<close> for a response carrying \<open>error\<close>), and a thrown error is an
  \<open>Inl\<close> result with the store unchanged, since the code rethrows before \<open>set\<close>.
\<close>

subsection \<open>Responses of the authentication service\<close>

record supa_session =
  session_user :: supa_user

type_synonym session_response = "supa_session option js_result"
type_synonym user_response = "supa_user js_result"
type_synonym auth_response = "supa_user option js_result"

subsection \<open>Operations\<close>

text \<open>
  \<open>initializeAuth\<close>: \<open>getSession\<close>, then \<open>getUser\<close> when a session exists; every
  branch, the catch included, ends loading.  Returns the user it found.
\<close>

definition initializeAuth ::
  "session_response \<Rightarrow> user_response \<Rightarrow> store \<Rightarrow> supa_user option \<times> store" where
  "initializeAuth sess usr s =
     (let signed_out = s\<lparr>user := None, isAuthenticated := False, authLoading := False\<rparr> in
      case sess of
        Inl _ \<Rightarrow> (None, signed_out)
      | Inr None \<Rightarrow> (None, signed_out)
      | Inr (Some _) \<Rightarrow>
          (case usr of
             Inl _ \<Rightarrow> (None, signed_out)
           | Inr u \<Rightarrow> (Some u, s\<lparr>user := Some u, isAuthenticated := True, authLoading := False\<rparr>)))"

definition setUser :: "supa_user option \<Rightarrow> store \<Rightarrow> store" where
  "setUser u s = s\<lparr>user := u, isAuthenticated := (u \<noteq> None), authLoading := False\<rparr>"

definition setSpotifyToken :: "string option \<Rightarrow> store \<Rightarrow> store" where
  "setSpotifyToken tok s = s\<lparr>spotifyToken := tok\<rparr>"

definition signup :: "auth_response \<Rightarrow> store \<Rightarrow> store js_result" where
  "signup r s =
     (case r of
        Inl e \<Rightarrow> Inl e
      | Inr u \<Rightarrow> Inr (s\<lparr>user := u, isAuthenticated := (u \<noteq> None), authLoading := False\<rparr>))"

text \<open>\<open>login\<close> sets \<open>isAuthenticated: true\<close> without looking at \<open>data.user\<close>.\<close>

definition login :: "auth_response \<Rightarrow> store \<Rightarrow> store js_result" where
  "login r s =
     (case r of
        Inl e \<Rightarrow> Inl e
      | Inr u \<Rightarrow> Inr (s\<lparr>user := u, isAuthenticated := True, authLoading := False\<rparr>))"

text \<open>\<open>logout\<close>: \<open>signOut\<close> answers with an error or without one.\<close>

definition logout :: "js_error option \<Rightarrow> store \<Rightarrow> store js_result" where
  "logout r s =
     (case r of
        Some e \<Rightarrow> Inl e
      | None \<Rightarrow> Inr (s\<lparr>user := None, isAuthenticated := False, favorites := [],
                      playlists := Map.empty, currentPlaylist := None, authLoading := False,
                      spotifyToken := None\<rparr>))"

text \<open>The \<open>onAuthStateChange\<close> listener of \<open>App\<close>: \<open>setUser(session?.user ?? null)\<close>.\<close>

definition onAuthStateChange :: "supa_session option \<Rightarrow> store \<Rightarrow> store" where
  "onAuthStateChange sess s = setUser (map_option session_user sess) s"

subsection \<open>The session interface\<close>

datatype session_op =
    InitializeAuth session_response user_response
  | SetUser "supa_user option"
  | SetSpotifyToken "string option"
  | Signup auth_response
  | Login auth_response
  | Logout "js_error option"
  | AuthStateChange "supa_session option"

fun session_step :: "session_op \<Rightarrow> store \<Rightarrow> store js_result" where
  "session_step (InitializeAuth r1 r2) s = Inr (snd (initializeAuth r1 r2 s))"
| "session_step (SetUser u) s = Inr (setUser u s)"
| "session_step (SetSpotifyToken t) s = Inr (setSpotifyToken t s)"
| "session_step (Signup r) s = signup r s"
| "session_step (Login r) s = login r s"
| "session_step (Logout r) s = logout r s"
| "session_step (AuthStateChange sess) s = Inr (onAuthStateChange sess s)"

text \<open>
  A response of the password login that carries a user; Supabase answers a
  successful \<open>signInWithPassword\<close> so.
\<close>

fun login_has_user :: "session_op \<Rightarrow> bool" where
  "login_has_user (Login (Inr None)) = False"
| "login_has_user _ = True"

fun session_run :: "session_op list \<Rightarrow> store \<Rightarrow> store js_result" where
  "session_run [] s = Inr s"
| "session_run (op # ops) s =
     (case session_step op s of Inl e \<Rightarrow> Inl e | Inr s' \<Rightarrow> session_run ops s')"

subsection \<open>Invariant\<close>

text \<open>The authentication flag says whether a user is present.\<close>

definition auth_inv :: "store \<Rightarrow> bool" where
  "auth_inv s = (isAuthenticated s = (user s \<noteq> None))"

definition ex_user :: supa_user where
  "ex_user = \<lparr>user_id = ''u1'', user_email = ''ana@example.com''\<rparr>"

subsection \<open>Lemmas\<close>

lemmas session_defs = setUser_def setSpotifyToken_def signup_def login_def
  logout_def onAuthStateChange_def

lemma initializeAuth_cases:
  "initializeAuth sess usr s =
     (case (sess, usr) of
        (Inr (Some _), Inr u) \<Rightarrow> (Some u, s\<lparr>user := Some u, isAuthenticated := True, authLoading := False\<rparr>)
      | _ \<Rightarrow> (None, s\<lparr>user := None, isAuthenticated := False, authLoading := False\<rparr>))"
  by (simp add: initializeAuth_def Let_def split: sum.splits option.splits)

lemma initializeAuth_auth_inv: "auth_inv (snd (initializeAuth sess usr s))"
  by (simp add: auth_inv_def initializeAuth_cases split: sum.splits option.splits)

lemma session_step_auth_inv:
  assumes "auth_inv s" and "login_has_user op" and "session_step op s = Inr s'"
  shows "auth_inv s'"
  using assms
  by (cases op rule: login_has_user.cases)
     (auto simp: auth_inv_def session_defs initializeAuth_auth_inv [unfolded auth_inv_def]
           split: sum.splits option.splits)

lemma initial_store_auth_inv: "auth_inv initial_store"
  by (simp add: auth_inv_def initial_store_def)

subsection \<open>Properties\<close>

text \<open>
  C27: every run of authentication operations that does not throw, and whose
  password logins return a user, keeps the authentication flag equal to the
  presence of a user.
\<close>

theorem session_run_auth_inv:
  "auth_inv s \<Longrightarrow> list_all login_has_user ops \<Longrightarrow> session_run ops s = Inr s' \<Longrightarrow> auth_inv s'"
proof (induction ops arbitrary: s)
  case Nil
  then show ?case by simp
next
  case (Cons op ops)
  then obtain s1 where s1: "session_step op s = Inr s1" and r: "session_run ops s1 = Inr s'"
    by (auto split: sum.splits)
  from Cons.prems(1,2) s1 have "auth_inv s1" by (auto intro: session_step_auth_inv)
  with Cons.IH Cons.prems(2) r show ?case by simp
qed

theorem session_run_auth_inv_witness:
  "auth_inv initial_store \<and> list_all login_has_user [Login (Inr (Some ex_user)), Logout None] \<and>
   session_run [Login (Inr (Some ex_user)), Logout None] initial_store =
     Inr (initial_store\<lparr>authLoading := False\<rparr>) \<and>
   auth_inv (initial_store\<lparr>authLoading := False\<rparr>)"
proof -
  have r: "session_run [Login (Inr (Some ex_user)), Logout None] initial_store =
     Inr (initial_store\<lparr>authLoading := False\<rparr>)"
    by (simp add: login_def logout_def initial_store_def)
  have l: "list_all login_has_user [Login (Inr (Some ex_user)), Logout None]" by simp
  show ?thesis using session_run_auth_inv [OF initial_store_auth_inv l r] r l initial_store_auth_inv
    by simp
qed

text \<open>
  A password login whose response carries no user still sets the
  authentication flag, so the flag and the user disagree afterwards.
\<close>

lemma login_without_user:
  "login (Inr None) s = Inr s' \<Longrightarrow> isAuthenticated s' \<and> user s' = None \<and> \<not> auth_inv s'"
  by (auto simp: login_def auth_inv_def)

text \<open>
  Initialising authentication always ends the loading state, whichever of
  its calls fails; it reports the user it stored, and the store is authenticated
  exactly when a user was found.
\<close>

lemma initializeAuth_outcome:
  "\<not> authLoading (snd (initializeAuth sess usr s)) \<and>
   user (snd (initializeAuth sess usr s)) = fst (initializeAuth sess usr s) \<and>
   isAuthenticated (snd (initializeAuth sess usr s)) = (fst (initializeAuth sess usr s) \<noteq> None)"
  by (simp add: initializeAuth_cases split: sum.splits option.splits)

end
