(* ===== verification/AppEvents.thy ===== *)
theory AppEvents
  imports Playback Session
begin

text \<open>
  The whole client as one event system: the state of \<open>App\<close> and of the store,
  the Spotify Web Playback SDK objects that \<open>App\<close>'s first effect creates
  (\<open>src/src/App.jsx\<close>, lines 42--75), the searches in flight that its third
  effect starts (lines 134--136), and the commands sent to the SDK.  One event is
  one callback run to completion by the single-threaded event loop: a user
  action, an effect run after a render, a network completion, or an SDK callback.
\<close>

subsection \<open>State\<close>

text \<open>
  \<^item> \<open>sdk_callback\<close>: \<open>window.onSpotifyWebPlaybackSDKReady\<close> as last installed
    by the effect, with the \<open>tracks\<close> it closes over;
  \<^item> \<open>listener\<close>: the \<open>player_state_changed\<close> listener of the one player the
    SDK callback created, with the \<open>tracks\<close> it closes over;
  \<^item> \<open>connected\<close>: that player is connected;
  \<^item> \<open>cleanup_player\<close>: the effect's last cleanup will call \<open>player.disconnect()\<close>
    (\<open>player\<close> was set when that effect ran);
  \<^item> \<open>sdk_deps\<close>, \<open>fetch_deps\<close>: the dependency values the two effects last ran
    with; \<open>tracks_gen\<close> counts \<open>setTracks\<close> calls, since React compares the
    \<open>tracks\<close> dependency by reference and each call passes a new array;
  \<^item> \<open>pending\<close>: the queries of the \<open>fetchTracks\<close> calls not yet completed;
  \<^item> \<open>sent\<close>: the commands sent to the SDK player, oldest first.
\<close>

record sys =
  app :: app_state
  st :: store
  sdk_loaded :: bool
  sdk_callback :: "track list option"
  listener :: "track list option"
  connected :: bool
  cleanup_player :: bool
  tracks_gen :: nat
  sdk_deps :: "(string option \<times> nat) option"
  fetch_deps :: "(string \<times> bool \<times> bool) option"
  pending :: "string list"
  sent :: "sdk_cmd list"

definition init_sys :: sys where
  "init_sys =
     \<lparr>app = initial_app, st = initial_store, sdk_loaded = False, sdk_callback = None,
      listener = None, connected = False, cleanup_player = False, tracks_gen = 0,
      sdk_deps = None, fetch_deps = None, pending = [], sent = []\<rparr>"

text \<open>A store signed in, the example of the witnesses.\<close>

definition ex_signed_in :: store where
  "ex_signed_in = initial_store\<lparr>user := Some ex_user, isAuthenticated := True, authLoading := False\<rparr>"

datatype event =
    EvToggle
  | EvNext
  | EvPrev
  | EvPlay int
  | EvSearch string
  | EvFetchEffect
  | EvFetchDone nat
  | EvSdkEffect
  | EvSdkLoad
  | EvDeviceReady
  | EvStateChanged "player_state option"
  | EvStore store_op
  | EvSession session_op

text \<open>The search service: its answer to a query (token and search requests together).\<close>

type_synonym catalog = "string \<Rightarrow> spotify_item list js_result"

subsection \<open>Effects\<close>

text \<open>
  The SDK effect (\<open>[spotifyToken, tracks]\<close>): when its dependencies changed, the
  previous run's cleanup disconnects the player if one was set then; a run with a
  token installs the SDK callback over the current tracks and a cleanup over the
  current \<open>player\<close>; a run without a token returns early, with no cleanup.
\<close>

definition sdk_effect :: "sys \<Rightarrow> sys" where
  "sdk_effect s =
     (let deps = (spotifyToken (st s), tracks_gen s) in
      if sdk_deps s = Some deps then s
      else (let s1 = s\<lparr>connected := (connected s \<and> \<not> cleanup_player s), sdk_deps := Some deps\<rparr> in
            if js_truthy_str (spotifyToken (st s))
            then s1\<lparr>sdk_callback := Some (tracks (app s)), cleanup_player := player (app s)\<rparr>
            else s1\<lparr>cleanup_player := False\<rparr>))"

text \<open>
  The SDK calls \<open>onSpotifyWebPlaybackSDKReady\<close> once, when its script has
  loaded; if the effect installed it, it creates the player, registers the
  listeners over the tracks it closes over and connects.
\<close>

definition sdk_load :: "sys \<Rightarrow> sys" where
  "sdk_load s =
     (if sdk_loaded s then s
      else (case sdk_callback s of
              None \<Rightarrow> s\<lparr>sdk_loaded := True\<rparr>
            | Some ts \<Rightarrow> s\<lparr>sdk_loaded := True, listener := Some ts, connected := True\<rparr>))"

text \<open>The \<open>ready\<close> listener: \<open>setPlayer(player)\<close>.\<close>

definition device_ready :: "sys \<Rightarrow> sys" where
  "device_ready s =
     (if listener s \<noteq> None \<and> connected s then s\<lparr>app := (app s)\<lparr>player := True\<rparr>\<rparr> else s)"

definition state_changed :: "player_state option \<Rightarrow> sys \<Rightarrow> sys" where
  "state_changed ps s =
     (case listener s of
        Some ts \<Rightarrow> (if connected s then s\<lparr>app := onPlayerStateChanged ts ps (app s)\<rparr> else s)
      | None \<Rightarrow> s)"

text \<open>
  The fetch effect (\<open>[query, isAuthenticated, authLoading]\<close>): when its
  dependencies changed, it starts \<open>fetchTracks\<close> for the current query if the
  user is authenticated and loading is over.
\<close>

definition fetch_effect :: "sys \<Rightarrow> sys" where
  "fetch_effect s =
     (let deps = (query (app s), isAuthenticated (st s), authLoading (st s)) in
      if fetch_deps s = Some deps then s
      else if isAuthenticated (st s) \<and> \<not> authLoading (st s)
      then s\<lparr>fetch_deps := Some deps, app := fetchTracks_start (app s),
             pending := pending s @ [query (app s)]\<rparr>
      else s\<lparr>fetch_deps := Some deps\<rparr>)"

text \<open>The completion of the \<open>i\<close>-th search in flight, in whatever order they complete.\<close>

definition fetch_done :: "catalog \<Rightarrow> nat \<Rightarrow> sys \<Rightarrow> sys" where
  "fetch_done cat i s =
     (if i < length (pending s)
      then s\<lparr>app := fetchTracks_done (cat (pending s ! i)) (app s),
             pending := take i (pending s) @ drop (Suc i) (pending s),
             tracks_gen := Suc (tracks_gen s)\<rparr>
      else s)"

text \<open>A handler's commands and new state.\<close>

definition transport :: "sdk_cmd list \<times> app_state \<Rightarrow> sys \<Rightarrow> sys" where
  "transport r s = s\<lparr>app := snd r, sent := sent s @ fst r\<rparr>"

subsection \<open>Steps\<close>

fun sys_step :: "catalog \<Rightarrow> event \<Rightarrow> sys \<Rightarrow> sys js_result" where
  "sys_step cat EvToggle s = Inr (transport (togglePlay (st s) (app s)) s)"
| "sys_step cat EvNext s = Inr (transport (nextTrack (st s) (app s)) s)"
| "sys_step cat EvPrev s = Inr (transport (prevTrack (st s) (app s)) s)"
| "sys_step cat (EvPlay i) s =
     (case playTrack (st s) (app s) i of Inl e \<Rightarrow> Inl e | Inr r \<Rightarrow> Inr (transport r s))"
| "sys_step cat (EvSearch q) s = Inr (s\<lparr>app := handleSearch q (app s)\<rparr>)"
| "sys_step cat EvFetchEffect s = Inr (fetch_effect s)"
| "sys_step cat (EvFetchDone i) s = Inr (fetch_done cat i s)"
| "sys_step cat EvSdkEffect s = Inr (sdk_effect s)"
| "sys_step cat EvSdkLoad s = Inr (sdk_load s)"
| "sys_step cat EvDeviceReady s = Inr (device_ready s)"
| "sys_step cat (EvStateChanged ps) s = Inr (state_changed ps s)"
| "sys_step cat (EvStore op) s =
     (case store_step op (st s) of Inl e \<Rightarrow> Inl e | Inr t \<Rightarrow> Inr (s\<lparr>st := t\<rparr>))"
| "sys_step cat (EvSession op) s =
     (case session_step op (st s) of Inl e \<Rightarrow> Inl e | Inr t \<Rightarrow> Inr (s\<lparr>st := t\<rparr>))"

fun sys_run :: "catalog \<Rightarrow> event list \<Rightarrow> sys \<Rightarrow> sys js_result" where
  "sys_run cat [] s = Inr s"
| "sys_run cat (e # es) s = (case sys_step cat e s of Inl err \<Rightarrow> Inl err | Inr s' \<Rightarrow> sys_run cat es s')"

subsection \<open>Settling after a render\<close>

text \<open>
  After a render React runs every effect whose dependency values changed, in
  the order \<open>App\<close> declares them (the SDK effect, then the search effect); a
  state update inside an effect renders again and repeats this.  An effect is
  pending when the values it last ran with differ from the current ones.
  Whether this loop ends is not evident from the code, so \<open>settle\<close> is a
  partial function: \<open>None\<close> would be a render loop that never ends.
\<close>

definition effects_pending :: "sys \<Rightarrow> bool" where
  "effects_pending s =
     (sdk_deps s \<noteq> Some (spotifyToken (st s), tracks_gen s) \<or>
      fetch_deps s \<noteq> Some (query (app s), isAuthenticated (st s), authLoading (st s)))"

definition effects_round :: "sys \<Rightarrow> sys" where
  "effects_round s = fetch_effect (sdk_effect s)"

partial_function (option) settle :: "sys \<Rightarrow> sys option" where
  "settle s = (if effects_pending s then settle (effects_round s) else Some s)"

text \<open>
  The reachable states: a thrown handler leaves the state as it was, so only the
  steps that return a state lead anywhere new.
\<close>

inductive reach :: "catalog \<Rightarrow> sys \<Rightarrow> bool" for cat :: catalog where
  init: "reach cat init_sys"
| step: "reach cat s \<Longrightarrow> sys_step cat e s = Inr s' \<Longrightarrow> reach cat s'"

subsection \<open>Invariant of the system\<close>

text \<open>
  What holds in every reachable state: the store's favourites invariant, a set
  \<open>player\<close> comes with the SDK player's listeners, and these exist only once
  the SDK script has loaded.
\<close>

definition sys_inv :: "sys \<Rightarrow> bool" where
  "sys_inv s =
     (favorites_inv (st s) \<and> (player (app s) \<longrightarrow> listener s \<noteq> None) \<and>
      (listener s \<noteq> None \<longrightarrow> sdk_loaded s))"


text \<open>The spinner of the track area is on only while a search is in flight.\<close>

definition loading_inv :: "sys \<Rightarrow> bool" where
  "loading_inv s = (loading (app s) \<longrightarrow> pending s \<noteq> [])"

subsection \<open>Lemmas\<close>

lemma reach_run: "sys_run cat es s = Inr s' \<Longrightarrow> reach cat s \<Longrightarrow> reach cat s'"
proof (induction es arbitrary: s)
  case Nil
  then show ?case by simp
next
  case (Cons e es)
  then obtain s1 where "sys_step cat e s = Inr s1" "sys_run cat es s1 = Inr s'"
    by (auto split: sum.splits)
  with Cons show ?case by (blast intro: reach.step)
qed

lemmas sys_defs = init_sys_def sdk_effect_def sdk_load_def device_ready_def state_changed_def
  fetch_effect_def fetch_done_def transport_def

lemma session_step_favorites:
  "session_step op s = Inr s' \<Longrightarrow> favorites s' = favorites s \<or> favorites s' = []"
  by (cases op) (auto simp: session_defs initializeAuth_cases split: sum.splits option.splits)

lemma session_step_favorites_inv:
  "favorites_inv s \<Longrightarrow> session_step op s = Inr s' \<Longrightarrow> favorites_inv s'"
  using session_step_favorites [of op s s'] by (auto simp: favorites_inv_def)

lemma sys_step_st:
  "sys_step cat e s = Inr s' \<Longrightarrow> (\<And>op. e \<noteq> EvStore op) \<Longrightarrow> (\<And>op. e \<noteq> EvSession op) \<Longrightarrow> st s' = st s"
  by (cases e) (auto simp: sys_defs Let_def split: sum.splits option.splits if_splits)

lemma handlers_frame:
  "loading (snd (togglePlay s a)) = loading a" "loading (snd (nextTrack s a)) = loading a"
  "loading (snd (prevTrack s a)) = loading a" "playTrack s a i = Inr (c, b) \<Longrightarrow> loading b = loading a"
  "loading (handleSearch q a) = loading a"
  "player (snd (togglePlay s a)) = player a" "player (snd (nextTrack s a)) = player a"
  "player (snd (prevTrack s a)) = player a" "playTrack s a i = Inr (c, b) \<Longrightarrow> player b = player a"
  by (auto simp: togglePlay_def nextTrack_def prevTrack_def playTrack_def handleSearch_def Let_def
      split: option.splits if_splits)

lemma sys_step_inv:
  assumes "sys_inv s" and "sys_step cat e s = Inr s'"
  shows "sys_inv s'"
proof (cases e)
  case (EvStore op)
  with assms show ?thesis
    by (auto simp: sys_inv_def split: sum.splits intro: store_step_favorites_inv)
next
  case (EvSession op)
  with assms show ?thesis
    by (auto simp: sys_inv_def split: sum.splits intro: session_step_favorites_inv)
next
  case (EvPlay i)
  with assms show ?thesis
    by (auto simp: sys_inv_def transport_def handlers_frame split: sum.splits)
qed (use assms sys_step_st [OF assms(2)] in
      \<open>auto simp: sys_inv_def sys_defs handlers_frame handleSearch_def fetchTracks_start_def
         fetchTracks_done_def onPlayerStateChanged_def Let_def split: option.splits if_splits sum.splits\<close>)

lemma sys_step_loading_inv:
  assumes "loading_inv s" and "sys_step cat e s = Inr s'"
  shows "loading_inv s'"
  using assms
proof (cases e)
qed (auto simp: loading_inv_def transport_def handlers_frame sys_defs fetch_effect_def
       fetch_done_def fetchTracks_start_def fetchTracks_done_def onPlayerStateChanged_def Let_def
       split: sum.splits option.splits if_splits)

lemma reach_loading_inv: "reach cat s \<Longrightarrow> loading_inv s"
proof (induction rule: reach.induct)
  case init
  then show ?case by (simp add: loading_inv_def init_sys_def initial_app_def)
next
  case (step s e s')
  then show ?case by (blast intro: sys_step_loading_inv)
qed

lemma fetch_done_drain:
  "length (pending s) = n \<Longrightarrow>
   \<exists>s'. sys_run cat (replicate n (EvFetchDone 0)) s = Inr s' \<and> pending s' = [] \<and>
        (n \<noteq> 0 \<longrightarrow> \<not> loading (app s'))"
proof (induction n arbitrary: s)
  case 0
  then show ?case by simp
next
  case (Suc n)
  let ?s1 = "fetch_done cat 0 s"
  have p: "length (pending ?s1) = n" and l: "\<not> loading (app ?s1)"
    using Suc.prems by (auto simp: fetch_done_def fetchTracks_done_def split: sum.splits)
  from Suc.IH [OF p] obtain s' where r: "sys_run cat (replicate n (EvFetchDone 0)) ?s1 = Inr s'"
    and e: "pending s' = []" and n: "n \<noteq> 0 \<longrightarrow> \<not> loading (app s')" by blast
  have "n = 0 \<Longrightarrow> s' = ?s1" using r by simp
  with l n have "\<not> loading (app s')" by (cases "n = 0") auto
  with r e show ?case by simp
qed

lemma effects_round_settled: "\<not> effects_pending (effects_round s)"
  by (auto simp: effects_pending_def effects_round_def sdk_effect_def fetch_effect_def
      fetchTracks_start_def Let_def)

lemma settle_eq: "settle s = Some (if effects_pending s then effects_round s else s)"
proof (cases "effects_pending s")
  case True
  have "settle (effects_round s) = Some (effects_round s)"
    using effects_round_settled [of s] by (subst settle.simps) simp
  with True show ?thesis by (subst settle.simps) simp
next
  case False
  then show ?thesis by (subst settle.simps) simp
qed

subsection \<open>Properties of the system\<close>

text \<open>
  C30: in every reachable state the favourites hold no duplicate identity, a set
  \<open>player\<close> comes with a created SDK player and listener, and such a listener
  exists only once the SDK script has loaded.
\<close>

theorem reach_sys_inv: "reach cat s \<Longrightarrow> sys_inv s"
proof (induction rule: reach.induct)
  case init
  show ?case by (simp add: sys_inv_def init_sys_def initial_store_inv initial_app_def)
next
  case (step s e s')
  then show ?case by (blast intro: sys_step_inv)
qed

theorem reach_sys_inv_witness:
  "reach (\<lambda>_. Inr [ex_item]) init_sys \<and> sys_inv init_sys"
  using reach_sys_inv [OF reach.init [of "\<lambda>_. Inr [ex_item]"]] reach.init by blast

text \<open>
  A successful logout clears the store's library and token but leaves the
  playback state of \<open>App\<close> (queue, index, playing flag, player) as it was.
\<close>

lemma logout_keeps_playback:
  assumes "sys_step cat (EvSession (Logout None)) s = Inr s'"
  shows "app s' = app s \<and> favorites (st s') = [] \<and> \<not> streaming (st s') (app s')"
  using assms by (auto simp: logout_def streaming_def)

text \<open>
  C34: a reachable state has a player set and a streaming token while the SDK
  player is disconnected (the SDK effect's cleanup disconnected it after a later
  change of the queue), so every transport action goes to a disconnected player.
\<close>

theorem disconnected_but_streaming:
  "\<exists>s. reach cat s \<and> streaming (st s) (app s) \<and> \<not> connected s \<and> player (app s)"
proof -
  let ?evs = "[EvSession (Login (Inr (Some ex_user))), EvSession (SetSpotifyToken (Some ''tok'')),
               EvFetchEffect, EvFetchDone 0, EvSdkEffect, EvSdkLoad, EvDeviceReady,
               EvSearch ''x'', EvFetchEffect, EvFetchDone 0, EvSdkEffect,
               EvSearch ''y'', EvFetchEffect, EvFetchDone 0, EvSdkEffect]"
  have "\<exists>s. sys_run cat ?evs init_sys = Inr s \<and> streaming (st s) (app s) \<and> \<not> connected s \<and> player (app s)"
    by (simp add: sys_defs login_def setSpotifyToken_def initial_store_def initial_app_def
                  fetchTracks_start_def fetchTracks_done_def handleSearch_def js_trim_plain
                  streaming_def default_query_def split: sum.splits)
  then show ?thesis using reach.init reach_run by blast
qed

text \<open>
  C35: searches are not fenced: a state is reachable in which the query is the
  latest one but the queue holds the answer to the earlier query, which completed
  last.
\<close>

theorem stale_search_wins:
  "\<exists>s. reach cat s \<and> query (app s) = ''genre:rock'' \<and> pending s = [] \<and>
       tracks (app s) = (case cat ''artist:drake'' of Inr items \<Rightarrow> fetched_tracks items | Inl _ \<Rightarrow> [])"
proof -
  let ?evs = "[EvSession (Login (Inr (Some ex_user))), EvFetchEffect, EvFetchDone 0,
               EvSearch ''artist:drake'', EvFetchEffect, EvSearch ''genre:rock'', EvFetchEffect,
               EvFetchDone 1, EvFetchDone 0]"
  have "\<exists>s. sys_run cat ?evs init_sys = Inr s \<and> query (app s) = ''genre:rock'' \<and> pending s = [] \<and>
       tracks (app s) = (case cat ''artist:drake'' of Inr items \<Rightarrow> fetched_tracks items | Inl _ \<Rightarrow> [])"
    by (simp add: sys_defs login_def initial_store_def initial_app_def
                  fetchTracks_start_def fetchTracks_done_def handleSearch_def js_trim_plain
                  split: sum.splits)
  then show ?thesis using reach.init reach_run by blast
qed

text \<open>
  C32: the streaming player's listener searches the queue it closed over when
  the SDK loaded, not the current one: if the SDK was ready before the first
  search completed, a notification about the first track of the current queue
  sets the index to \<open>-1\<close>, breaking the queue bound.
\<close>

theorem stale_listener:
  assumes "cat default_query = Inr (it # its)"
  shows "\<exists>s. reach cat s \<and> tracks (app s) = fetched_tracks (it # its) \<and>
           trackIndex (app (state_changed (Some \<lparr>paused = False, current_uri = item_uri it\<rparr>) s)) = -1 \<and>
           \<not> index_ok (app (state_changed (Some \<lparr>paused = False, current_uri = item_uri it\<rparr>) s))"
proof -
  let ?evs = "[EvSession (Login (Inr (Some ex_user))), EvSession (SetSpotifyToken (Some ''tok'')),
               EvSdkEffect, EvSdkLoad, EvDeviceReady, EvFetchEffect, EvFetchDone 0]"
  have "\<exists>s. sys_run cat ?evs init_sys = Inr s \<and> tracks (app s) = fetched_tracks (it # its) \<and>
           trackIndex (app (state_changed (Some \<lparr>paused = False, current_uri = item_uri it\<rparr>) s)) = -1 \<and>
           \<not> index_ok (app (state_changed (Some \<lparr>paused = False, current_uri = item_uri it\<rparr>) s))"
    using assms
    by (simp add: sys_defs login_def setSpotifyToken_def initial_store_def initial_app_def
                  fetchTracks_start_def fetchTracks_done_def onPlayerStateChanged_def default_query_def
                  index_ok_def fetched_tracks_def)
  then show ?thesis using reach.init reach_run by blast
qed

theorem stale_listener_witness:
  "(\<lambda>_. Inr [ex_item] :: spotify_item list js_result) default_query = Inr (ex_item # []) \<and>
   (\<exists>s. reach (\<lambda>_. Inr [ex_item]) s \<and> tracks (app s) = fetched_tracks [ex_item] \<and>
        trackIndex (app (state_changed (Some \<lparr>paused = False, current_uri = item_uri ex_item\<rparr>) s)) = -1)"
  using stale_listener [of "\<lambda>_. Inr [ex_item]" ex_item "[]"] by auto

text \<open>
  C14: from every reachable state, once the searches in flight complete
  (whatever the service answers and in the order they were started), nothing is
  in flight and the track area has left its loading state.
\<close>

theorem searches_complete:
  assumes "reach cat s"
  shows "\<exists>s'. sys_run cat (replicate (length (pending s)) (EvFetchDone 0)) s = Inr s' \<and>
              reach cat s' \<and> pending s' = [] \<and> \<not> loading (app s')"
proof -
  obtain s' where r: "sys_run cat (replicate (length (pending s)) (EvFetchDone 0)) s = Inr s'"
    and e: "pending s' = []" and l: "length (pending s) \<noteq> 0 \<longrightarrow> \<not> loading (app s')"
    using fetch_done_drain [of s "length (pending s)" cat] by blast
  have "reach cat s'" using reach_run [OF r assms] .
  moreover have "\<not> loading (app s')"
  proof (cases "pending s = []")
    case True
    then have "s' = s" using r by simp
    with True reach_loading_inv [OF assms] show ?thesis by (simp add: loading_inv_def)
  qed (use l in simp)
  ultimately show ?thesis using r e by blast
qed

theorem searches_complete_witness:
  "\<exists>s. reach (\<lambda>_. Inr []) s \<and> length (pending s) = 2 \<and>
     (\<exists>s'. sys_run (\<lambda>_. Inr []) [EvFetchDone 0, EvFetchDone 0] s = Inr s' \<and> pending s' = [] \<and>
           \<not> loading (app s'))"
proof -
  let ?evs = "[EvSession (Login (Inr (Some ex_user))), EvFetchEffect, EvSearch ''x'', EvFetchEffect]"
  obtain s where r: "sys_run (\<lambda>_. Inr []) ?evs init_sys = Inr s" and p: "length (pending s) = 2"
    by (simp add: sys_defs login_def initial_store_def initial_app_def fetchTracks_start_def
        handleSearch_def js_trim_plain)
  have reach: "reach (\<lambda>_. Inr []) s" using reach_run [OF r reach.init] .
  show ?thesis
    using searches_complete [OF reach] p reach by (auto simp: numeral_2_eq_2)
qed

text \<open>
  C38: a submitted search starts a request only when it changes the query: from
  a settled state, the effects that follow the submission add exactly one search
  in flight, for the trimmed text (or \<open>genre:pop\<close> for a blank one), when
  that differs from the current query and the user is signed in; submitting the
  current query again (for instance to retry after "Failed to load tracks")
  changes nothing and sends no request.
\<close>

theorem search_requests:
  assumes "\<not> effects_pending s" and "sys_step cat (EvSearch q) s = Inr s1"
  shows "query (app s1) = (if js_trim q = [] then default_query else js_trim q) \<and>
         (\<exists>s2. settle s1 = Some s2 \<and>
            pending s2 = pending s @
              (if query (app s1) \<noteq> query (app s) \<and> isAuthenticated (st s) \<and> \<not> authLoading (st s)
               then [query (app s1)] else []) \<and>
            (query (app s1) = query (app s) \<longrightarrow> s2 = s))"
proof -
  have s1: "s1 = s\<lparr>app := handleSearch q (app s)\<rparr>" using assms(2) by simp
  have d: "sdk_deps s = Some (spotifyToken (st s), tracks_gen s)"
          "fetch_deps s = Some (query (app s), isAuthenticated (st s), authLoading (st s))"
    using assms(1) by (simp_all add: effects_pending_def)
  show ?thesis
  proof (cases "query (app s1) = query (app s)")
    case True
    then have "s1 = s" using s1 by (simp add: handleSearch_def)
    with True assms(1) s1 show ?thesis by (simp add: settle_eq handleSearch_def Let_def)
  next
    case False
    then have p: "effects_pending s1" using s1 d by (simp add: effects_pending_def)
    have "sdk_effect s1 = s1" using s1 d by (simp add: sdk_effect_def handleSearch_def)
    then have "effects_round s1 = fetch_effect s1" by (simp add: effects_round_def)
    with False p s1 d show ?thesis
      by (simp add: settle_eq fetch_effect_def fetchTracks_start_def handleSearch_def Let_def)
  qed
qed

theorem search_requests_witness:
  "\<not> effects_pending (effects_round (init_sys\<lparr>st := ex_signed_in\<rparr>)) \<and>
   sys_step (\<lambda>_. Inr []) (EvSearch '' rock '') (effects_round (init_sys\<lparr>st := ex_signed_in\<rparr>)) =
     Inr ((effects_round (init_sys\<lparr>st := ex_signed_in\<rparr>))
            \<lparr>app := handleSearch '' rock '' (app (effects_round (init_sys\<lparr>st := ex_signed_in\<rparr>)))\<rparr>) \<and>
   query (app (effects_round (init_sys\<lparr>st := ex_signed_in\<rparr>))) = default_query \<and>
   pending (effects_round (init_sys\<lparr>st := ex_signed_in\<rparr>)) = [default_query] \<and>
   (\<exists>s2. settle ((effects_round (init_sys\<lparr>st := ex_signed_in\<rparr>))
            \<lparr>app := handleSearch '' rock '' (app (effects_round (init_sys\<lparr>st := ex_signed_in\<rparr>)))\<rparr>) = Some s2 \<and>
         pending s2 = [default_query, ''rock''])"
proof -
  let ?s = "effects_round (init_sys\<lparr>st := ex_signed_in\<rparr>)"
  have st: "sys_step (\<lambda>_. Inr []) (EvSearch '' rock '') ?s = Inr (?s\<lparr>app := handleSearch '' rock '' (app ?s)\<rparr>)"
    by simp
  have q: "query (app ?s) = default_query" "pending ?s = [default_query]"
          "isAuthenticated (st ?s)" "\<not> authLoading (st ?s)"
    by (simp_all add: effects_round_def sdk_effect_def fetch_effect_def init_sys_def
        initial_app_def fetchTracks_start_def ex_signed_in_def default_query_def Let_def)
  have t: "js_trim '' rock '' = ''rock''" by code_simp
  have n: "''rock'' \<noteq> default_query" by (simp add: default_query_def)
  from search_requests [OF effects_round_settled st] q t n
  show ?thesis using effects_round_settled st by (simp add: handleSearch_def)
qed

text \<open>
  C21: the effects of \<open>App\<close> settle: whatever the state, running the
  pending effects once leaves none pending, so the render loop after any event
  ends after at most one more round, and \<open>settle\<close> returns.
\<close>

theorem settle_terminates:
  "settle s = Some (if effects_pending s then effects_round s else s) \<and>
   \<not> effects_pending (the (settle s))"
  using settle_eq [of s] effects_round_settled [of s] by simp

end
