(* ===== verification/Views.thy ===== *)
theory Views
  imports Complex_Main Playback
begin

text \<open>
  The handlers and formatters of the two views: \<open>src/src/components/NowPlaying.jsx\<close>
  (favourite toggle, add to playlist, seek, \<open>formatTime\<close> on seconds) and
  \<open>src/src/components/Playlist.jsx\<close> (the displayed list, the tab selection, the
  play button, \<open>formatTime\<close> on milliseconds).  Their effect on the store is a
  composition of the operations of theory \<open>Store\<close>.
\<close>

subsection \<open>NowPlaying\<close>

text \<open>
  \<open>App\<close> renders \<open>NowPlaying\<close> with \<open>track={tracks[trackIndex]}\<close> and without a
  \<open>player\<close> prop (it passes \<open>audioRef\<close>, which \<open>NowPlaying\<close> does not read).
\<close>

definition nowPlaying_track :: "app_state \<Rightarrow> track option" where
  "nowPlaying_track a = js_at (tracks a) (trackIndex a)"

definition nowPlaying_has_player :: bool where
  "nowPlaying_has_player = False"

text \<open>\<open>isFavorite\<close> compares URIs, where the store compares preview sources.\<close>

definition isFavorite :: "store \<Rightarrow> track option \<Rightarrow> bool" where
  "isFavorite s tr = (case tr of None \<Rightarrow> False | Some t \<Rightarrow> list_ex (\<lambda>f. uri f = uri t) (favorites s))"

definition handleFavoriteToggle :: "store \<Rightarrow> track option \<Rightarrow> store" where
  "handleFavoriteToggle s tr =
     (case tr of
        None \<Rightarrow> s
      | Some t \<Rightarrow> (if isFavorite s tr then removeFromFavorites t s else addToFavorites t s))"

text \<open>
  \<open>handleAddToPlaylist(existingPlaylistName)\<close> on the store and the text field
  \<open>playlistName\<close>: an existing name appends; otherwise a non-blank field creates
  the playlist (emptying one of that name) and appends, then clears the field.
\<close>

definition handleAddToPlaylist ::
  "track option \<Rightarrow> string option \<Rightarrow> string \<Rightarrow> store \<Rightarrow> store \<times> string" where
  "handleAddToPlaylist tr existing playlistName s =
     (case tr of
        None \<Rightarrow> (s, playlistName)
      | Some t \<Rightarrow>
          (if js_truthy_str existing then (addToPlaylist t (the existing) s, playlistName)
           else if js_trim playlistName \<noteq> []
           then (addToPlaylist t (js_trim playlistName) (createPlaylist (js_trim playlistName) s), [])
           else (s, playlistName)))"

text \<open>\<open>handleSeek\<close>: the offset in milliseconds sent by \<open>player.seek\<close>, if any.\<close>

definition handleSeek :: "bool \<Rightarrow> track option \<Rightarrow> real \<Rightarrow> real \<Rightarrow> real option" where
  "handleSeek has_player tr percent duration =
     (if \<not> has_player \<or> tr = None then None else Some (percent * duration * 1000))"

text \<open>JavaScript's \<open>%\<close> on numbers truncates the quotient.\<close>

definition js_real_rem :: "real \<Rightarrow> real \<Rightarrow> real" where
  "js_real_rem x y = x - y * of_int (if 0 \<le> x / y then \<lfloor>x / y\<rfloor> else \<lceil>x / y\<rceil>)"

definition np_formatTime :: "real \<Rightarrow> string" where
  "np_formatTime time =
     int_str \<lfloor>time / 60\<rfloor> @ '':'' @ pad_start2 (int_str \<lfloor>js_real_rem time 60\<rfloor>)"

subsection \<open>Playlist\<close>

definition displayTracks :: "store \<Rightarrow> track list \<Rightarrow> track list" where
  "displayTracks s mainTracks =
     (if currentPlaylist s = Some ''favorites'' then favorites s
      else (case currentPlaylist s of
              Some n \<Rightarrow> (if n \<noteq> [] then (case playlists s n of Some xs \<Rightarrow> xs | None \<Rightarrow> [])
                         else mainTracks)
            | None \<Rightarrow> mainTracks))"

definition activeTab :: "store \<Rightarrow> string" where
  "activeTab s = (case currentPlaylist s of Some n \<Rightarrow> if n \<noteq> [] then n else ''main'' | None \<Rightarrow> ''main'')"

definition handleTabChange :: "string \<Rightarrow> store \<Rightarrow> store" where
  "handleTabChange v s = (if v = ''main'' then setCurrentPlaylist None s else setCurrentPlaylist (Some v) s)"

text \<open>The play button of row \<open>index\<close>: \<open>track.uri && playTrack(index)\<close>.\<close>

definition playClick :: "track \<Rightarrow> int \<Rightarrow> int option" where
  "playClick t index = (if uri t \<noteq> [] then Some index else None)"

definition pl_formatTime :: "int \<Rightarrow> string" where
  "pl_formatTime ms =
     (let seconds = ms div 1000; minutes = seconds div 60
      in int_str minutes @ '':'' @ pad_start2 (int_str (seconds smod 60)))"

text \<open>Reading a clock string \<open>m:ss\<close> back as seconds, to state the round trip.\<close>

definition parse_clock :: "string \<Rightarrow> nat option" where
  "parse_clock str =
     (case dropWhile (\<lambda>c. c \<noteq> CHR '':'') str of
        _ # ss \<Rightarrow> (case (parse_nat (takeWhile (\<lambda>c. c \<noteq> CHR '':'') str), parse_nat ss) of
                     (Some m, Some sec) \<Rightarrow> Some (60 * m + sec)
                   | _ \<Rightarrow> None)
      | [] \<Rightarrow> None)"

subsection \<open>Lemmas\<close>

lemma nat_str_no_colon: "CHR '':'' \<notin> set (nat_str n)"
proof
  assume "CHR '':'' \<in> set (nat_str n)"
  moreover have "list_all dec_digit (nat_str n)" using nat_str_digits by blast
  ultimately have "dec_digit (CHR '':'')" by (simp add: list_all_iff)
  then show False by (simp add: dec_digit_def)
qed

lemma parse_clock_parts:
  "parse_clock (nat_str m @ CHR '':'' # pad_start2 (nat_str r)) = Some (60 * m + r)"
proof -
  have t: "takeWhile (\<lambda>c. c \<noteq> CHR '':'') (nat_str m @ CHR '':'' # rest) = nat_str m" for rest
    using nat_str_no_colon [of m] by (subst takeWhile_append2) auto
  have d: "dropWhile (\<lambda>c. c \<noteq> CHR '':'') (nat_str m @ CHR '':'' # rest) = CHR '':'' # rest" for rest
    using nat_str_no_colon [of m] by (subst dropWhile_append2) auto
  show ?thesis by (simp add: parse_clock_def t d)
qed

lemma floor_js_real_rem_nonneg:
  assumes "0 \<le> x"
  shows "\<lfloor>js_real_rem x 60\<rfloor> = \<lfloor>x\<rfloor> - 60 * \<lfloor>x / 60\<rfloor>"
proof -
  have "0 \<le> x / 60" using assms by simp
  then have "js_real_rem x 60 = x - of_int (60 * \<lfloor>x / 60\<rfloor>)"
    by (simp add: js_real_rem_def)
  then show ?thesis by (simp only: floor_diff_of_int)
qed

lemma ex_tracks_uri [simp]:
  "uri ex_a = ''spotify:track:a''" "uri ex_b = ''spotify:track:b''" "uri ex_c = ''spotify:track:c''"
  by (simp_all add: ex_a_def ex_b_def ex_c_def)

subsection \<open>Properties of the Playlist view\<close>

text \<open>
  C18: the list the Playlist view shows and the list \<open>playTrack\<close> indexes agree
  on every row shown: clicking row \<open>i\<close> resolves to the track displayed there.
\<close>

theorem view_play_agrees:
  "js_at (displayTracks s (tracks a)) i = Some t \<Longrightarrow> js_at (tracksToPlay s a) i = Some t"
  by (auto simp: displayTracks_def tracksToPlay_def split: if_splits option.splits)

theorem view_play_agrees_witness:
  "js_at (displayTracks initial_store (tracks ex_app)) 1 = Some ex_b \<and>
   js_at (tracksToPlay initial_store ex_app) 1 = Some ex_b"
proof -
  have d: "js_at (displayTracks initial_store (tracks ex_app)) 1 = Some ex_b"
    by (simp add: displayTracks_def js_at_def)
  show ?thesis using view_play_agrees [OF d] d by simp
qed

text \<open>
  Selecting a tab and reading the active tab back gives the tab selected,
  for every non-empty tab value (\<open>"main"\<close> included).
\<close>

lemma tab_roundtrip: "v \<noteq> [] \<Longrightarrow> activeTab (handleTabChange v s) = v"
  by (simp add: activeTab_def handleTabChange_def setCurrentPlaylist_def)

text \<open>
  A playlist created under the name \<open>"favorites"\<close> is never shown: selecting
  it displays the favourites instead.
\<close>

lemma favorites_shadow: "displayTracks (createPlaylist ''favorites'' s) ts = favorites s"
  by (simp add: displayTracks_def createPlaylist_def)

subsection \<open>Properties of the NowPlaying view\<close>

text \<open>
  For a track without preview that is not a favourite by URI, while another
  track without preview is a favourite, the favourite button does nothing: the
  view checks membership by URI, the store adds by preview source.
\<close>

lemma toggle_stuck:
  assumes "src t = None" and "list_ex (\<lambda>f. src f = None) (favorites s)"
    and "\<not> list_ex (\<lambda>f. uri f = uri t) (favorites s)"
  shows "handleFavoriteToggle s (Some t) = s \<and> \<not> isFavorite (handleFavoriteToggle s (Some t)) (Some t)"
proof -
  have "\<not> isFavorite s (Some t)" using assms(3) by (simp add: isFavorite_def)
  moreover have "addToFavorites t s = s" using assms(1,2) by (simp add: addToFavorites_def)
  ultimately show ?thesis by (simp add: handleFavoriteToggle_def)
qed

text \<open>
  C22: for a track whose preview source and URI are both new to the favourites,
  the first press of the favourite button appends the track to the favourites
  (and nothing else) and shows it as a favourite; the second press removes it
  again, restoring the store and the empty heart.
\<close>

theorem toggle_roundtrip:
  assumes "\<not> list_ex (\<lambda>f. src f = src t) (favorites s)"
    and "\<not> list_ex (\<lambda>f. uri f = uri t) (favorites s)"
  shows "handleFavoriteToggle s (Some t) = s\<lparr>favorites := favorites s @ [t]\<rparr> \<and>
         isFavorite (handleFavoriteToggle s (Some t)) (Some t) \<and>
         handleFavoriteToggle (handleFavoriteToggle s (Some t)) (Some t) = s \<and>
         \<not> isFavorite (handleFavoriteToggle (handleFavoriteToggle s (Some t)) (Some t)) (Some t)"
proof -
  have s1: "handleFavoriteToggle s (Some t) = s\<lparr>favorites := favorites s @ [t]\<rparr>"
    using assms by (simp add: handleFavoriteToggle_def isFavorite_def addToFavorites_def)
  have fav: "isFavorite (s\<lparr>favorites := favorites s @ [t]\<rparr>) (Some t)"
    by (simp add: isFavorite_def)
  moreover have "filter (\<lambda>f. src f \<noteq> src t) (favorites s @ [t]) = favorites s"
    using assms(1) by (simp add: list_ex_iff filter_id_conv)
  ultimately have s2: "handleFavoriteToggle (s\<lparr>favorites := favorites s @ [t]\<rparr>) (Some t) = s"
    by (simp add: handleFavoriteToggle_def removeFromFavorites_def)
  have "\<not> isFavorite s (Some t)" using assms(2) by (simp add: isFavorite_def)
  with s1 s2 fav show ?thesis by simp
qed

theorem toggle_roundtrip_witness:
  "\<not> list_ex (\<lambda>f. src f = src ex_a) (favorites (initial_store\<lparr>favorites := [ex_b]\<rparr>)) \<and>
   \<not> list_ex (\<lambda>f. uri f = uri ex_a) (favorites (initial_store\<lparr>favorites := [ex_b]\<rparr>)) \<and>
   handleFavoriteToggle (initial_store\<lparr>favorites := [ex_b]\<rparr>) (Some ex_a) =
     initial_store\<lparr>favorites := [ex_b, ex_a]\<rparr> \<and>
   handleFavoriteToggle (initial_store\<lparr>favorites := [ex_b, ex_a]\<rparr>) (Some ex_a) =
     initial_store\<lparr>favorites := [ex_b]\<rparr>"
proof -
  have a: "\<not> list_ex (\<lambda>f. src f = src ex_a) (favorites (initial_store\<lparr>favorites := [ex_b]\<rparr>))"
    and b: "\<not> list_ex (\<lambda>f. uri f = uri ex_a) (favorites (initial_store\<lparr>favorites := [ex_b]\<rparr>))"
    by (simp_all add: ex_a_def ex_b_def)
  note r = toggle_roundtrip [OF a b]
  have e: "handleFavoriteToggle (initial_store\<lparr>favorites := [ex_b]\<rparr>) (Some ex_a) =
             initial_store\<lparr>favorites := [ex_b, ex_a]\<rparr>"
    using r by simp
  show ?thesis using r a b unfolding e by simp
qed

text \<open>
  Adding the current track under a typed name creates that playlist afresh:
  a playlist already under that name is replaced by the one-track list, it
  becomes the current playlist, and the text field is cleared.
\<close>

lemma add_new_name_wipes:
  assumes "js_trim name \<noteq> []"
  shows "handleAddToPlaylist (Some t) None name s =
           (s\<lparr>playlists := (playlists s)(js_trim name \<mapsto> [t]), currentPlaylist := Some (js_trim name)\<rparr>, [])"
  using assms by (simp add: handleAddToPlaylist_def createPlaylist_def addToPlaylist_def)

subsection \<open>Time formatting\<close>

text \<open>
  C24: NowPlaying's \<open>formatTime\<close> on seconds and Playlist's \<open>formatTime\<close> on
  milliseconds agree: a non-negative millisecond count \<open>ms\<close> prints the same as
  \<open>ms / 1000\<close> seconds.
\<close>

theorem formatTime_equiv:
  assumes "0 \<le> ms"
  shows "np_formatTime (of_int ms / 1000) = pl_formatTime ms"
proof -
  have f1: "\<lfloor>(of_int ms / 1000 :: real)\<rfloor> = ms div 1000"
    using floor_divide_of_int_eq [of ms 1000] by simp
  have f2: "\<lfloor>(of_int ms / 60000 :: real)\<rfloor> = ms div 1000 div 60"
  proof -
    have "\<lfloor>(of_int ms / 60000 :: real)\<rfloor> = ms div 60000"
      using floor_divide_of_int_eq [of ms 60000] by simp
    also have "\<dots> = ms div 1000 div 60" by (simp add: zdiv_zmult2_eq)
    finally show ?thesis .
  qed
  have r: "\<lfloor>js_real_rem (of_int ms / 1000) 60\<rfloor> = (ms div 1000) mod 60"
    using floor_js_real_rem_nonneg [of "of_int ms / 1000"] assms f1 f2
    by (simp add: minus_div_mult_eq_mod [symmetric])
  have "0 \<le> ms div 1000" using assms by simp
  then show ?thesis using assms
    by (simp add: np_formatTime_def pl_formatTime_def f2 r smod_nonneg_eq_mod Let_def)
qed

theorem formatTime_equiv_witness:
  "(0::int) \<le> 754000 \<and> np_formatTime (of_int 754000 / 1000) = pl_formatTime 754000 \<and>
   pl_formatTime 754000 = ''12:34''"
proof -
  have "pl_formatTime 754000 = ''12:34''"
    by code_simp
  then show ?thesis using formatTime_equiv [of 754000] by simp
qed

text \<open>
  C25: Playlist's \<open>formatTime\<close> prints whole minutes, a colon and two-digit
  seconds: reading the string back gives the number of whole seconds.
\<close>

theorem clock_roundtrip:
  assumes "0 \<le> ms"
  shows "parse_clock (pl_formatTime ms) = Some (nat (ms div 1000))"
proof -
  let ?sec = "ms div 1000"
  have s: "0 \<le> ?sec" "0 \<le> ?sec div 60" "0 \<le> ?sec mod 60" using assms by simp_all
  have "pl_formatTime ms = nat_str (nat (?sec div 60)) @ CHR '':'' # pad_start2 (nat_str (nat (?sec mod 60)))"
    using s by (simp add: pl_formatTime_def Let_def int_str_nonneg smod_nonneg_eq_mod)
  moreover have "60 * nat (?sec div 60) + nat (?sec mod 60) = nat ?sec"
  proof -
    have "nat (60 * (?sec div 60) + ?sec mod 60) = nat (60 * (?sec div 60)) + nat (?sec mod 60)"
      using s by (intro nat_add_distrib) simp_all
    moreover have "nat (60 * (?sec div 60)) = 60 * nat (?sec div 60)"
      by (simp add: nat_mult_distrib)
    moreover have "60 * (?sec div 60) + ?sec mod 60 = ?sec" by simp
    ultimately show ?thesis by simp
  qed
  ultimately show ?thesis by (simp add: parse_clock_parts)
qed

theorem clock_roundtrip_witness:
  "(0::int) \<le> 215999 \<and> parse_clock (pl_formatTime 215999) = Some 215"
  using clock_roundtrip [of 215999] by simp

end
