(* ===== verification/Screens.thy ===== *)
theory Screens
  imports Views
begin

text \<open>
  What the two views display and what their buttons do, as values:
  the progress listener and the screen of \<open>src/src/components/NowPlaying.jsx\<close>,
  the rows of \<open>src/src/components/Playlist.jsx\<close>, and the older player view
  \<open>src/src/components/Player.jsx\<close>, which \<open>App\<close> does not import.  The
  progress bar divides two JavaScript numbers, so this theory models the
  IEEE values a division can give: a finite number, \<open>NaN\<close> and the infinities.
\<close>

subsection \<open>JavaScript numbers\<close>

datatype js_num = Num real | NaN | PosInf | NegInf

text \<open>\<open>x / y\<close> on finite numbers (the sign of a zero divisor is that of \<open>+0\<close>).\<close>

definition js_div :: "real \<Rightarrow> real \<Rightarrow> js_num" where
  "js_div x y =
     (if y \<noteq> 0 then Num (x / y) else if x = 0 then NaN else if 0 < x then PosInf else NegInf)"

definition js_mul_num :: "js_num \<Rightarrow> real \<Rightarrow> js_num" where
  "js_mul_num v k =
     (case v of
        Num x \<Rightarrow> Num (x * k)
      | NaN \<Rightarrow> NaN
      | PosInf \<Rightarrow> (if 0 < k then PosInf else if k < 0 then NegInf else NaN)
      | NegInf \<Rightarrow> (if 0 < k then NegInf else if k < 0 then PosInf else NaN))"

text \<open>\<open>v || d\<close>: \<open>NaN\<close> and zero are falsy.\<close>

definition js_or_num :: "js_num \<Rightarrow> js_num \<Rightarrow> js_num" where
  "js_or_num v d = (case v of NaN \<Rightarrow> d | Num x \<Rightarrow> if x = 0 then d else v | _ \<Rightarrow> v)"

subsection \<open>NowPlaying\<close>

text \<open>
  The width of the progress bar in percent, \<open>(currentTime / duration) * 100 || 0\<close>;
  \<open>Player.jsx\<close> computes it by the same expression.
\<close>

definition progress_width :: "real \<Rightarrow> real \<Rightarrow> js_num" where
  "progress_width currentTime duration = js_or_num (js_mul_num (js_div currentTime duration) 100) (Num 0)"

text \<open>
  The fields of the SDK's playback state that \<open>NowPlaying\<close> reads, in
  milliseconds (the same object \<open>App\<close>'s listener reads \<open>paused\<close> and the
  current track from).
\<close>

record sdk_position =
  position :: nat
  duration :: nat

text \<open>
  \<open>NowPlaying\<close>'s \<open>currentTime\<close> and \<open>duration\<close> in seconds.  Its effect adds
  \<open>handlePlayerState\<close> as a listener only when it has a \<open>player\<close>.
\<close>

record np_state =
  currentTime :: real
  np_duration :: real

definition np_init :: np_state where
  "np_init = \<lparr>currentTime = 0, np_duration = 0\<rparr>"

definition handlePlayerState :: "sdk_position option \<Rightarrow> np_state \<Rightarrow> np_state" where
  "handlePlayerState st n =
     (case st of
        None \<Rightarrow> n\<lparr>currentTime := 0, np_duration := 0\<rparr>
      | Some p \<Rightarrow> n\<lparr>currentTime := real (position p) / 1000, np_duration := real (duration p) / 1000\<rparr>)"

text \<open>A state notification reaches the component only through the listener its effect added.\<close>

definition np_notify :: "bool \<Rightarrow> sdk_position option \<Rightarrow> np_state \<Rightarrow> np_state" where
  "np_notify has_player st n = (if has_player then handlePlayerState st n else n)"

text \<open>
  The screen: image, title and artist with their defaults, the two times, the
  bar, the labels of the play and favourite buttons and which buttons are
  disabled (the buttons of the existing playlists are not modelled: their order
  is that of \<open>Object.keys\<close>).
\<close>

record np_view =
  np_image :: string
  np_title :: string
  np_artist :: string
  np_times :: "string \<times> string"
  np_width :: js_num
  play_label :: string
  fav_label :: string
  prev_disabled :: bool
  play_disabled :: bool
  next_disabled :: bool
  add_disabled :: bool

definition nowPlaying_view :: "store \<Rightarrow> track option \<Rightarrow> bool \<Rightarrow> np_state \<Rightarrow> string \<Rightarrow> np_view" where
  "nowPlaying_view s tr playing n playlistName =
     \<lparr>np_image = js_or_str (map_option image tr) placeholder_image,
      np_title = js_or_str (map_option title tr) ''No Track Selected'',
      np_artist = js_or_str (map_option artist tr) unknown_artist,
      np_times = (np_formatTime (currentTime n), np_formatTime (np_duration n)),
      np_width = progress_width (currentTime n) (np_duration n),
      play_label = (if playing then ''Pause'' else ''Play''),
      fav_label = (if isFavorite s tr then ''Remove from Favorites'' else ''Add to Favorites''),
      prev_disabled = (tr = None),
      play_disabled = (case tr of None \<Rightarrow> True | Some t \<Rightarrow> uri t = []),
      next_disabled = (tr = None),
      add_disabled = (tr = None \<or> js_trim playlistName = [])\<rparr>"

text \<open>
  The buttons "Add to \<open>name\<close>", one per key of \<open>playlists\<close> in the order
  \<open>Object.keys\<close> lists them (the argument \<open>keys\<close>), shown when there is at
  least one: the name each passes to \<open>handleAddToPlaylist\<close>, its label, and
  whether it is disabled.  The playlist-name input's \<open>onChange\<close> is
  \<open>setPlaylistName\<close>.
\<close>

definition np_playlist_buttons :: "string list \<Rightarrow> track option \<Rightarrow> (string \<times> string \<times> bool) list" where
  "np_playlist_buttons keys tr =
     (if keys \<noteq> [] then map (\<lambda>name. (name, ''Add to '' @ name, tr = None)) keys else [])"

definition setPlaylistName :: "string \<Rightarrow> string \<Rightarrow> string" where
  "setPlaylistName v playlistName = v"

subsection \<open>Playlist rows\<close>

text \<open>
  One row of the list: its number, image, title, artist and duration text, the
  index the play button passes to \<open>playTrack\<close> (\<open>None\<close> when disabled), the
  button's title, and the arguments of \<open>removeFromPlaylist\<close> when the row has a
  remove button.  The fetched track objects have no \<open>duration_ms\<close>, so the
  duration is always \<open>"-"\<close>.
\<close>

record pl_row =
  row_num :: int
  row_image :: string
  row_title :: string
  row_artist :: string
  row_duration :: string
  row_play :: "int option"
  row_play_title :: string
  row_remove :: "(track \<times> string) option"

definition pl_row :: "store \<Rightarrow> int \<Rightarrow> track \<Rightarrow> pl_row" where
  "pl_row s index t =
     \<lparr>row_num = index + 1,
      row_image = js_or_str (Some (image t)) placeholder_image,
      row_title = title t,
      row_artist = artist t,
      row_duration = ''-'',
      row_play = playClick t index,
      row_play_title = (if uri t \<noteq> [] then ''Play track'' else ''Track not available''),
      row_remove = (case currentPlaylist s of
                      Some n \<Rightarrow> if n \<noteq> [] \<and> n \<noteq> ''favorites'' then Some (t, n) else None
                    | None \<Rightarrow> None)\<rparr>"

definition pl_rows :: "store \<Rightarrow> track list \<Rightarrow> pl_row list" where
  "pl_rows s mainTracks =
     map (\<lambda>(i, t). pl_row s (int i) t) (enumerate 0 (displayTracks s mainTracks))"

text \<open>
  The tab list: "Main Playlist", "Favorites", then one tab per key of
  \<open>playlists\<close> in \<open>Object.keys\<close> order, each as (value, label).
\<close>

definition pl_tabs :: "string list \<Rightarrow> (string \<times> string) list" where
  "pl_tabs keys = [(''main'', ''Main Playlist''), (''favorites'', ''Favorites'')] @ map (\<lambda>name. (name, name)) keys"

text \<open>"No tracks in this playlist" instead of the column headers.\<close>

definition pl_empty_message :: "store \<Rightarrow> track list \<Rightarrow> bool" where
  "pl_empty_message s mainTracks = (displayTracks s mainTracks = [])"

subsection \<open>Player.jsx\<close>

text \<open>
  The older view reads an \<open>Audio\<close> element: \<open>timeupdate\<close> and
  \<open>loadedmetadata\<close> copy its \<open>currentTime\<close> and \<open>duration\<close> into the state, and
  \<open>handleSeek\<close> sets the element's \<open>currentTime\<close> to the clicked fraction of the
  duration, which the element reports back by its next \<open>timeupdate\<close>.
\<close>

record legacy_player =
  audio_time :: real
  lp_currentTime :: real
  lp_duration :: real

datatype legacy_event = TimeUpdate | LoadedMetadata real | SeekClick real

fun legacy_step :: "legacy_event \<Rightarrow> legacy_player \<Rightarrow> legacy_player" where
  "legacy_step TimeUpdate p = p\<lparr>lp_currentTime := audio_time p\<rparr>"
| "legacy_step (LoadedMetadata d) p = p\<lparr>lp_duration := d\<rparr>"
| "legacy_step (SeekClick percent) p = p\<lparr>audio_time := percent * lp_duration p\<rparr>"

text \<open>
  Its \<open>formatTime\<close> is the code of NowPlaying's, and its screen reads
  \<open>track.title\<close> without \<open>?.\<close>: rendered without a track it throws.
\<close>

definition legacy_formatTime :: "real \<Rightarrow> string" where
  "legacy_formatTime time =
     int_str \<lfloor>time / 60\<rfloor> @ '':'' @ pad_start2 (int_str \<lfloor>js_real_rem time 60\<rfloor>)"

record legacy_view =
  lv_title :: string
  lv_artist :: string
  lv_button :: string
  lv_times :: "string \<times> string"
  lv_width :: js_num

definition legacy_render :: "track option \<Rightarrow> bool \<Rightarrow> legacy_player \<Rightarrow> legacy_view js_result" where
  "legacy_render tr playing p =
     (case tr of
        None \<Rightarrow> Inl TypeError
      | Some t \<Rightarrow> Inr \<lparr>lv_title = title t, lv_artist = artist t,
                       lv_button = (if playing then ''Pause'' else ''Play''),
                       lv_times = (legacy_formatTime (lp_currentTime p), legacy_formatTime (lp_duration p)),
                       lv_width = progress_width (lp_currentTime p) (lp_duration p)\<rparr>)"

definition ex_mix_store :: store where
  "ex_mix_store = initial_store\<lparr>playlists := [''mix'' \<mapsto> [ex_a]], currentPlaylist := Some ''mix''\<rparr>"

subsection \<open>Lemmas\<close>

lemma progress_width_pos: "0 < d \<Longrightarrow> progress_width t d = Num (t / d * 100)"
  by (simp add: progress_width_def js_div_def js_mul_num_def js_or_num_def)

lemma progress_width_zero_zero: "progress_width 0 0 = Num 0"
  by (simp add: progress_width_def js_div_def js_mul_num_def js_or_num_def)

lemma progress_width_inf: "0 < t \<Longrightarrow> progress_width t 0 = PosInf"
  by (simp add: progress_width_def js_div_def js_mul_num_def js_or_num_def)

lemma np_formatTime_zero: "np_formatTime 0 = ''0:00''"
proof -
  have "char_of (48::nat) = CHR ''0''" by code_simp
  then show ?thesis
    by (simp add: np_formatTime_def js_real_rem_def int_str_def pad_start2_def nat_str.simps digit_char_def)
qed

lemma fold_np_notify_no_player: "fold (np_notify False) sts n = n"
  by (induction sts arbitrary: n) (simp_all add: np_notify_def)

lemma np_playlist_button_appends:
  assumes "(name, label, False) \<in> set (np_playlist_buttons keys tr)" and "playlists s name = Some xs"
    and "name \<noteq> []"
  shows "\<exists>t. tr = Some t \<and>
           handleAddToPlaylist tr (Some name) nm s = (s\<lparr>playlists := (playlists s)(name \<mapsto> xs @ [t])\<rparr>, nm)"
proof -
  from assms(1) obtain t where "tr = Some t"
    by (auto simp: np_playlist_buttons_def split: if_splits)
  with assms(2,3) show ?thesis
    by (simp add: handleAddToPlaylist_def addToPlaylist_def)
qed

lemma pl_rows_remove:
  assumes "r \<in> set (pl_rows s ts)" and "row_remove r = Some (t, n)"
  shows "currentPlaylist s = Some n \<and> n \<noteq> [] \<and> n \<noteq> ''favorites'' \<and> playlists s n \<noteq> None"
proof -
  from assms(1) obtain i u where r: "r = pl_row s (int i) u" and "u \<in> set (displayTracks s ts)"
    by (auto simp: pl_rows_def in_set_enumerate_eq)
  then have ne: "displayTracks s ts \<noteq> []" by auto
  from assms(2) r have c: "currentPlaylist s = Some n" "n \<noteq> []" "n \<noteq> ''favorites''"
    by (auto simp: pl_row_def split: option.splits if_splits)
  with ne show ?thesis by (auto simp: displayTracks_def split: option.splits)
qed

subsection \<open>Properties\<close>

text \<open>
  C33: while the position is within the duration, the progress bar's width
  is a number between 0 and 100 percent; at position and duration zero the
  division gives \<open>NaN\<close>, which \<open>|| 0\<close> turns into 0.
\<close>

theorem progress_bounds:
  assumes "0 \<le> t" and "t \<le> d"
  shows "\<exists>w. progress_width t d = Num w \<and> 0 \<le> w \<and> w \<le> 100"
proof (cases "d = 0")
  case True
  with assms have "t = 0" by simp
  with True show ?thesis by (simp add: progress_width_zero_zero)
next
  case False
  with assms have d: "0 < d" by simp
  define w where "w = t / d * 100"
  have "t / d \<le> 1" "0 \<le> t / d" using assms d by simp_all
  then have "0 \<le> w" "w \<le> 100"
    unfolding w_def using mult_right_mono [of "t / d" 1 100] mult_nonneg_nonneg [of "t / d" 100]
    by (simp_all only: mult_1)
  moreover have "progress_width t d = Num w" using d by (simp add: w_def progress_width_pos)
  ultimately show ?thesis by blast
qed

theorem progress_bounds_witness:
  "0 \<le> (1::real) \<and> (1::real) \<le> 2 \<and> progress_width 1 2 = Num 50 \<and> progress_width 0 0 = Num 0"
proof -
  have "progress_width 1 2 = Num 50" by (simp add: progress_width_pos)
  then show ?thesis using progress_bounds [of 1 2] progress_width_zero_zero by simp
qed

text \<open>
  C37: as \<open>App\<close> wires it (no \<open>player\<close> prop), \<open>NowPlaying\<close> never
  subscribes to the SDK's state: whatever the SDK reports, it shows
  \<open>0:00\<close> of \<open>0:00\<close> and an empty progress bar.
\<close>

theorem nowPlaying_frozen:
  "fold (np_notify nowPlaying_has_player) sts np_init = np_init \<and>
   np_times (nowPlaying_view s tr p (fold (np_notify nowPlaying_has_player) sts np_init) nm) = (''0:00'', ''0:00'') \<and>
   np_width (nowPlaying_view s tr p (fold (np_notify nowPlaying_has_player) sts np_init) nm) = Num 0"
  by (simp add: nowPlaying_has_player_def fold_np_notify_no_player nowPlaying_view_def np_init_def
      np_formatTime_zero progress_width_zero_zero)

text \<open>
  C15: every remove button the Playlist view renders calls
  \<open>removeFromPlaylist\<close> on a playlist that exists, so the click never throws,
  and the row's track is no longer in that playlist afterwards.
\<close>

theorem remove_button_safe:
  assumes "r \<in> set (pl_rows s ts)" and "row_remove r = Some (t, n)"
  shows "\<exists>s'. removeFromPlaylist t n s = Inr s' \<and> \<not> list_ex (\<lambda>f. src f = src t) (the (playlists s' n))"
proof -
  from pl_rows_remove [OF assms] obtain xs where "playlists s n = Some xs" by auto
  then show ?thesis by (auto simp: removeFromPlaylist_def list_ex_iff)
qed

theorem remove_button_safe_witness:
  "pl_row ex_mix_store 0 ex_a \<in> set (pl_rows ex_mix_store []) \<and>
   row_remove (pl_row ex_mix_store 0 ex_a) = Some (ex_a, ''mix'') \<and>
   removeFromPlaylist ex_a ''mix'' ex_mix_store =
     Inr (ex_mix_store\<lparr>playlists := [''mix'' \<mapsto> []]\<rparr>)"
proof -
  have r: "pl_row ex_mix_store 0 ex_a \<in> set (pl_rows ex_mix_store [])"
    by (simp add: pl_rows_def displayTracks_def ex_mix_store_def)
  have m: "row_remove (pl_row ex_mix_store 0 ex_a) = Some (ex_a, ''mix'')"
    by (simp add: pl_row_def ex_mix_store_def)
  obtain s' where "removeFromPlaylist ex_a ''mix'' ex_mix_store = Inr s'"
    using remove_button_safe [OF r m] by blast
  then show ?thesis using r m by (simp add: removeFromPlaylist_def ex_mix_store_def)
qed

text \<open>
  In \<open>Player.jsx\<close>, a click at fraction \<open>x\<close> of the bar seeks the
  audio element to \<open>x\<close> times the duration, and once the element reports the
  new time the bar is drawn at \<open>100 x\<close> percent.
\<close>

lemma seek_roundtrip:
  assumes "0 < lp_duration p"
  shows "progress_width (lp_currentTime (legacy_step TimeUpdate (legacy_step (SeekClick x) p))) (lp_duration p) =
           Num (x * 100)"
  using assms by (simp add: progress_width_pos)

end
