(* ===== verification/Auth.thy ===== *)
theory Auth
  imports Session
begin

text \<open>
  The sign-in form \<open>src/src/components/Auth.jsx\<close>: its five pieces of React
  state, \<open>handleSubmit\<close> split at its \<open>await\<close> into the submission and the
  answer of the store's \<open>signup\<close> or \<open>login\<close>, the mode toggle, the inputs and
  the logout button, composed as a step function over the form and the store;
  and the screen the component renders, as a value.  The browser's constraint
  validation (\<open>required\<close>, \<open>minLength={6}\<close>, \<open>type="email"\<close>) guards the
  submission; the \<open>type="email"\<close> check is a parameter \<open>email_ok\<close>.
\<close>

subsection \<open>State\<close>

text \<open>
  \<open>error\<close> and \<open>loading\<close> of the component are \<open>form_error\<close> and
  \<open>form_loading\<close>.  \<open>submitting\<close> is the request in flight, with the mode
  (\<open>isSignup\<close>) its closure captured; the code keeps it in the pending promise.
\<close>

record auth_form =
  email :: string
  password :: string
  isSignup :: bool
  form_error :: "string option"
  form_loading :: bool
  submitting :: "bool option"

definition initial_auth_form :: auth_form where
  "initial_auth_form =
     \<lparr>email = [], password = [], isSignup = False, form_error = None, form_loading = False,
      submitting = None\<rparr>"

definition auth_fail_msg :: string where
  "auth_fail_msg = ''Authentication failed. Please try again.''"

text \<open>
  \<open>err.message\<close>: the message of a rejected Supabase call; an engine
  \<open>TypeError\<close> has a non-empty message, which \<open>''TypeError''\<close> stands for.
\<close>

definition error_message :: "js_error \<Rightarrow> string" where
  "error_message e = (case e of Rejected m \<Rightarrow> m | TypeError \<Rightarrow> ''TypeError'')"

subsection \<open>handleSubmit\<close>

text \<open>Up to the \<open>await\<close>: \<open>setError(null)\<close>, \<open>setLoading(true)\<close>, the call.\<close>

definition handleSubmit_start :: "auth_form \<Rightarrow> auth_form" where
  "handleSubmit_start f =
     f\<lparr>form_error := None, form_loading := True, submitting := Some (isSignup f)\<rparr>"

text \<open>
  The answer: on success the inputs are cleared, on a throw the message (or the
  default text when it is empty) is shown; \<open>finally\<close> ends loading either way.
\<close>

definition handleSubmit_done :: "auth_response \<Rightarrow> auth_form \<Rightarrow> store \<Rightarrow> auth_form \<times> store" where
  "handleSubmit_done r f s =
     (case submitting f of
        None \<Rightarrow> (f, s)
      | Some signing_up \<Rightarrow>
          (case (if signing_up then signup r s else login r s) of
             Inr s' \<Rightarrow> (f\<lparr>email := [], password := [], form_loading := False, submitting := None\<rparr>, s')
           | Inl e \<Rightarrow>
               (f\<lparr>form_error := Some (if error_message e \<noteq> [] then error_message e else auth_fail_msg),
                  form_loading := False, submitting := None\<rparr>, s)))"

text \<open>The constraint validation of the two inputs.\<close>

definition form_valid :: "(string \<Rightarrow> bool) \<Rightarrow> auth_form \<Rightarrow> bool" where
  "form_valid email_ok f = (email f \<noteq> [] \<and> email_ok (email f) \<and> password f \<noteq> [] \<and> 6 \<le> length (password f))"

subsection \<open>Events\<close>

text \<open>
  What the user and the service can do.  The submit, toggle and logout buttons
  are disabled while loading, and the form is shown only to a signed-out user
  once authentication has loaded; the inputs stay enabled.  A failed logout is
  an unhandled rejection: the store is left as it was and nothing is shown.
\<close>

datatype auth_event =
    Submit
  | Answer auth_response
  | ToggleMode
  | TypeEmail string
  | TypePassword string
  | LogoutClick "js_error option"

definition form_shown :: "store \<Rightarrow> bool" where
  "form_shown s = (\<not> authLoading s \<and> \<not> isAuthenticated s)"

fun auth_step :: "(string \<Rightarrow> bool) \<Rightarrow> auth_event \<Rightarrow> auth_form \<times> store \<Rightarrow> auth_form \<times> store" where
  "auth_step ok Submit (f, s) =
     (if form_shown s \<and> \<not> form_loading f \<and> form_valid ok f then (handleSubmit_start f, s) else (f, s))"
| "auth_step ok (Answer r) (f, s) = handleSubmit_done r f s"
| "auth_step ok ToggleMode (f, s) =
     (if form_shown s \<and> \<not> form_loading f then (f\<lparr>isSignup := \<not> isSignup f\<rparr>, s) else (f, s))"
| "auth_step ok (TypeEmail v) (f, s) = (if form_shown s then (f\<lparr>email := v\<rparr>, s) else (f, s))"
| "auth_step ok (TypePassword v) (f, s) = (if form_shown s then (f\<lparr>password := v\<rparr>, s) else (f, s))"
| "auth_step ok (LogoutClick r) (f, s) =
     (if \<not> authLoading s \<and> isAuthenticated s \<and> \<not> form_loading f
      then (case logout r s of Inr s' \<Rightarrow> (f, s') | Inl _ \<Rightarrow> (f, s))
      else (f, s))"

definition auth_run :: "(string \<Rightarrow> bool) \<Rightarrow> auth_event list \<Rightarrow> auth_form \<times> store \<Rightarrow> auth_form \<times> store" where
  "auth_run ok es fs = fold (auth_step ok) es fs"

subsection \<open>The rendered screen\<close>

text \<open>
  \<open>AuthSpinner\<close>: "Loading authentication..."; \<open>Welcome\<close>: the e-mail shown after
  "You are logged in as" and whether the logout button shows its spinner;
  \<open>LoginForm\<close>: title, description, the submit label (\<open>None\<close> for the spinner),
  the alert, the toggle link and whether the buttons are disabled.
\<close>

datatype auth_view =
    AuthSpinner
  | Welcome "string option" bool
  | LoginForm string string "string option" "string option" string bool

definition auth_view :: "auth_form \<Rightarrow> store \<Rightarrow> auth_view" where
  "auth_view f s =
     (if authLoading s then AuthSpinner
      else if isAuthenticated s then Welcome (map_option user_email (user s)) (form_loading f)
      else LoginForm
             (if isSignup f then ''Create an account'' else ''Login'')
             (if isSignup f then ''Sign up to start listening'' else ''Login to access your music'')
             (if form_loading f then None else Some (if isSignup f then ''Sign Up'' else ''Login''))
             (if js_truthy_str (form_error f) then form_error f else None)
             (if isSignup f then ''Already have an account? Login'' else ''Don't have an account? Sign Up'')
             (form_loading f))"

subsection \<open>Invariant\<close>

text \<open>The spinner of the form is on exactly while a request is in flight.\<close>

definition auth_form_inv :: "auth_form \<Rightarrow> bool" where
  "auth_form_inv f = (form_loading f = (submitting f \<noteq> None))"

definition ex_form_store :: store where
  "ex_form_store = initial_store\<lparr>authLoading := False\<rparr>"

subsection \<open>Lemmas\<close>

lemma handleSubmit_done_inv: "auth_form_inv f \<Longrightarrow> auth_form_inv (fst (handleSubmit_done r f s))"
  by (auto simp: auth_form_inv_def handleSubmit_done_def split: option.splits sum.splits)

lemma auth_step_inv:
  assumes "auth_form_inv f"
  shows "auth_form_inv (fst (auth_step ok e (f, s)))"
proof (cases e)
  case (Answer r)
  then show ?thesis using assms by (simp add: handleSubmit_done_inv)
qed (use assms in \<open>auto simp: auth_form_inv_def handleSubmit_start_def split: sum.splits\<close>)

lemma fold_auth_step_inv: "auth_form_inv (fst fs) \<Longrightarrow> auth_form_inv (fst (fold (auth_step ok) es fs))"
proof (induction es arbitrary: fs)
  case Nil
  then show ?case by simp
next
  case (Cons e es)
  obtain f s where fs: "fs = (f, s)" by fastforce
  with Cons.prems have "auth_form_inv (fst (auth_step ok e (f, s)))" by (simp add: auth_step_inv)
  with Cons.IH fs show ?case by simp
qed

subsection \<open>Properties\<close>

text \<open>
  C19: in every state the form reaches from its initial state, its spinner
  is on exactly while a request is in flight, and whatever the service answers
  (a user, no user, an error), the answer turns the spinner off: the \<open>finally\<close>
  clause covers every path.
\<close>

theorem auth_loading_iff_in_flight:
  "auth_run ok es (initial_auth_form, s) = (f, s') \<Longrightarrow>
     form_loading f = (submitting f \<noteq> None) \<and>
     (\<forall>r. \<not> form_loading (fst (auth_step ok (Answer r) (f, s'))))"
proof -
  assume r: "auth_run ok es (initial_auth_form, s) = (f, s')"
  have "auth_form_inv (fst (auth_run ok es (initial_auth_form, s)))"
    unfolding auth_run_def by (rule fold_auth_step_inv) (simp add: auth_form_inv_def initial_auth_form_def)
  then have i: "auth_form_inv f" using r by simp
  then show ?thesis
    by (auto simp: auth_form_inv_def handleSubmit_done_def split: option.splits sum.splits)
qed

theorem auth_loading_iff_in_flight_witness:
  "auth_run (\<lambda>_. True) [TypeEmail ''ana@example.com'', TypePassword ''secret1'', Submit]
     (initial_auth_form, ex_form_store) =
     (initial_auth_form\<lparr>email := ''ana@example.com'', password := ''secret1'', form_loading := True,
        submitting := Some False\<rparr>, ex_form_store) \<and>
   \<not> form_loading (fst (auth_step (\<lambda>_. True) (Answer (Inl (Rejected [])))
       (initial_auth_form\<lparr>email := ''ana@example.com'', password := ''secret1'', form_loading := True,
          submitting := Some False\<rparr>, ex_form_store)))"
proof -
  have r: "auth_run (\<lambda>_. True) [TypeEmail ''ana@example.com'', TypePassword ''secret1'', Submit]
     (initial_auth_form, ex_form_store) =
     (initial_auth_form\<lparr>email := ''ana@example.com'', password := ''secret1'', form_loading := True,
        submitting := Some False\<rparr>, ex_form_store)"
    by (simp add: auth_run_def form_shown_def form_valid_def handleSubmit_start_def
        initial_auth_form_def ex_form_store_def initial_store_def)
  show ?thesis using auth_loading_iff_in_flight [OF r] r by blast
qed

text \<open>
  The answer to a login: a user signs in and the inputs are
  cleared; a rejection keeps the inputs and the store and shows the service's
  message, or the default text when the message is empty.
\<close>

lemma submit_outcome:
  assumes "submitting f = Some False"
  shows "handleSubmit_done (Inr (Some u)) f s =
           (f\<lparr>email := [], password := [], form_loading := False, submitting := None\<rparr>,
            s\<lparr>user := Some u, isAuthenticated := True, authLoading := False\<rparr>) \<and>
         handleSubmit_done (Inl (Rejected m)) f s =
           (f\<lparr>form_error := Some (if m \<noteq> [] then m else auth_fail_msg), form_loading := False,
              submitting := None\<rparr>, s)"
  using assms by (simp add: handleSubmit_done_def login_def error_message_def)

end
