(* ===== verification/Shell.thy ===== *)
theory Shell
  imports Views Auth
begin

text \<open>
  The frame around the components: the authentication effect of
  \<open>src/src/App.jsx\<close> (\<open>setupAuth\<close>, lines 77--103), the error boundary
  \<open>src/src/components/ErrorBoundary.jsx\<close>, and the screen \<open>App\<close> renders
  (lines 191--276) as a value computed from the route, the boundary, the store,
  \<open>App\<close>'s state and the sign-in form.
\<close>

subsection \<open>The authentication effect\<close>

text \<open>
  \<open>setupAuth\<close> awaits \<open>initializeAuth()\<close>, calls \<open>setUser(initialUser)\<close> when
  the component is still mounted and a user was found, and subscribes a listener
  that ignores notifications once \<open>isMounted\<close> is false.  The cleanup that
  \<open>setupAuth\<close> returns only resolves its promise and is never called, so the
  subscription is never removed; the effect's own cleanup only clears
  \<open>isMounted\<close>.  \<open>initializeAuth\<close> catches every error itself, so the
  \<open>.catch\<close> branch setting "Failed to initialize authentication" is never
  taken.  The result is the store and whether a subscription was made.
\<close>

definition setupAuth ::
  "bool \<Rightarrow> session_response \<Rightarrow> user_response \<Rightarrow> store \<Rightarrow> store \<times> bool" where
  "setupAuth isMounted sess usr s =
     (let (initialUser, s1) = initializeAuth sess usr s
      in (if isMounted \<and> initialUser \<noteq> None then setUser initialUser s1 else s1, True))"

definition auth_listener :: "bool \<Rightarrow> supa_session option \<Rightarrow> store \<Rightarrow> store" where
  "auth_listener isMounted sess s = (if isMounted then onAuthStateChange sess s else s)"

subsection \<open>The error boundary\<close>

text \<open>
  \<open>hasError\<close> is set by \<open>getDerivedStateFromError\<close> when rendering the children
  throws, and cleared by the "Try again" button.  A rendering of the children is
  a value or the error it throws.
\<close>

record boundary =
  hasError :: bool

definition boundary_init :: boundary where
  "boundary_init = \<lparr>hasError = False\<rparr>"

definition getDerivedStateFromError :: "js_error \<Rightarrow> boundary \<Rightarrow> boundary" where
  "getDerivedStateFromError e b = b\<lparr>hasError := True\<rparr>"

definition tryAgain :: "boundary \<Rightarrow> boundary" where
  "tryAgain b = b\<lparr>hasError := False\<rparr>"

datatype 'v boundary_view = Fallback | Children 'v

definition boundary_render :: "'v js_result \<Rightarrow> boundary \<Rightarrow> boundary \<times> 'v boundary_view" where
  "boundary_render child b =
     (if hasError b then (b, Fallback)
      else (case child of
              Inr v \<Rightarrow> (b, Children v)
            | Inl e \<Rightarrow> (getDerivedStateFromError e b, Fallback)))"

subsection \<open>The screen of App\<close>

text \<open>
  The track area of the signed-in page: "Loading tracks...", the error text,
  the two tabs (the track \<open>NowPlaying\<close> receives and the list \<open>Playlist\<close>
  receives), or "No tracks found".
\<close>

datatype track_area =
    TracksLoading
  | TracksError string
  | TrackTabs "track option" "track list"
  | NoTracks

definition track_area :: "app_state \<Rightarrow> track_area" where
  "track_area a =
     (if loading a then TracksLoading
      else if js_truthy_str (error a) then TracksError (the (error a))
      else if tracks a \<noteq> [] then TrackTabs (nowPlaying_track a) (tracks a)
      else NoTracks)"

datatype route = RootPath | CallbackPath

text \<open>The two \<open>Route\<close>s of \<open>App\<close>: a path matches one of them or renders nothing.\<close>

definition route_of_path :: "string \<Rightarrow> route option" where
  "route_of_path p =
     (if p = ''/callback'' then Some CallbackPath else if p = ''/'' then Some RootPath else None)"

text \<open>
  \<open>SignedIn logo area\<close>: the header shows the Spotify logo (titled "Spotify
  Connected") when \<open>logo\<close>; \<open>SignedOut\<close>: the \<open>Auth\<close> component's screen.
\<close>

datatype app_view =
    InitializingAuth
  | CallbackPage
  | BoundaryFallback
  | SignedIn bool track_area
  | SignedOut auth_view

definition app_render :: "route \<Rightarrow> boundary \<Rightarrow> store \<Rightarrow> app_state \<Rightarrow> auth_form \<Rightarrow> app_view" where
  "app_render r b s a f =
     (if authLoading s then InitializingAuth
      else (case r of
              CallbackPath \<Rightarrow> CallbackPage
            | RootPath \<Rightarrow>
                (if hasError b then BoundaryFallback
                 else if isAuthenticated s then SignedIn (\<not> js_truthy_str (spotifyToken s)) (track_area a)
                 else SignedOut (auth_view f s))))"

subsection \<open>Properties\<close>

text \<open>
  C29: the \<open>setUser(initialUser)\<close> that \<open>setupAuth\<close> adds after
  \<open>initializeAuth\<close> never changes the store: whatever the session service
  answers and whether or not the component is still mounted, the store after
  the effect is the one \<open>initializeAuth\<close> left; the listener is subscribed.
\<close>

theorem setupAuth_setUser_redundant:
  "fst (setupAuth isMounted sess usr s) = snd (initializeAuth sess usr s) \<and> snd (setupAuth isMounted sess usr s)"
  by (auto simp: setupAuth_def initializeAuth_cases setUser_def split: sum.splits option.splits)

text \<open>
  C26: the loading branch of \<open>Auth\<close> is dead code, since \<open>App\<close> renders
  "Initializing authentication..." instead whenever authentication is loading;
  and the logo titled "Spotify Connected" is shown exactly to a signed-in user
  who has no Spotify token.
\<close>

theorem app_screens:
  "app_render r b s a f \<noteq> SignedOut AuthSpinner \<and>
   (\<exists>area. app_render RootPath boundary_init s a f = SignedIn True area) =
     (\<not> authLoading s \<and> isAuthenticated s \<and> \<not> js_truthy_str (spotifyToken s))"
  by (auto simp: app_render_def auth_view_def boundary_init_def split: route.splits)

text \<open>
  C23: the answer to a submitted sign-in decides the page \<open>App\<close> shows:
  in either mode, an answer with a user signs that user in and takes \<open>App\<close>
  from the form to the signed-in page (with the Spotify logo exactly when there
  is no streaming token); a sign-up answered without a user (an e-mail
  confirmation pending) returns to the sign-up form with its inputs cleared and
  no message at all.
\<close>

theorem sign_in_flow:
  "app_render RootPath boundary_init (snd (auth_step ok (Answer (Inr (Some u))) (handleSubmit_start g, s))) a
       (fst (auth_step ok (Answer (Inr (Some u))) (handleSubmit_start g, s))) =
     SignedIn (\<not> js_truthy_str (spotifyToken s)) (track_area a) \<and>
   user (snd (auth_step ok (Answer (Inr (Some u))) (handleSubmit_start g, s))) = Some u \<and>
   app_render RootPath boundary_init
       (snd (auth_step ok (Answer (Inr None)) (handleSubmit_start (g\<lparr>isSignup := True\<rparr>), s))) a
       (fst (auth_step ok (Answer (Inr None)) (handleSubmit_start (g\<lparr>isSignup := True\<rparr>), s))) =
     SignedOut (LoginForm ''Create an account'' ''Sign up to start listening'' (Some ''Sign Up'') None
                  ''Already have an account? Login'' False) \<and>
   email (fst (auth_step ok (Answer (Inr None)) (handleSubmit_start (g\<lparr>isSignup := True\<rparr>), s))) = [] \<and>
   password (fst (auth_step ok (Answer (Inr None)) (handleSubmit_start (g\<lparr>isSignup := True\<rparr>), s))) = []"
  by (simp add: handleSubmit_start_def handleSubmit_done_def signup_def login_def app_render_def
      auth_view_def boundary_init_def)

end
