(* ===== verification/UriEncoding.thy ===== *)
theory UriEncoding
  imports Prelude
begin

text \<open>
  \<open>encodeURIComponent\<close>, which \<open>src/src/api/spotify.js\<close> applies to the
  redirect URI and the scopes of the authorisation URL and \<open>src/src/App.jsx\<close>
  to the search query.  Strings are byte strings (the UTF-8 encoding of the
  JavaScript string), and the function escapes every byte outside its
  unreserved set as \<open>%XY\<close> with upper-case hexadecimal digits.  A decoder and a
  reader of query strings, which are not part of the program, state what the
  encoding guarantees: a round trip and the absence of the delimiters of a URL.
\<close>

subsection \<open>The encoder\<close>

text \<open>
  The unreserved set of ECMA-262 (\<open>uriUnescaped\<close>): ASCII letters, digits and
  \<open>- _ . ! ~ * ' ( )\<close>.
\<close>

definition uri_mark :: "char list" where
  "uri_mark = [CHR ''-'', CHR ''_'', CHR ''.'', CHR ''!'', CHR ''~'', CHR ''*'', CHR 0x27,
               CHR ''('', CHR '')'']"

definition uri_unreserved :: "char \<Rightarrow> bool" where
  "uri_unreserved c =
     (let n = (of_char c :: nat) in
        (0x41 \<le> n \<and> n \<le> 0x5A) \<or> (0x61 \<le> n \<and> n \<le> 0x7A) \<or> (0x30 \<le> n \<and> n \<le> 0x39) \<or>
        c \<in> set uri_mark)"

definition hex_digit :: "nat \<Rightarrow> char" where
  "hex_digit d = char_of (if d < 10 then 48 + d else 55 + d)"

definition pct_escape :: "char \<Rightarrow> string" where
  "pct_escape c = [CHR ''%'', hex_digit (of_char c div 16), hex_digit (of_char c mod 16)]"

definition encodeURIComponent :: "string \<Rightarrow> string" where
  "encodeURIComponent s = concat (map (\<lambda>c. if uri_unreserved c then [c] else pct_escape c) s)"

subsection \<open>Reading back\<close>

text \<open>Percent-decoding, as \<open>decodeURIComponent\<close> does on bytes; \<open>None\<close> is its \<open>URIError\<close>.\<close>

definition hex_val :: "char \<Rightarrow> nat option" where
  "hex_val c =
     (let n = (of_char c :: nat) in
        if 48 \<le> n \<and> n \<le> 57 then Some (n - 48)
        else if 65 \<le> n \<and> n \<le> 70 then Some (n - 55)
        else if 97 \<le> n \<and> n \<le> 102 then Some (n - 87)
        else None)"

fun uri_decode :: "string \<Rightarrow> string option" where
  "uri_decode [] = Some []"
| "uri_decode (c # rest) =
     (if c \<noteq> CHR ''%'' then map_option (Cons c) (uri_decode rest)
      else (case rest of
              a # b # r \<Rightarrow>
                (case (hex_val a, hex_val b) of
                   (Some x, Some y) \<Rightarrow> map_option (Cons (char_of (16 * x + y))) (uri_decode r)
                 | _ \<Rightarrow> None)
            | _ \<Rightarrow> None))"

text \<open>
  A query string \<open>k1=v1&k2=v2...\<close> after the first \<open>?\<close>, read as a list of keys
  with their decoded values (\<open>None\<close> for an item without exactly one \<open>=\<close> or
  with a malformed escape).
\<close>

definition query_of :: "string \<Rightarrow> string" where
  "query_of url = drop 1 (dropWhile (\<lambda>c. c \<noteq> CHR ''?'') url)"

definition query_pair :: "string \<Rightarrow> string \<times> string option" where
  "query_pair item =
     (case js_split CHR ''='' item of
        [k, v] \<Rightarrow> (k, uri_decode v)
      | k # _ \<Rightarrow> (k, None)
      | [] \<Rightarrow> ([], None))"

definition parse_query :: "string \<Rightarrow> (string \<times> string option) list" where
  "parse_query url = map query_pair (js_split CHR ''&'' (query_of url))"

text \<open>The template the code writes: \<open>k=${encodeURIComponent(v)}\<close> joined with \<open>&\<close>.\<close>

definition render_query :: "(string \<times> string) list \<Rightarrow> string" where
  "render_query kvs = js_join CHR ''&'' (map (\<lambda>(k, v). k @ CHR ''='' # encodeURIComponent v) kvs)"

definition query_key :: "string \<Rightarrow> bool" where
  "query_key k = (CHR ''&'' \<notin> set k \<and> CHR ''='' \<notin> set k)"

subsection \<open>Lemmas\<close>

lemma of_char_div16 [simp]: "(of_char c :: nat) div 16 < 16"
  using nat_of_char_less_256 [of c] by (simp add: less_mult_imp_div_less)

lemma hex_val_hex_digit [simp]: "d < 16 \<Longrightarrow> hex_val (hex_digit d) = Some d"
  by (auto simp: hex_val_def hex_digit_def Let_def)

lemma uri_unreserved_not_pct [simp]: "uri_unreserved c \<Longrightarrow> c \<noteq> CHR ''%''"
  by (auto simp: uri_unreserved_def uri_mark_def)

lemma uri_decode_pct_escape [simp]:
  "uri_decode (pct_escape c @ r) = map_option (Cons c) (uri_decode r)"
proof -
  have "char_of (16 * ((of_char c :: nat) div 16) + of_char c mod 16) = c" by simp
  then show ?thesis by (simp add: pct_escape_def)
qed

lemma uri_decode_encode: "uri_decode (encodeURIComponent s) = Some s"
  by (induction s) (auto simp: encodeURIComponent_def)

lemma hex_digit_unreserved: "d < 16 \<Longrightarrow> uri_unreserved (hex_digit d)"
  by (auto simp: uri_unreserved_def hex_digit_def Let_def)

lemma encode_alphabet: "c \<in> set (encodeURIComponent s) \<Longrightarrow> uri_unreserved c \<or> c = CHR ''%''"
  by (auto simp: encodeURIComponent_def pct_escape_def hex_digit_unreserved split: if_splits)

lemma encode_unreserved: "list_all uri_unreserved s \<Longrightarrow> encodeURIComponent s = s"
  by (induction s) (auto simp: encodeURIComponent_def)

lemma encode_length: "length (encodeURIComponent s) = length s + 2 * length (filter (\<lambda>c. \<not> uri_unreserved c) s)"
  by (induction s) (auto simp: encodeURIComponent_def pct_escape_def)

lemma encode_no_delims:
  "CHR ''&'' \<notin> set (encodeURIComponent v) \<and> CHR ''='' \<notin> set (encodeURIComponent v) \<and>
   CHR ''?'' \<notin> set (encodeURIComponent v) \<and> CHR ''#'' \<notin> set (encodeURIComponent v)"
proof -
  have x: "d \<notin> set (encodeURIComponent v)" if "\<not> uri_unreserved d" and "d \<noteq> CHR ''%''" for d
    using encode_alphabet [of d v] that by blast
  have "\<not> uri_unreserved CHR ''&''" "\<not> uri_unreserved CHR ''=''"
       "\<not> uri_unreserved CHR ''?''" "\<not> uri_unreserved CHR ''#''"
    by (simp_all add: uri_unreserved_def uri_mark_def)
  then show ?thesis by (simp add: x)
qed

lemma query_pair_render:
  "query_key k \<Longrightarrow> query_pair (k @ CHR ''='' # encodeURIComponent v) = (k, Some v)"
  using encode_no_delims [of v]
  by (simp add: query_pair_def query_key_def js_split_append_sep uri_decode_encode)

lemma query_of_append: "CHR ''?'' \<notin> set base \<Longrightarrow> query_of (base @ CHR ''?'' # q) = q"
proof -
  assume "CHR ''?'' \<notin> set base"
  then have "dropWhile (\<lambda>c. c \<noteq> CHR ''?'') (base @ CHR ''?'' # q) = CHR ''?'' # q"
    by (subst dropWhile_append2) auto
  then show ?thesis by (simp add: query_of_def)
qed

lemma parse_render_query:
  assumes "CHR ''?'' \<notin> set base" and "kvs \<noteq> []" and "list_all (query_key \<circ> fst) kvs"
  shows "parse_query (base @ CHR ''?'' # render_query kvs) = map (\<lambda>(k, v). (k, Some v)) kvs"
proof -
  let ?items = "map (\<lambda>(k, v). k @ CHR ''='' # encodeURIComponent v) kvs"
  have "\<forall>w \<in> set ?items. CHR ''&'' \<notin> set w"
    using assms(3) encode_no_delims by (auto simp: list_all_iff query_key_def)
  then have "js_split CHR ''&'' (js_join CHR ''&'' ?items) = ?items"
    using assms(2) by (simp add: js_split_join)
  moreover have "map query_pair ?items = map (\<lambda>(k, v). (k, Some v)) kvs"
    using assms(3) by (auto simp: list_all_iff query_pair_render)
  ultimately show ?thesis
    using assms(1) by (simp add: parse_query_def render_query_def query_of_append)
qed

subsection \<open>Bounds\<close>

text \<open>
  The encoding is bounded and safe: it at most triples the length, its
  output consists of unreserved characters and \<open>%\<close> only, and percent-decoding
  gives the input back.
\<close>

lemma encode_bounds:
  "length s \<le> length (encodeURIComponent s) \<and> length (encodeURIComponent s) \<le> 3 * length s \<and>
   set (encodeURIComponent s) \<subseteq> Collect uri_unreserved \<union> {CHR ''%''} \<and>
   uri_decode (encodeURIComponent s) = Some s"
proof -
  have "length (filter (\<lambda>c. \<not> uri_unreserved c) s) \<le> length s" by (rule length_filter_le)
  then show ?thesis using encode_alphabet [of _ s]
    by (auto simp: encode_length uri_decode_encode)
qed

end
