(* ===== verification/Base64.thy ===== *)
theory Base64
  imports Prelude
begin

text \<open>
  The base64 encoding \<open>btoa\<close> that \<open>getSpotifyToken\<close> in
  \<open>src/src/api/spotify.js\<close> applies to \<open>CLIENT_ID:CLIENT_SECRET\<close> for its
  Basic authorisation header, with the decoder \<open>atob\<close> to state the round trip
  and the length of the encoding.
\<close>

subsection \<open>Encoder and decoder\<close>

text \<open>
  \<open>btoa\<close> (RFC 4648 base64 with padding) on a string of bytes: every three bytes
  become four characters of the alphabet \<open>A-Z a-z 0-9 + /\<close>, a final group of one
  or two bytes is padded with \<open>=\<close>.  \<open>btoa\<close> accepts only code points up to 255,
  which a byte string always satisfies.
\<close>

definition b64_char :: "nat \<Rightarrow> char" where
  "b64_char k =
     (if k < 26 then char_of (65 + k) else if k < 52 then char_of (71 + k)
      else if k < 62 then char_of (k - 4) else if k = 62 then CHR ''+'' else CHR ''/'')"

definition b64_quad :: "nat \<Rightarrow> nat \<Rightarrow> string" where
  "b64_quad n m = take m (map b64_char [n div 262144, n div 4096 mod 64, n div 64 mod 64, n mod 64]) @
                  replicate (4 - m) CHR ''=''"

fun btoa :: "string \<Rightarrow> string" where
  "btoa (a # b # c # rest) = b64_quad (65536 * of_char a + 256 * of_char b + of_char c) 4 @ btoa rest"
| "btoa [a, b] = b64_quad (65536 * of_char a + 256 * of_char b) 3"
| "btoa [a] = b64_quad (65536 * of_char a) 2"
| "btoa [] = []"

text \<open>Decoding (\<open>atob\<close>), not used by the program: it states what the header reveals.\<close>

definition b64_val :: "char \<Rightarrow> nat option" where
  "b64_val c =
     (let n = (of_char c :: nat) in
        if 65 \<le> n \<and> n \<le> 90 then Some (n - 65)
        else if 97 \<le> n \<and> n \<le> 122 then Some (n - 71)
        else if 48 \<le> n \<and> n \<le> 57 then Some (n + 4)
        else if c = CHR ''+'' then Some 62 else if c = CHR ''/'' then Some 63 else None)"

fun atob :: "string \<Rightarrow> string option" where
  "atob [] = Some []"
| "atob (w # x # y # z # rest) =
     (case (b64_val w, b64_val x) of
        (Some p, Some q) \<Rightarrow>
          (if y = CHR ''='' \<and> z = CHR ''='' \<and> rest = []
           then Some [char_of ((262144 * p + 4096 * q) div 65536)]
           else (case b64_val y of
                   None \<Rightarrow> None
                 | Some r \<Rightarrow>
                     (if z = CHR ''='' \<and> rest = []
                      then Some [char_of ((262144 * p + 4096 * q + 64 * r) div 65536),
                                 char_of ((262144 * p + 4096 * q + 64 * r) div 256 mod 256)]
                      else (case b64_val z of
                              None \<Rightarrow> None
                            | Some t \<Rightarrow>
                                (let n = 262144 * p + 4096 * q + 64 * r + t
                                 in map_option (\<lambda>s. char_of (n div 65536) # char_of (n div 256 mod 256) #
                                                     char_of (n mod 256) # s) (atob rest))))))
      | _ \<Rightarrow> None)"
| "atob _ = None"

subsection \<open>Lemmas\<close>

lemma b64_val_char [simp]: "k < 64 \<Longrightarrow> b64_val (b64_char k) = Some k"
  by (auto simp: b64_val_def b64_char_def Let_def)

lemma b64_char_not_pad [simp]: "k < 64 \<Longrightarrow> b64_char k \<noteq> CHR ''=''"
  using b64_val_char [of k] by (auto simp: b64_val_def)

lemma sextets:
  "262144 * ((n::nat) div 262144) + 4096 * (n div 4096 mod 64) + 64 * (n div 64 mod 64) + n mod 64 = n"
proof -
  have a: "n div 4096 = 64 * (n div 262144) + n div 4096 mod 64"
    using div_mult2_eq [of n 4096 64] by simp
  have b: "n div 64 = 64 * (n div 4096) + n div 64 mod 64"
    using div_mult2_eq [of n 64 64] by simp
  have c: "n = 64 * (n div 64) + n mod 64" by simp
  show ?thesis using a b c by linarith
qed

lemma of_char_lt [simp]: "(of_char c :: nat) < 256"
  by (rule nat_of_char_less_256)

lemma bytes_of_triple:
  fixes x y z :: nat
  assumes x: "x < 256" and y: "y < 256" and z: "z < 256"
  shows "(65536 * x + 256 * y + z) div 65536 = x" "(65536 * x + 256 * y + z) div 256 mod 256 = y"
        "(65536 * x + 256 * y + z) mod 256 = z" "65536 * x + 256 * y + z < 16777216"
proof -
  have "256 * y + z < 65536" using y z by linarith
  then show "(65536 * x + 256 * y + z) div 65536 = x" by simp
  have d: "(65536 * x + 256 * y + z) div 256 = 256 * x + y"
  proof -
    have "65536 * x + 256 * y + z = (256 * x + y) * 256 + z" by simp
    then show ?thesis using z by (simp only: div_mult_self1 div_less)
  qed
  then show "(65536 * x + 256 * y + z) div 256 mod 256 = y" using y by simp
  have "65536 * x + 256 * y + z = (256 * x + y) * 256 + z" by simp
  then show "(65536 * x + 256 * y + z) mod 256 = z" using z by (simp only: mod_mult_self3) simp
  show "65536 * x + 256 * y + z < 16777216" using x y z by linarith
qed

lemma atob_quad4:
  assumes "(n::nat) < 16777216"
  shows "atob (b64_quad n 4 @ rest) =
     map_option (\<lambda>s. char_of (n div 65536) # char_of (n div 256 mod 256) # char_of (n mod 256) # s) (atob rest)"
proof -
  have lt: "n div 262144 < 64" using assms by simp
  have q: "b64_quad n 4 @ rest = b64_char (n div 262144) # b64_char (n div 4096 mod 64) #
             b64_char (n div 64 mod 64) # b64_char (n mod 64) # rest"
    by (simp add: b64_quad_def)
  show ?thesis
    unfolding q using lt by (simp add: sextets Let_def)
qed

lemma atob_quad3:
  assumes "(n::nat) < 16777216" and "n mod 64 = 0"
  shows "atob (b64_quad n 3) = Some [char_of (n div 65536), char_of (n div 256 mod 256)]"
proof -
  have lt: "n div 262144 < 64" using assms by simp
  have q: "b64_quad n 3 = [b64_char (n div 262144), b64_char (n div 4096 mod 64),
             b64_char (n div 64 mod 64), CHR ''='']"
    by (simp add: b64_quad_def numeral_3_eq_3)
  have e: "262144 * (n div 262144) + 4096 * (n div 4096 mod 64) + 64 * (n div 64 mod 64) = n"
    using sextets [of n] assms(2) by simp
  show ?thesis
    unfolding q using lt by (simp add: e Let_def)
qed

lemma atob_quad2:
  assumes "(n::nat) < 16777216" and "n mod 4096 = 0"
  shows "atob (b64_quad n 2) = Some [char_of (n div 65536)]"
proof -
  have lt: "n div 262144 < 64" using assms by simp
  have q: "b64_quad n 2 = [b64_char (n div 262144), b64_char (n div 4096 mod 64), CHR ''='', CHR ''='']"
    by (simp add: b64_quad_def numeral_2_eq_2)
  have "n div 64 mod 64 = 0" "n mod 64 = 0"
    using assms(2) mod_mult2_eq [of n 64 64] by simp_all
  then have e: "262144 * (n div 262144) + 4096 * (n div 4096 mod 64) = n"
    using sextets [of n] by simp
  show ?thesis
    unfolding q using lt by (simp add: e)
qed

lemma atob_btoa: "atob (btoa s) = Some s"
proof (induction s rule: btoa.induct)
  case (1 a b c rest)
  let ?n = "65536 * of_char a + 256 * of_char b + (of_char c :: nat)"
  have b: "?n div 65536 = of_char a" "?n div 256 mod 256 = of_char b" "?n mod 256 = of_char c"
    "?n < 16777216"
    using bytes_of_triple [of "of_char a" "of_char b" "of_char c"] by simp_all
  show ?case using 1 by (simp only: btoa.simps atob_quad4 [OF b(4)] b) simp
next
  case (2 a b)
  let ?n = "65536 * of_char a + 256 * of_char b + (0 :: nat)"
  have b: "?n div 65536 = of_char a" "?n div 256 mod 256 = of_char b" "?n < 16777216"
    using bytes_of_triple [of "of_char a" "of_char b" 0] by simp_all
  have m: "?n mod 64 = 0" by simp
  show ?case using atob_quad3 [OF b(3) m] b by simp
next
  case (3 a)
  let ?n = "65536 * (of_char a :: nat)"
  have b: "?n div 65536 = of_char a" "?n < 16777216" using of_char_lt [of a] by simp_all
  have m: "?n mod 4096 = 0" by simp
  show ?case using atob_quad2 [OF b(2) m] b by simp
next
  case 4
  then show ?case by simp
qed

lemma btoa_length: "length (btoa s) = 4 * ((length s + 2) div 3)"
  by (induction s rule: btoa.induct) (simp_all add: b64_quad_def, presburger)

end
