(* ===== verification/SpotifyApi.thy ===== *)
theory SpotifyApi
  imports Session UriEncoding Base64
begin

text \<open>
  The string handling of \<open>src/src/api/spotify.js\<close> and the callback route
  \<open>src/src/components/Callback.jsx\<close>: \<open>getTokenFromHash\<close>, which reads the
  access token from the URL fragment of the implicit-grant redirect, and the
  effect of \<open>Callback\<close> that stores it; \<open>getSpotifyAuthUrl\<close> and the search URL
  of \<open>fetchTracks\<close> in \<open>src/src/App.jsx\<close>, both written with
  \<open>encodeURIComponent\<close> (theory \<open>UriEncoding\<close>); and \<open>getSpotifyToken\<close>:
  the request it posts, with the \<open>Basic\<close> credentials written by \<open>btoa\<close>
  (theory \<open>Base64\<close>), and its result or rethrown error.  The HTTP exchange
  itself is not modelled: its answer is an argument.  The templates of the two
  request builders are written over their inputs, and the code's constants are
  one instance of them.
\<close>

subsection \<open>Request URLs\<close>

text \<open>The constants of \<open>spotify.js\<close> and the authorisation URL of \<open>getSpotifyAuthUrl\<close>.\<close>

definition CLIENT_ID :: string where
  "CLIENT_ID = ''7bf016f6c9a24351b46f75530bc8a973''"

definition REDIRECT_URI :: string where
  "REDIRECT_URI = ''http://127.0.0.1:3000/callback''"

definition SCOPES :: string where
  "SCOPES = ''streaming user-read-email user-read-private user-read-playback-state user-modify-playback-state''"

text \<open>
  The template of line 9: the client id is written as it is, the redirect URI
  and the scopes through \<open>encodeURIComponent\<close>.
\<close>

definition auth_url :: "string \<Rightarrow> string \<Rightarrow> string \<Rightarrow> string" where
  "auth_url client_id redirect_uri scopes =
     ''https://accounts.spotify.com/authorize?client_id='' @ client_id @
     ''&response_type=token&redirect_uri='' @ encodeURIComponent redirect_uri @
     ''&scope='' @ encodeURIComponent scopes"

definition getSpotifyAuthUrl :: string where
  "getSpotifyAuthUrl = auth_url CLIENT_ID REDIRECT_URI SCOPES"

text \<open>The search request of \<open>fetchTracks\<close> in \<open>App.jsx\<close>.\<close>

definition search_url :: "string \<Rightarrow> string" where
  "search_url query =
     ''https://api.spotify.com/v1/search?q='' @ encodeURIComponent query @ ''&type=track&limit=10''"

subsection \<open>getSpotifyToken\<close>

text \<open>
  The client-credentials request \<open>getSpotifyToken\<close> posts from the browser: the
  body, and the headers with \<open>"Basic " + btoa(`${CLIENT_ID}:${CLIENT_SECRET}`)\<close>.
  Its result is \<open>response.data.access_token\<close> (\<open>undefined\<close> when the answer has
  none); a failed request is logged and rethrown.
\<close>

definition CLIENT_SECRET :: string where
  "CLIENT_SECRET = ''0694254cedc84d35b432190e379c70e4''"

text \<open>\<open>"Basic " + btoa(`${id}:${secret}`)\<close>.\<close>

definition basic_auth :: "string \<Rightarrow> string \<Rightarrow> string" where
  "basic_auth client_id client_secret = ''Basic '' @ btoa (client_id @ CHR '':'' # client_secret)"

record token_request =
  req_url :: string
  req_body :: string
  req_headers :: "(string \<times> string) list"

definition token_request_for :: "string \<Rightarrow> string \<Rightarrow> token_request" where
  "token_request_for client_id client_secret =
     \<lparr>req_url = ''https://accounts.spotify.com/api/token'',
      req_body = ''grant_type=client_credentials'',
      req_headers = [(''Content-Type'', ''application/x-www-form-urlencoded''),
                     (''Authorization'', basic_auth client_id client_secret)]\<rparr>"

definition spotify_token_request :: token_request where
  "spotify_token_request = token_request_for CLIENT_ID CLIENT_SECRET"

record token_response =
  access_token :: "string option"

definition getSpotifyToken :: "token_response js_result \<Rightarrow> string option js_result" where
  "getSpotifyToken r = (case r of Inl e \<Rightarrow> Inl e | Inr response \<Rightarrow> Inr (access_token response))"

subsection \<open>getTokenFromHash\<close>

text \<open>
  \<open>hash.substring(1).split("&").reduce(...)\<close>: each item is split at \<open>=\<close> and
  \<open>acc[key] = value\<close> stores the second part, \<open>undefined\<close> when there is none;
  a later item overwrites an earlier one with the same key.  The object is a
  function from keys to optional values, \<open>undefined\<close> everywhere at the start.
  The code then clears \<open>window.location.hash\<close> and returns \<open>hash.access_token\<close>.
\<close>

definition hash_item :: "(string \<Rightarrow> string option) \<Rightarrow> string \<Rightarrow> string \<Rightarrow> string option" where
  "hash_item acc item =
     (let parts = js_split CHR ''='' item
      in acc(hd parts := (case parts of _ # v # _ \<Rightarrow> Some v | _ \<Rightarrow> None)))"

definition parse_hash :: "string \<Rightarrow> string \<Rightarrow> string option" where
  "parse_hash h = foldl hash_item (\<lambda>_. None) (js_split CHR ''&'' (drop 1 h))"

definition getTokenFromHash :: "string \<Rightarrow> string option \<times> string" where
  "getTokenFromHash locationHash = (parse_hash locationHash ''access_token'', [])"

text \<open>
  \<open>Callback\<close>'s effect: a truthy token is stored with \<open>setSpotifyToken\<close> and the
  route navigates to \<open>/\<close> (the flag returned); the fragment is cleared either way.
\<close>

definition callback_effect :: "string \<Rightarrow> store \<Rightarrow> store \<times> string \<times> bool" where
  "callback_effect locationHash s =
     (let (token, h') = getTokenFromHash locationHash
      in if js_truthy_str token then (setSpotifyToken token s, h', True) else (s, h', False))"

text \<open>The fragment an authorisation server writes: \<open>#k1=v1&k2=v2...\<close>.\<close>

definition render_hash :: "(string \<times> string) list \<Rightarrow> string" where
  "render_hash kvs = CHR ''#'' # js_join CHR ''&'' (map (\<lambda>(k, v). k @ CHR ''='' # v) kvs)"

definition clean_part :: "string \<Rightarrow> bool" where
  "clean_part w = (CHR ''&'' \<notin> set w \<and> CHR ''='' \<notin> set w)"

text \<open>
  How the token endpoint reads a \<open>Basic\<close> header (RFC 7617): the prefix, the
  base64 decoding, and the user id up to the first colon.  Not part of the program.
\<close>

definition read_basic :: "string \<Rightarrow> (string \<times> string) option" where
  "read_basic h =
     (if take 6 h = ''Basic ''
      then map_option (\<lambda>u. (takeWhile (\<lambda>c. c \<noteq> CHR '':'') u, drop 1 (dropWhile (\<lambda>c. c \<noteq> CHR '':'') u)))
             (atob (drop 6 h))
      else None)"

subsection \<open>Lemmas\<close>

lemma hash_item_pair:
  "clean_part k \<Longrightarrow> clean_part v \<Longrightarrow> hash_item acc (k @ CHR ''='' # v) = acc(k := Some v)"
  by (simp add: hash_item_def clean_part_def js_split_append_sep)

lemma foldl_hash_items:
  "\<forall>(k, v) \<in> set kvs. clean_part k \<and> clean_part v \<Longrightarrow>
   foldl hash_item acc (map (\<lambda>(k, v). k @ CHR ''='' # v) kvs) =
   (\<lambda>x. case map_of (rev kvs) x of Some v \<Rightarrow> Some v | None \<Rightarrow> acc x)"
proof (induction kvs arbitrary: acc)
  case Nil
  then show ?case by (simp add: fun_eq_iff split: option.splits)
next
  case (Cons kv kvs)
  obtain k v where kv: "kv = (k, v)" by fastforce
  with Cons.prems have "clean_part k" "clean_part v" by auto
  then have "hash_item acc (k @ CHR ''='' # v) = acc(k := Some v)" by (rule hash_item_pair)
  with Cons kv show ?case
    by (auto simp: fun_eq_iff map_of_append split: option.splits)
qed

lemma parse_render_hash:
  assumes "kvs \<noteq> []" and "\<forall>(k, v) \<in> set kvs. clean_part k \<and> clean_part v"
  shows "parse_hash (render_hash kvs) = map_of (rev kvs)"
proof -
  have "\<forall>w \<in> set (map (\<lambda>(k, v). k @ CHR ''='' # v) kvs). CHR ''&'' \<notin> set w"
    using assms(2) by (auto simp: clean_part_def)
  then have "js_split CHR ''&'' (js_join CHR ''&'' (map (\<lambda>(k, v). k @ CHR ''='' # v) kvs)) =
             map (\<lambda>(k, v). k @ CHR ''='' # v) kvs"
    using assms(1) by (simp add: js_split_join)
  then show ?thesis
    using foldl_hash_items [OF assms(2), of "\<lambda>_. None"]
    by (simp add: parse_hash_def render_hash_def fun_eq_iff split: option.splits)
qed

lemma auth_url_query:
  assumes "list_all uri_unreserved cid"
  shows "auth_url cid r sc = ''https://accounts.spotify.com/authorize'' @ CHR ''?'' #
     render_query [(''client_id'', cid), (''response_type'', ''token''),
                   (''redirect_uri'', r), (''scope'', sc)]"
proof -
  have "encodeURIComponent cid = cid" "encodeURIComponent ''token'' = ''token''"
    using assms by (simp_all add: encode_unreserved uri_unreserved_def)
  then show ?thesis by (simp add: auth_url_def render_query_def)
qed

lemma CLIENT_ID_unreserved: "list_all uri_unreserved CLIENT_ID"
  by (simp add: CLIENT_ID_def uri_unreserved_def)

lemma search_url_query:
  "search_url q = ''https://api.spotify.com/v1/search'' @ CHR ''?'' #
     render_query [(''q'', q), (''type'', ''track''), (''limit'', ''10'')]"
proof -
  have "encodeURIComponent ''track'' = ''track''" "encodeURIComponent ''10'' = ''10''"
    by (simp_all add: encode_unreserved uri_unreserved_def)
  then show ?thesis by (simp add: search_url_def render_query_def)
qed

subsection \<open>Properties\<close>

text \<open>
  C36: reading the access token back from a fragment written as
  \<open>#k1=v1&...\<close> (keys and values free of \<open>&\<close> and \<open>=\<close>) gives the value of the
  last \<open>access_token\<close> pair, and clears the fragment.
\<close>

theorem token_roundtrip:
  assumes "kvs \<noteq> []" and "\<forall>(k, v) \<in> set kvs. clean_part k \<and> clean_part v"
  shows "getTokenFromHash (render_hash kvs) = (map_of (rev kvs) ''access_token'', [])"
  using parse_render_hash [OF assms] by (simp add: getTokenFromHash_def)

theorem token_roundtrip_witness:
  "[(''access_token'', ''old''), (''access_token'', ''BQD1'')] \<noteq> [] \<and>
   getTokenFromHash (render_hash [(''access_token'', ''old''), (''access_token'', ''BQD1'')]) =
     (Some ''BQD1'', [])"
proof -
  have c: "\<forall>(k, v) \<in> set [(''access_token'', ''old''), (''access_token'', ''BQD1'')]. clean_part k \<and> clean_part v"
    by (simp add: clean_part_def)
  show ?thesis using token_roundtrip [OF _ c] c by simp
qed

text \<open>
  On the redirect of the implicit grant
  (\<open>#access_token=T&token_type=Bearer&expires_in=N\<close>) the callback route stores
  \<open>T\<close> as the streaming token, clears the fragment and navigates home.
\<close>

lemma callback_stores_token:
  assumes "tok \<noteq> []" and "clean_part tok" and "clean_part n"
  shows "callback_effect (render_hash [(''access_token'', tok), (''token_type'', ''Bearer''), (''expires_in'', n)]) s =
           (s\<lparr>spotifyToken := Some tok\<rparr>, [], True)"
proof -
  have "getTokenFromHash (render_hash [(''access_token'', tok), (''token_type'', ''Bearer''), (''expires_in'', n)]) =
          (Some tok, [])"
    using assms by (simp add: token_roundtrip clean_part_def)
  with assms(1) show ?thesis by (simp add: callback_effect_def setSpotifyToken_def)
qed

text \<open>
  A fragment without an \<open>access_token\<close> key (an error redirect such as
  \<open>#error=access_denied\<close>, or an empty fragment) stores nothing and does not
  navigate.
\<close>

lemma callback_without_token:
  assumes "\<forall>(k, v) \<in> set kvs. clean_part k \<and> clean_part v" and "''access_token'' \<notin> fst ` set kvs"
  shows "callback_effect (render_hash kvs) s = (s, [], False) \<and> callback_effect [] s = (s, [], False)"
proof (cases "kvs = []")
  case True
  then show ?thesis
    by (simp add: callback_effect_def getTokenFromHash_def parse_hash_def render_hash_def hash_item_def)
next
  case False
  have "map_of (rev kvs) ''access_token'' = None" using assms(2) by (simp add: map_of_eq_None_iff)
  with parse_render_hash [OF False assms(1)] show ?thesis
    by (simp add: callback_effect_def getTokenFromHash_def parse_hash_def hash_item_def)
qed

text \<open>
  C40: for every client id made of unreserved characters (the code writes it
  without encoding) and every redirect URI and scope list, the authorisation
  URL carries exactly four query parameters, which read back as the client id,
  \<open>response_type=token\<close> (the implicit grant whose fragment
  \<open>getTokenFromHash\<close> reads), the redirect URI and the scopes: \<open>&\<close>, \<open>=\<close>,
  \<open>?\<close> or \<open>#\<close> in the two encoded values cannot add or cut parameters.
\<close>

theorem auth_url_params:
  assumes "list_all uri_unreserved cid"
  shows "parse_query (auth_url cid r sc) =
     [(''client_id'', Some cid), (''response_type'', Some ''token''),
      (''redirect_uri'', Some r), (''scope'', Some sc)]"
  unfolding auth_url_query [OF assms] by (subst parse_render_query) (simp_all add: query_key_def)

theorem auth_url_params_witness:
  "list_all uri_unreserved CLIENT_ID \<and>
   parse_query getSpotifyAuthUrl =
     [(''client_id'', Some CLIENT_ID), (''response_type'', Some ''token''),
      (''redirect_uri'', Some REDIRECT_URI), (''scope'', Some SCOPES)]"
  using auth_url_params [OF CLIENT_ID_unreserved] CLIENT_ID_unreserved
  by (simp add: getSpotifyAuthUrl_def)

text \<open>
  C20: whatever the user types, the search request carries the query as
  its \<open>q\<close> parameter unchanged, followed by \<open>type=track\<close> and \<open>limit=10\<close>:
  \<open>&\<close>, \<open>=\<close> or \<open>#\<close> in the query cannot add or cut parameters.
\<close>

theorem search_url_params:
  "parse_query (search_url q) = [(''q'', Some q), (''type'', Some ''track''), (''limit'', Some ''10'')]"
  unfolding search_url_query by (subst parse_render_query) (simp_all add: query_key_def)

text \<open>
  C28: for every client id without a colon and every secret, the
  Authorization header of the token request is read by the endpoint as exactly
  that id and secret, and is \<open>6 + 4 \<lceil>(n + 1) / 3\<rceil>\<close> characters long for
  \<open>n\<close> bytes of id and secret.  Whoever can read the page's requests or its
  bundle recovers the secret the same way.
\<close>

theorem token_request_credentials:
  assumes "CHR '':'' \<notin> set cid"
  shows "map_option read_basic (map_of (req_headers (token_request_for cid secret)) ''Authorization'') =
           Some (Some (cid, secret)) \<and>
         length (basic_auth cid secret) = 6 + 4 * ((length cid + length secret + 3) div 3)"
proof -
  have "takeWhile (\<lambda>c. c \<noteq> CHR '':'') (cid @ CHR '':'' # secret) = cid"
       "dropWhile (\<lambda>c. c \<noteq> CHR '':'') (cid @ CHR '':'' # secret) = CHR '':'' # secret"
    using assms by (induction cid) auto
  then show ?thesis
    by (simp add: token_request_for_def basic_auth_def read_basic_def atob_btoa btoa_length)
qed

theorem token_request_credentials_witness:
  "CHR '':'' \<notin> set CLIENT_ID \<and>
   map_option read_basic (map_of (req_headers spotify_token_request) ''Authorization'') =
     Some (Some (CLIENT_ID, CLIENT_SECRET))"
proof -
  have c: "CHR '':'' \<notin> set CLIENT_ID" by (simp add: CLIENT_ID_def)
  show ?thesis using token_request_credentials [OF c] c by (simp add: spotify_token_request_def)
qed

end
