(* ===== verification/BuildConfig.thy ===== *)
theory BuildConfig
  imports Shell SpotifyApi
begin

text \<open>
  The build and server configuration \<open>src/vite.config.js\<close> as data: the
  options of the preview server (\<open>vite preview\<close>), of the development server
  (\<open>vite\<close>) and of the JSX transform.  Options the file does not set take Vite's
  documented defaults; the only one used here is the development server's port,
  5173.  The configuration is read against the redirect URI of
  \<open>src/src/api/spotify.js\<close>, to which the authorisation server sends the browser.
\<close>

subsection \<open>The configuration\<close>

record preview_options =
  preview_port :: nat
  strictPort :: bool
  preview_host :: string
  preview_allowedHosts :: bool

record vite_config =
  plugins :: "string list"
  preview :: preview_options
  server_port :: "nat option"
  server_allowedHosts :: bool
  jsxFactory :: string
  jsxFragment :: string

definition vite_config :: vite_config where
  "vite_config =
     \<lparr>plugins = [''react''],
      preview = \<lparr>preview_port = 8080, strictPort = True, preview_host = ''0.0.0.0'',
                 preview_allowedHosts = True\<rparr>,
      server_port = None,
      server_allowedHosts = True,
      jsxFactory = ''React.createElement'',
      jsxFragment = ''React.Fragment''\<rparr>"

definition vite_default_port :: nat where
  "vite_default_port = 5173"

text \<open>The port the development server listens on when it is free.\<close>

definition dev_port :: "vite_config \<Rightarrow> nat" where
  "dev_port cfg = (case server_port cfg of Some p \<Rightarrow> p | None \<Rightarrow> vite_default_port)"

text \<open>The ports on which the configuration serves the application.\<close>

definition served_ports :: "vite_config \<Rightarrow> nat set" where
  "served_ports cfg = {dev_port cfg, preview_port (preview cfg)}"

subsection \<open>Reading a URL\<close>

text \<open>
  \<open>scheme://host:port/path\<close>: the authority runs from after \<open>://\<close> to the
  next \<open>/\<close>, the port follows its \<open>:\<close>, the path is the rest.
\<close>

definition url_authority :: "string \<Rightarrow> string" where
  "url_authority u = takeWhile (\<lambda>c. c \<noteq> CHR ''/'') (drop 3 (dropWhile (\<lambda>c. c \<noteq> CHR '':'') u))"

definition url_port :: "string \<Rightarrow> nat option" where
  "url_port u = parse_nat (drop 1 (dropWhile (\<lambda>c. c \<noteq> CHR '':'') (url_authority u)))"

definition url_path :: "string \<Rightarrow> string" where
  "url_path u = dropWhile (\<lambda>c. c \<noteq> CHR ''/'') (drop 3 (dropWhile (\<lambda>c. c \<noteq> CHR '':'') u))"

subsection \<open>Properties\<close>

text \<open>
  The redirect URI names the callback route of \<open>App\<close>, but on port
  3000, where neither the development server (5173) nor the preview server
  (8080) of the configuration listens: after authorisation the browser is sent
  to a port that does not serve the application.
\<close>

lemma redirect_not_served:
  "url_path REDIRECT_URI = ''/callback'' \<and> route_of_path (url_path REDIRECT_URI) = Some CallbackPath \<and>
   url_port REDIRECT_URI = Some 3000 \<and> 3000 \<notin> served_ports vite_config"
proof -
  have p: "url_path REDIRECT_URI = ''/callback''"
    by (simp add: url_path_def REDIRECT_URI_def)
  have "url_port REDIRECT_URI = Some 3000"
    by code_simp
  then show ?thesis using p
    by (simp add: route_of_path_def served_ports_def dev_port_def vite_config_def vite_default_port_def)
qed

end
