(* ===== verification/Spec2Isabelle.thy ===== *)
theory Spec2Isabelle
  imports AppEvents Screens BuildConfig
begin

text \<open>
  \<^bold>\<open>A verification library for the Music-player client.\<close>

  The program (\<open>src/src\<close>) is a React single-page client.  \<open>App.jsx\<close> holds the
  playback state (the track list of the last search, the current index, the
  playing flag), searches a track catalogue, plays 30-second previews or, when a
  streaming token is present, drives the Spotify Web Playback SDK.  The zustand
  store of \<open>store.jsx\<close> holds the favourites, the named playlists, the Supabase
  user and the streaming token.  \<open>NowPlaying.jsx\<close> and \<open>Playlist.jsx\<close> are the
  two views, \<open>Auth.jsx\<close> the sign-in form, \<open>ErrorBoundary.jsx\<close> the frame of
  the main route; \<open>Callback.jsx\<close> stores the token that \<open>api/spotify.js\<close>
  reads from the redirect fragment of the URL \<open>getSpotifyAuthUrl\<close> builds.
  The views call the store and the handlers of \<open>App\<close>; \<open>App\<close>'s effects react
  to the store's token and authentication state and to its own state.

  \<^bold>\<open>Theories and correspondence with the code.\<close>
  \<^item> \<open>Prelude\<close>: the JavaScript semantics the components share: the remainder
    operator \<open>%\<close> as \<open>smod\<close> (truncated, sign of the dividend), \<open>findIndex\<close>
    with its \<open>-1\<close>, \<open>||\<close> on numbers and strings, \<open>arr[i]\<close> as an option,
    \<open>trim\<close> (ASCII and Unicode white space as UTF-8 byte sequences),
    \<open>split\<close> and \<open>join\<close>, \<open>toString\<close> and \<open>padStart(2, "0")\<close>
    of numbers, with the decimal reader \<open>parse_nat\<close> used for round trips.
    Errors are values of \<open>js_error + 'a\<close>; a thrown \<open>TypeError\<close> is
    \<open>Inl TypeError\<close>.
  \<^item> \<open>UriEncoding\<close>: \<open>encodeURIComponent\<close> on byte strings, with a
    percent-decoder and a query-string reader that are not part of the program
    and state what the encoding guarantees.
  \<^item> \<open>Base64\<close>: \<open>btoa\<close> on byte strings, with the decoder \<open>atob\<close> for the
    round trip and the length of the encoding.
  \<^item> \<open>Track\<close>: the object literal \<open>fetchTracks\<close> builds from a search item
    (\<open>to_track\<close>, \<open>fetched_tracks\<close>).
  \<^item> \<open>Store\<close>: the store record and each favourite and playlist operation of
    \<open>store.jsx\<close> under its own name, a \<open>store_op\<close> datatype with \<open>store_step\<close>
    and \<open>store_run\<close> for sequences of operations, and two abstractions: the set
    of favourite keys \<open>fav_ids\<close> and the playlists as lists \<open>pl_abs\<close>.
  \<^item> \<open>Session\<close>: the authentication operations of the store and \<open>App\<close>'s
    \<open>onAuthStateChange\<close> listener; the Supabase answers are arguments.
  \<^item> \<open>Playback\<close>: \<open>App\<close>'s React state as a record and its handlers
    \<open>togglePlay\<close>, \<open>nextTrack\<close>, \<open>prevTrack\<close>, \<open>playTrack\<close>, \<open>handleSearch\<close>,
    the two halves of \<open>fetchTracks\<close> and the \<open>player_state_changed\<close>
    listener.  A handler returns the SDK commands it issues with the new state.
  \<^item> \<open>Views\<close>: the handlers and derived values of \<open>NowPlaying.jsx\<close> and
    \<open>Playlist.jsx\<close> (\<open>isFavorite\<close>, \<open>handleFavoriteToggle\<close>,
    \<open>handleAddToPlaylist\<close>, \<open>handleSeek\<close>, both \<open>formatTime\<close>s, \<open>displayTracks\<close>,
    the tab state).
  \<^item> \<open>Screens\<close>: what the views display, as values: NowPlaying's progress
    listener and screen, with the JavaScript numbers a division gives (\<open>NaN\<close>,
    the infinities), Playlist's rows with their play and remove actions, and the
    older \<open>Player.jsx\<close> view with its \<open>Audio\<close> events and seek.
  \<^item> \<open>Auth\<close>: the sign-in form of \<open>Auth.jsx\<close> as a step function
    \<open>auth_step\<close> over the form and the store, \<open>handleSubmit\<close> split at its
    \<open>await\<close>, and its rendered screen.
  \<^item> \<open>Shell\<close>: \<open>App\<close>'s authentication effect \<open>setupAuth\<close>, the error
    boundary, and the screen \<open>App\<close> renders (routes, boundary, signed-in page,
    \<open>Auth\<close>).
  \<^item> \<open>AppEvents\<close>: the whole client as an event system \<open>sys_step\<close> over a
    record \<open>sys\<close> of the \<open>App\<close> state, the store, the SDK objects, the effects'
    dependency values and the searches in flight; \<open>reach\<close> is the inductive
    set of reachable states.  The catalogue is a parameter.  \<open>settle\<close> runs
    the effects a render leaves pending, as React does, until none is.
  \<^item> \<open>SpotifyApi\<close>: \<open>getTokenFromHash\<close>, the effect of \<open>Callback\<close>,
    \<open>getSpotifyAuthUrl\<close>, the search URL of \<open>fetchTracks\<close>, and the request and
    result of \<open>getSpotifyToken\<close>; the two request builders are written over
    their inputs (\<open>auth_url\<close>, \<open>token_request_for\<close>), with the constants of
    \<open>spotify.js\<close> as the instance the code uses.
  \<^item> \<open>BuildConfig\<close>: \<open>vite.config.js\<close> as a record, the ports it serves the
    application on (the development server on Vite's default port 5173, since
    the file sets none), and the redirect URI read against them.
  \<^item> This theory: the properties that span the components (what a logout
    shows, across the event system, the views and the screen of \<open>App\<close>).

  \<^bold>\<open>What is proved.\<close>  Functional behaviour of each handler on each branch
  (errors included), the index invariant \<open>index_ok\<close> preserved by every handler
  and broken only by the SDK notification, \<open>nextTrack\<close> cycling through the list
  and \<open>prevTrack\<close> undoing it, the favourites invariant (no two favourites share
  a \<open>src\<close>) over every sequence of store operations and every reachable state,
  refinements of the store into sets and lists of keys, the authentication
  invariant under the session operations, the sign-in form's spinner being on
  exactly while a request is in flight, the page \<open>App\<close> shows after each answer
  to a sign-in and after a logout, a search starting a request only when it
  changes the query, equivalence of the two \<open>formatTime\<close>s and of
  \<open>setupAuth\<close> with \<open>initializeAuth\<close>, round trips (the clock string, the
  token fragment, the authorisation and search URLs for every input, the
  \<open>Basic\<close> credentials of the token request, a seek in \<open>Player.jsx\<close>),
  bounds (the progress bar), safety of the Playlist's remove button, liveness of
  the searches in flight, termination of the effect loop after a render, and
  the interleavings that go wrong: a stale SDK listener, a disconnected player
  that is still used, a stale search that overwrites a newer one.  Several
  theorems state behaviour that disagrees with the intent of the code; they are
  listed as findings in the manifest.

  \<^bold>\<open>Bounds.\<close>  No function of the model needs fuel: every loop of the code is
  a \<open>map\<close>, \<open>filter\<close>, \<open>findIndex\<close>, \<open>split\<close> or \<open>reduce\<close> over a finite
  list and is a structural recursion here, the percent- and base64 decoders
  consume at least one character per call, and \<open>strip_ws\<close> (inside
  \<open>trim\<close>) removes at least one byte per round, its termination measure.  The one loop whose end is not
  evident, React re-running effects after the renders they cause, is the
  partial function \<open>settle\<close> (\<open>None\<close> would be a render loop that never
  ends), and \<open>settle_terminates\<close> shows it returns after at most one round.
  Indices are unbounded integers, as JavaScript numbers are for any list a
  browser can hold; times are reals, with \<open>NaN\<close>
  and the infinities only where the code divides.  Characters are bytes, so
  \<open>encodeURIComponent\<close> works on the UTF-8 bytes of a string.

  \<^bold>\<open>Not modelled.\<close>  Layout, class names and styling of the JSX; the
  HTTP exchanges themselves (\<open>axios\<close>, Supabase) and the internals of the SDK,
  whose answers enter as arguments; the order of \<open>Object.keys\<close>, an argument of
  the tab list and of NowPlaying's playlist buttons (the store keeps playlists as
  a map, without insertion order); keys inherited from \<open>Object.prototype\<close>
  (a playlist named \<open>toString\<close>), which no path of the user interface creates;
  the \<open>Audio\<close> element of \<open>App\<close>'s \<open>audioRef\<close>, which no code path plays;
  the \<open>type="email"\<close> check of the browser, a parameter of \<open>auth_step\<close>; the
  plugin and esbuild options of \<open>vite.config.js\<close>, recorded as data only;
  strings that are not well-formed UTF-16 (a lone surrogate, on which
  \<open>encodeURIComponent\<close> throws \<open>URIError\<close>), since the model's strings are
  the UTF-8 bytes of well-formed ones.
\<close>

section \<open>Properties across components\<close>

text \<open>
  C31: a successful logout, from any state of the client, shows the sign-in
  form on the main route and makes the Playlist view list the search results
  with no remove button; but it leaves \<open>App\<close>'s playback state (queue, index,
  playing flag, player) and the searches in flight as they were, so what was
  playing goes on playing behind the sign-in form.
\<close>

theorem logout_screen:
  assumes "sys_step cat (EvSession (Logout None)) s = Inr s'"
  shows "app_render RootPath boundary_init (st s') (app s') f = SignedOut (auth_view f (st s')) \<and>
         displayTracks (st s') ts = ts \<and> list_all (\<lambda>r. row_remove r = None) (pl_rows (st s') ts) \<and>
         app s' = app s \<and> pending s' = pending s"
proof -
  have s': "s' = s\<lparr>st := (st s)\<lparr>user := None, isAuthenticated := False, favorites := [],
                      playlists := Map.empty, currentPlaylist := None, authLoading := False,
                      spotifyToken := None\<rparr>\<rparr>"
    using assms by (simp add: logout_def)
  have "list_all (\<lambda>r. row_remove r = None) (pl_rows (st s') ts)"
    using s' by (auto simp: list_all_iff pl_rows_def pl_row_def in_set_enumerate_eq)
  with s' show ?thesis
    by (simp add: app_render_def boundary_init_def displayTracks_def)
qed

theorem logout_screen_witness:
  "sys_step (\<lambda>_. Inr []) (EvSession (Logout None)) (init_sys\<lparr>st := ex_signed_in\<rparr>) =
     Inr (init_sys\<lparr>st := ex_form_store\<rparr>) \<and>
   app_render RootPath boundary_init ex_form_store initial_app initial_auth_form =
     SignedOut (auth_view initial_auth_form ex_form_store) \<and>
   displayTracks ex_form_store [ex_a] = [ex_a]"
proof -
  have st: "sys_step (\<lambda>_. Inr []) (EvSession (Logout None)) (init_sys\<lparr>st := ex_signed_in\<rparr>) =
     Inr (init_sys\<lparr>st := ex_form_store\<rparr>)"
    by (simp add: logout_def ex_signed_in_def ex_form_store_def initial_store_def)
  have "app (init_sys\<lparr>st := ex_form_store\<rparr>) = initial_app" by (simp add: init_sys_def)
  then show ?thesis
    using logout_screen [OF st, of initial_auth_form "[ex_a]"] st by simp
qed

end
